theory Spec2Isabelle
  imports Main "HOL-Library.Word"
begin

unbundle bit_operations_syntax

section \<open>The IKBD engine of \<^verbatim>\<open>src/bios/v4sa_ikbd.c\<close>: data\<close>

text \<open>
  The keyboard processor emulation keeps all of its state in file-level and function-level
  statics. The model gathers them in one record and passes it through every function.
  Conventions:
  \<^item> \<^verbatim>\<open>uint8_t\<close>, \<^verbatim>\<open>uint16_t\<close>, \<^verbatim>\<open>uint32_t\<close> are words of that width; the signed
    registers \<^verbatim>\<open>v4sa_mousex\<close>, \<^verbatim>\<open>v4sa_mousey\<close> (\<^verbatim>\<open>int16_t\<close>) and \<^verbatim>\<open>v4sa_mousew\<close>
    (\<^verbatim>\<open>int8_t\<close>) are words read with \<open>sint\<close>.
  \<^item> Fields of C type \<^verbatim>\<open>int\<close> are HOL integers. Every value the code stores in them comes
    from a byte, a 16-bit register or a small constant (coordinates are at most 16 bits wide,
    scales and thresholds at most 8), so a C \<^verbatim>\<open>int\<close> of 32 bits holds them without overflow;
    conversions to a narrower C type (\<^verbatim>\<open>(int8_t)\<close>, the \<^verbatim>\<open>uint32_t\<close> parameter of the
    output routine) are written out with \<open>word_of_int\<close>.
  \<^item> \<^verbatim>\<open>MouseMode\<close> and \<^verbatim>\<open>JoystickMode\<close> hold one of the six \<^verbatim>\<open>AUTOMODE_\<close> constants;
    both fields share one datatype, as both share the constants in the header.
  \<^item> Function pointers are values of a datatype naming the functions they can point to,
    \<open>None\<close> being the null pointer.
  \<^item> \<^verbatim>\<open>acia_ikbd_rx\<close> is external; the model records the argument of each call, in call
    order, in the field \<open>acia\<close>.
  \<^item> The members \<^verbatim>\<open>dx\<close>, \<^verbatim>\<open>dy\<close> of \<^verbatim>\<open>MOUSE\<close> are never accessed and are left out.
\<close>

type_synonym byte = "8 word"

datatype automode =
    AUTOMODE_OFF
  | AUTOMODE_MOUSEREL
  | AUTOMODE_MOUSEABS
  | AUTOMODE_MOUSECURSOR
  | AUTOMODE_JOYSTICK
  | AUTOMODE_JOYSTICK_MONITORING

abbreviation (input) BUTTON_NULL :: int where "BUTTON_NULL \<equiv> 0"
abbreviation (input) BUTTON_MOUSE :: int where "BUTTON_MOUSE \<equiv> 1"
abbreviation (input) BUTTON_JOYSTICK :: int where "BUTTON_JOYSTICK \<equiv> 2"

abbreviation (input) ATARIJOY_BITMASK_UP :: byte where "ATARIJOY_BITMASK_UP \<equiv> 0x01"
abbreviation (input) ATARIJOY_BITMASK_DOWN :: byte where "ATARIJOY_BITMASK_DOWN \<equiv> 0x02"
abbreviation (input) ATARIJOY_BITMASK_LEFT :: byte where "ATARIJOY_BITMASK_LEFT \<equiv> 0x04"
abbreviation (input) ATARIJOY_BITMASK_RIGHT :: byte where "ATARIJOY_BITMASK_RIGHT \<equiv> 0x08"
abbreviation (input) ATARIJOY_BITMASK_FIRE :: byte where "ATARIJOY_BITMASK_FIRE \<equiv> 0x80"

abbreviation (input) ABS_PREVBUTTONS :: byte where "ABS_PREVBUTTONS \<equiv> 0x0A"
abbreviation (input) IKBD_ROM_VERSION :: "32 word" where "IKBD_ROM_VERSION \<equiv> 0xF1"
abbreviation (input) CRC32_POLY :: "32 word" where "CRC32_POLY \<equiv> 0x04c11db7"
abbreviation (input) SIZE_KEYBOARDINPUT_BUFFER :: nat where "SIZE_KEYBOARDINPUT_BUFFER \<equiv> 8"

text \<open>The two registers a joypad's \<^verbatim>\<open>input.source\<close> can point to.\<close>

datatype joy_source = Ptr_v4sa_joyb0 | Ptr_v4sa_joyb1

text \<open>
  \<^verbatim>\<open>joypad_t\<close>. The byte that follows \<^verbatim>\<open>map.joystick\<close> in the struct is the first byte of
  the pointer \<^verbatim>\<open>input.source\<close>, and \<^verbatim>\<open>resolve_address\<close>, which accepts the end address of a
  range, hands this byte out as well. \<open>input_source\<close> is the pointer as \<^verbatim>\<open>IKBD_Init\<close> stores
  it; \<open>input_source_byte0\<close> is \<open>None\<close> as long as the pointer is untouched, and \<open>Some v\<close>
  once a store through the end address has put \<open>v\<close> over its first byte.
\<close>

record joypad_t =
  map_scancode :: "byte list"
  map_joystick :: "byte list"
  input_source :: joy_source
  input_source_byte0 :: "byte option"
  input_state :: "16 word"
  joystick :: byte

datatype read_handler =
    FroggiesMenu_Read
  | Transbeauce2Menu_Read
  | DragonnelsMenu_Read
  | ChaosAD_Read
  | AudioSculpture_Color_Read
  | AudioSculpture_Mono_Read

datatype write_handler =
    CommonBoot
  | FroggiesMenu_Write
  | Transbeauce2Menu_Write
  | DragonnelsMenu_Write
  | ChaosAD_Write
  | AudioSculpture_Write

record ikbd =
  \<comment> \<open>\<^verbatim>\<open>KeyboardProcessor.Abs\<close>\<close>
  Abs_X :: int
  Abs_Y :: int
  Abs_MaxX :: int
  Abs_MaxY :: int
  Abs_PrevReadAbsMouseButtons :: byte
  \<comment> \<open>\<^verbatim>\<open>KeyboardProcessor.Mouse\<close>\<close>
  Mouse_DeltaX :: int
  Mouse_DeltaY :: int
  Mouse_XScale :: int
  Mouse_YScale :: int
  Mouse_XThreshold :: int
  Mouse_YThreshold :: int
  Mouse_KeyCodeDeltaX :: byte
  Mouse_KeyCodeDeltaY :: byte
  Mouse_YAxis :: int
  Mouse_Action :: byte
  \<comment> \<open>\<^verbatim>\<open>KeyboardProcessor.Joy\<close>: \<^verbatim>\<open>JoyData[2]\<close>, \<^verbatim>\<open>PrevJoyData[2]\<close>\<close>
  JoyData0 :: byte
  JoyData1 :: byte
  PrevJoyData0 :: byte
  PrevJoyData1 :: byte
  MouseMode :: automode
  JoystickMode :: automode
  \<comment> \<open>\<^verbatim>\<open>Keyboard\<close>\<close>
  PauseOutput :: bool
  InputBuffer :: "byte list"
  nBytesInInputBuffer :: nat
  bLButtonDown :: int
  bRButtonDown :: int
  bOldLButtonDown :: int
  bOldRButtonDown :: int
  AutoSendCycles :: int
  \<comment> \<open>file-level flags\<close>
  bMouseDisabled :: bool
  bJoystickDisabled :: bool
  bDuringResetCriticalTime :: bool
  bBothMouseAndJoy :: bool
  bMouseEnabledDuringReset :: bool
  ikbd_reset_counter :: "16 word"
  \<comment> \<open>\<^verbatim>\<open>IKBD\<close>\<close>
  Clock :: "byte list"
  Clock_micro :: int
  \<comment> \<open>custom 6301 program emulation\<close>
  MemoryLoadNbBytesAddr :: int
  MemoryLoadNbBytesTotal :: int
  MemoryLoadNbBytesLeft :: int
  MemoryLoadCrc :: "32 word"
  MemoryExeNbBytes :: int
  pIKBD_CustomCodeHandler_Read :: "read_handler option"
  pIKBD_CustomCodeHandler_Write :: "write_handler option"
  IKBD_ExeMode :: bool
  ScanCodeState :: "byte list"
  \<comment> \<open>function-level statics\<close>
  mouseb_old :: byte
  ChaosAD_FirstCall :: bool
  ChaosAD_IgnoreNb :: int
  ChaosAD_Index :: int
  ChaosAD_Count :: int
  ASmagic :: bool
  AudioSculpture_ReadCount :: int
  \<comment> \<open>memory reachable through \<^verbatim>\<open>resolve_address\<close>\<close>
  joypad :: "joypad_t list"
  v4sa_scancodes :: "byte list"
  \<comment> \<open>what depends on where the linker puts things\<close>
  after_scancodes :: byte
  source_byte0 :: "joy_source \<Rightarrow> byte"
  stray_source :: "joy_source \<Rightarrow> byte \<Rightarrow> 16 word"
  \<comment> \<open>live input registers\<close>
  v4sa_mousex :: "16 word"
  v4sa_mousey :: "16 word"
  v4sa_mouseb :: byte
  v4sa_mousew :: byte
  v4sa_joyb0 :: "16 word"
  v4sa_joyb1 :: "16 word"
  \<comment> \<open>arguments of the calls of \<^verbatim>\<open>acia_ikbd_rx\<close>\<close>
  acia :: "32 word list"

section \<open>Output and checksum\<close>

definition acia_ikbd_rx :: "32 word \<Rightarrow> ikbd \<Rightarrow> ikbd" where
  "acia_ikbd_rx d s = s\<lparr>acia := acia s @ [d]\<rparr>"

text \<open>A run of consecutive calls of \<^verbatim>\<open>acia_ikbd_rx\<close>.\<close>

definition acia_ikbd_rx_seq :: "32 word list \<Rightarrow> ikbd \<Rightarrow> ikbd" where
  "acia_ikbd_rx_seq ds s = foldl (\<lambda>t d. acia_ikbd_rx d t) s ds"

definition crc32_reset :: "32 word" where
  "crc32_reset = 0xffffffff"

text \<open>
  \<^verbatim>\<open>crc32_add_byte\<close>. The test \<^verbatim>\<open>(c & 0x80) ^ (*crc & 0x80000000)\<close> XORs two masks that sit
  at different bit positions, so it is non-zero as soon as either bit is set.
\<close>

fun crc32_add_bits :: "nat \<Rightarrow> 32 word \<Rightarrow> byte \<Rightarrow> 32 word" where
  "crc32_add_bits 0 crc c = crc"
| "crc32_add_bits (Suc n) crc c =
     crc32_add_bits n
       (if (ucast (c AND 0x80) :: 32 word) XOR (crc AND 0x80000000) \<noteq> 0
        then push_bit 1 crc XOR CRC32_POLY
        else push_bit 1 crc)
       (push_bit 1 c)"

definition crc32_add_byte :: "32 word \<Rightarrow> byte \<Rightarrow> 32 word" where
  "crc32_add_byte crc c = crc32_add_bits 8 crc c"

text \<open>The checksum of a whole byte sequence, from the reset value.\<close>

definition crc32_of :: "byte list \<Rightarrow> 32 word" where
  "crc32_of bs = foldl crc32_add_byte crc32_reset bs"

section \<open>Initialisation and reset\<close>

definition default_scancodes :: "byte list" where
  "default_scancodes =
    [0x5b, 0x02, 0x03, 0x04, 0x05, 0x06, 0x07, 0x08,
     0x09, 0x0a, 0x0b, 0x0c, 0x0d, 0x29, 0x00, 0x70,
     0x10, 0x11, 0x12, 0x13, 0x14, 0x15, 0x16, 0x17,
     0x18, 0x19, 0x1a, 0x1b, 0x00, 0x6d, 0x6e, 0x6f,
     0x1e, 0x1f, 0x20, 0x21, 0x22, 0x23, 0x24, 0x25,
     0x26, 0x27, 0x28, 0x2b, 0x00, 0x6a, 0x6b, 0x6c,
     0x60, 0x2c, 0x2d, 0x2e, 0x2f, 0x30, 0x31, 0x32,
     0x33, 0x34, 0x35, 0x00, 0x71, 0x67, 0x68, 0x69,
     0x39, 0x0e, 0x0f, 0x72, 0x1c, 0x01, 0x53, 0x00,
     0x00, 0x00, 0x4a, 0x62, 0x48, 0x50, 0x4d, 0x4b,
     0x3b, 0x3c, 0x3d, 0x3e, 0x3f, 0x40, 0x41, 0x42,
     0x43, 0x44, 0x63, 0x64, 0x65, 0x66, 0x4e, 0x62,
     0x2a, 0x36, 0x3a, 0x1d, 0x38, 0x4C, 0x56, 0x57,
     0x00, 0x00, 0x00, 0x00, 0x00, 0x00, 0x00, 0x61,
     0x47, 0x52, 0x00, 0x00, 0x00, 0x00, 0x00, 0x00,
     0x00, 0x00, 0x59, 0x5A, 0x5C, 0x5D, 0x37, 0x00]"

text \<open>The two entries of \<^verbatim>\<open>defaults\<close> in \<^verbatim>\<open>IKBD_Init\<close>.\<close>

definition defaults0 :: joypad_t where
  "defaults0 =
    \<lparr> map_scancode = [0, 0, 0, 0,  0, 0, 0, 0,  0, 0, 0, 0,  0, 0, 0, 0],
      map_joystick =
        [ATARIJOY_BITMASK_FIRE, 0x00, 0x00, 0x00,
         0x00, 0x00, 0x00, 0x00,
         0x00, 0x00, 0x00, 0x00,
         ATARIJOY_BITMASK_DOWN, ATARIJOY_BITMASK_RIGHT, ATARIJOY_BITMASK_UP,
         ATARIJOY_BITMASK_LEFT],
      input_source = Ptr_v4sa_joyb0,
      input_source_byte0 = None,
      input_state = 0,
      joystick = 0 \<rparr>"

definition defaults1 :: joypad_t where
  "defaults1 =
    \<lparr> map_scancode = [0, 0, 0, 0,  20, 21, 22, 23,  24, 25, 30, 31,  0, 0, 0, 0],
      map_joystick =
        [ATARIJOY_BITMASK_FIRE, ATARIJOY_BITMASK_UP,
         ATARIJOY_BITMASK_FIRE OR ATARIJOY_BITMASK_UP,
         ATARIJOY_BITMASK_FIRE OR ATARIJOY_BITMASK_DOWN,
         0x00, 0x00, 0x00, 0x00,
         0x00, 0x00, 0x00, 0x00,
         ATARIJOY_BITMASK_DOWN, ATARIJOY_BITMASK_RIGHT, ATARIJOY_BITMASK_UP,
         ATARIJOY_BITMASK_LEFT],
      input_source = Ptr_v4sa_joyb1,
      input_source_byte0 = None,
      input_state = 0,
      joystick = 0 \<rparr>"

definition IKBD_Init :: "ikbd \<Rightarrow> ikbd" where
  "IKBD_Init s =
     s\<lparr>v4sa_scancodes := default_scancodes,
       joypad := [defaults0, defaults1, defaults0, defaults1]\<rparr>"

text \<open>
  \<^verbatim>\<open>IKBD_Boot_ROM\<close>. The two loops clear the six clock bytes and the 128 key states.
  The custom handlers are removed only under the condition the source tests.
\<close>

definition IKBD_Boot_ROM :: "bool \<Rightarrow> ikbd \<Rightarrow> ikbd" where
  "IKBD_Boot_ROM ClearAllRAM s =
    (let s1 = (if ClearAllRAM then s\<lparr>Clock := replicate 6 0, Clock_micro := 0\<rparr> else s);
         s2 = s1\<lparr>MouseMode := AUTOMODE_MOUSEREL,
                 JoystickMode := AUTOMODE_JOYSTICK,
                 Abs_X := 0, Abs_Y := 0, Abs_MaxX := 320, Abs_MaxY := 200,
                 Abs_PrevReadAbsMouseButtons := ABS_PREVBUTTONS,
                 Mouse_DeltaX := 0, Mouse_DeltaY := 0,
                 Mouse_XScale := 0, Mouse_YScale := 0,
                 Mouse_XThreshold := 1, Mouse_YThreshold := 1,
                 Mouse_KeyCodeDeltaX := 1, Mouse_KeyCodeDeltaY := 1,
                 Mouse_YAxis := 1,
                 Mouse_Action := 0,
                 PrevJoyData0 := 0, PrevJoyData1 := 0,
                 ScanCodeState := replicate 128 0,
                 nBytesInInputBuffer := 0,
                 PauseOutput := False,
                 bLButtonDown := BUTTON_NULL, bRButtonDown := BUTTON_NULL,
                 bOldLButtonDown := BUTTON_NULL, bOldRButtonDown := BUTTON_NULL,
                 bMouseDisabled := False, bJoystickDisabled := False,
                 ikbd_reset_counter := 40,
                 bDuringResetCriticalTime := True,
                 bBothMouseAndJoy := False,
                 bMouseEnabledDuringReset := False\<rparr>;
         s3 = (if MemoryLoadNbBytesLeft s2 \<noteq> 0 \<or> IKBD_ExeMode s2
               then s2\<lparr>MemoryLoadNbBytesLeft := 0,
                       pIKBD_CustomCodeHandler_Read := None,
                       pIKBD_CustomCodeHandler_Write := None,
                       IKBD_ExeMode := False\<rparr>
               else s2)
     in s3\<lparr>AutoSendCycles := 150000\<rparr>)"

definition IKBD_Reset :: "bool \<Rightarrow> ikbd \<Rightarrow> ikbd" where
  "IKBD_Reset bCold s = (if bCold then IKBD_Boot_ROM True s else IKBD_Boot_ROM False s)"

definition IKBD_BCD_Check :: "byte \<Rightarrow> bool" where
  "IKBD_BCD_Check val = (if (val AND 0x0f) > 0x09 \<or> (val AND 0xf0) > 0x90 then False else True)"

section \<open>The auto-report generator\<close>

definition IKBD_UpdateInternalMousePosition :: "ikbd \<Rightarrow> ikbd" where
  "IKBD_UpdateInternalMousePosition s =
    (let s1 = s\<lparr>Mouse_DeltaX := sint (v4sa_mousex s), Mouse_DeltaY := sint (v4sa_mousey s),
                v4sa_mousex := 0, v4sa_mousey := 0\<rparr>;
         s2 = (if Mouse_XScale s1 > 1
               then s1\<lparr>Abs_X := Abs_X s1 + Mouse_DeltaX s1 * Mouse_XScale s1\<rparr>
               else s1\<lparr>Abs_X := Abs_X s1 + Mouse_DeltaX s1\<rparr>);
         s3 = (if Abs_X s2 < 0 then s2\<lparr>Abs_X := 0\<rparr> else s2);
         s4 = (if Abs_X s3 > Abs_MaxX s3 then s3\<lparr>Abs_X := Abs_MaxX s3\<rparr> else s3);
         s5 = (if Mouse_YScale s4 > 1
               then s4\<lparr>Abs_Y := Abs_Y s4 + Mouse_DeltaY s4 * Mouse_YAxis s4 * Mouse_YScale s4\<rparr>
               else s4\<lparr>Abs_Y := Abs_Y s4 + Mouse_DeltaY s4 * Mouse_YAxis s4\<rparr>);
         s6 = (if Abs_Y s5 < 0 then s5\<lparr>Abs_Y := 0\<rparr> else s5)
     in if Abs_Y s6 > Abs_MaxY s6 then s6\<lparr>Abs_Y := Abs_MaxY s6\<rparr> else s6)"

definition IKBD_ButtonBool :: "int \<Rightarrow> bool" where
  "IKBD_ButtonBool Button = (if Button \<noteq> 0 then True else False)"

definition IKBD_ButtonsEqual :: "int \<Rightarrow> int \<Rightarrow> bool" where
  "IKBD_ButtonsEqual Button1 Button2 = (IKBD_ButtonBool Button1 = IKBD_ButtonBool Button2)"

text \<open>\<^verbatim>\<open>IKBD_DuplicateMouseFireButtons\<close>, with the branch the preprocessor keeps.\<close>

definition IKBD_DuplicateMouseFireButtons :: "ikbd \<Rightarrow> ikbd" where
  "IKBD_DuplicateMouseFireButtons s =
    (if MouseMode s = AUTOMODE_OFF then
       (let s1 = (if bRButtonDown s AND BUTTON_MOUSE \<noteq> 0
                  then s\<lparr>JoyData1 := JoyData1 s OR ATARIJOY_BITMASK_FIRE\<rparr> else s)
        in if bLButtonDown s1 AND BUTTON_MOUSE \<noteq> 0
           then s1\<lparr>JoyData0 := JoyData0 s1 OR ATARIJOY_BITMASK_FIRE\<rparr> else s1)
     else
       (let pressed = (JoyData1 s AND ATARIJOY_BITMASK_FIRE \<noteq> 0
                       \<or> bRButtonDown s AND BUTTON_MOUSE \<noteq> 0)
        in if pressed
           then s\<lparr>JoyData1 := JoyData1 s OR ATARIJOY_BITMASK_FIRE,
                  bRButtonDown := bRButtonDown s OR BUTTON_JOYSTICK\<rparr>
           else s\<lparr>JoyData1 := JoyData1 s AND NOT ATARIJOY_BITMASK_FIRE,
                  bRButtonDown := bRButtonDown s AND NOT BUTTON_JOYSTICK\<rparr>))"

text \<open>
  \<^verbatim>\<open>IKBD_SendRelMousePacket\<close>. \<open>int8_of\<close> is the conversion \<^verbatim>\<open>(int8_t)\<close>: the low eight
  bits, read as two's complement. The loop of the source has no bound of its own; it ends
  because one pass leaves both deltas multiples of 256 and the old buttons equal to the
  current ones.
\<close>

definition int8_of :: "int \<Rightarrow> int" where
  "int8_of x = sint (word_of_int x :: byte)"

definition RelMousePacket_due :: "ikbd \<Rightarrow> bool" where
  "RelMousePacket_due s =
    (let ByteRelX = int8_of (Mouse_DeltaX s); ByteRelY = int8_of (Mouse_DeltaY s)
     in (ByteRelX < 0 \<and> ByteRelX \<le> - Mouse_XThreshold s)
      \<or> (ByteRelX > 0 \<and> ByteRelX \<ge> Mouse_XThreshold s)
      \<or> (ByteRelY < 0 \<and> ByteRelY \<le> - Mouse_YThreshold s)
      \<or> (ByteRelY > 0 \<and> ByteRelY \<ge> Mouse_YThreshold s)
      \<or> \<not> IKBD_ButtonsEqual (bOldLButtonDown s) (bLButtonDown s)
      \<or> \<not> IKBD_ButtonsEqual (bOldRButtonDown s) (bRButtonDown s))"

definition RelMousePacket_send :: "ikbd \<Rightarrow> ikbd" where
  "RelMousePacket_send s =
    (let ByteRelX = int8_of (Mouse_DeltaX s); ByteRelY = int8_of (Mouse_DeltaY s);
         Header = (0xf8 :: byte)
                  OR (if bLButtonDown s \<noteq> 0 then 0x02 else 0)
                  OR (if bRButtonDown s \<noteq> 0 then 0x01 else 0);
         s1 = acia_ikbd_rx_seq
                [ucast Header, word_of_int ByteRelX, word_of_int (ByteRelY * Mouse_YAxis s)] s
     in s1\<lparr>Mouse_DeltaX := Mouse_DeltaX s1 - ByteRelX,
            Mouse_DeltaY := Mouse_DeltaY s1 - ByteRelY,
            bOldLButtonDown := bLButtonDown s1,
            bOldRButtonDown := bRButtonDown s1\<rparr>)"

function IKBD_SendRelMousePacket :: "ikbd \<Rightarrow> ikbd" where
  "IKBD_SendRelMousePacket s =
     (if RelMousePacket_due s then IKBD_SendRelMousePacket (RelMousePacket_send s) else s)"
  by pat_completeness auto
termination
proof (relation "measure (\<lambda>s. if RelMousePacket_due s then 1 else 0)")
  show "wf (measure (\<lambda>s. if RelMousePacket_due s then 1 else (0::nat)))" by simp
next
  fix s
  assume due: "RelMousePacket_due s"
  have z: "\<And>d. int8_of (d - int8_of d) = 0" by (simp add: int8_of_def)
  have "\<not> RelMousePacket_due (RelMousePacket_send s)"
    by (simp add: RelMousePacket_due_def RelMousePacket_send_def Let_def z
        acia_ikbd_rx_seq_def acia_ikbd_rx_def IKBD_ButtonsEqual_def)
  with due show "(RelMousePacket_send s, s) \<in> measure (\<lambda>s. if RelMousePacket_due s then 1 else 0)"
    by simp
qed

declare IKBD_SendRelMousePacket.simps [simp del]

text \<open>
  \<^verbatim>\<open>IKBD_GetJoystickData\<close>. \<open>GetJoystickData_bits\<close> is the inner \<^verbatim>\<open>for\<close> loop over the bits
  of one joypad's register, \<open>read_source\<close> the read \<^verbatim>\<open>*jp->input.source\<close>. An untouched
  pointer reads its register. A pointer whose first byte has been stored over reads its
  register only if the byte stored is the one that was there (\<open>source_byte0\<close>, the first
  byte in memory of the register's address); otherwise it points elsewhere, and the read
  returns what lies there (\<open>stray_source\<close>, taken to be memory outside the variables of this
  file).
\<close>

definition read_source :: "joypad_t \<Rightarrow> ikbd \<Rightarrow> 16 word" where
  "read_source jp s =
    (let reg = (case input_source jp of
                  Ptr_v4sa_joyb0 \<Rightarrow> v4sa_joyb0 s | Ptr_v4sa_joyb1 \<Rightarrow> v4sa_joyb1 s)
     in case input_source_byte0 jp of
          None \<Rightarrow> reg
        | Some v \<Rightarrow> if v = source_byte0 s (input_source jp) then reg
                    else stray_source s (input_source jp) v)"

function GetJoystickData_bits :: "nat \<Rightarrow> nat \<Rightarrow> 16 word \<Rightarrow> 16 word \<Rightarrow> ikbd \<Rightarrow> ikbd" where
  "GetJoystickData_bits i j changed state s =
     (if changed \<noteq> 0 \<or> state \<noteq> 0 then
        (let jp = joypad s ! i;
             s1 = (if state AND 1 \<noteq> 0
                   then s\<lparr>joypad := (joypad s)[i := jp\<lparr>joystick := joystick jp OR map_joystick jp ! j\<rparr>]\<rparr>
                   else s);
             scan = map_scancode jp ! j;
             s2 = (if changed AND 1 = 0 then s1
                   else if scan = 0 then s1
                   else acia_ikbd_rx (ucast (if state AND 1 = 0 then scan OR 0x80 else scan)) s1)
         in GetJoystickData_bits i (j + 1) (drop_bit 1 changed) (drop_bit 1 state) s2)
      else s)"
  by pat_completeness auto
termination
proof (relation "measure (\<lambda>(i, j, changed, state, s). unat changed + unat state)")
  show "wf (measure (\<lambda>(i, j, changed, state, s). unat changed + unat (state :: 16 word)))"
    by simp
next
  fix i j :: nat and changed state :: "16 word" and s x xa xb xc :: ikbd
  fix xd :: byte
  assume nz: "changed \<noteq> 0 \<or> state \<noteq> 0"
  have half: "\<And>w :: 16 word. unat (drop_bit 1 w) = unat w div 2"
    by (simp add: drop_bit_eq_div unat_div)
  have pos: "0 < unat changed \<or> 0 < unat state"
    using nz by (simp add: unat_gt_0)
  have "unat (drop_bit 1 changed) + unat (drop_bit 1 state) < unat changed + unat state"
    using pos by (simp only: half) arith
  then show "((i, j + 1, drop_bit 1 changed, drop_bit 1 state, xc), i, j, changed, state, s)
      \<in> measure (\<lambda>(i, j, changed, state, s). unat changed + unat state)"
    by simp
qed

declare GetJoystickData_bits.simps [simp del]

definition GetJoystickData_pad :: "nat \<Rightarrow> ikbd \<Rightarrow> ikbd" where
  "GetJoystickData_pad i s =
    (let jp = joypad s ! i;
         state = read_source jp s;
         changed = input_state jp XOR state;
         s1 = s\<lparr>joypad := (joypad s)[i := jp\<lparr>input_state := state, joystick := 0\<rparr>]\<rparr>
     in GetJoystickData_bits i 0 changed state s1)"

definition IKBD_GetJoystickData :: "ikbd \<Rightarrow> ikbd" where
  "IKBD_GetJoystickData s =
    (let s1 = GetJoystickData_pad 1 (GetJoystickData_pad 0 s);
         s2 = s1\<lparr>JoyData1 := joystick (joypad s1 ! 1)\<rparr>
     in if MouseMode s2 = AUTOMODE_OFF
           \<or> (bBothMouseAndJoy s2 \<and> MouseMode s2 = AUTOMODE_MOUSEREL)
        then s2\<lparr>JoyData0 := joystick (joypad s2 ! 0)\<rparr>
        else s2\<lparr>JoyData0 := 0x00\<rparr>)"

definition IKBD_SendAutoJoysticks :: "ikbd \<Rightarrow> ikbd" where
  "IKBD_SendAutoJoysticks s =
    (let JoyData = JoyData0 s;
         s1 = (if JoyData \<noteq> PrevJoyData0 s
               then (acia_ikbd_rx_seq [0xFE, ucast JoyData] s)\<lparr>PrevJoyData0 := JoyData\<rparr>
               else s);
         JoyData = JoyData1 s1
     in if JoyData \<noteq> PrevJoyData1 s1
        then (acia_ikbd_rx_seq [0xFF, ucast JoyData] s1)\<lparr>PrevJoyData1 := JoyData\<rparr>
        else s1)"

definition IKBD_SendAutoJoysticksMonitoring :: "ikbd \<Rightarrow> ikbd" where
  "IKBD_SendAutoJoysticksMonitoring s =
    (let Byte1 = drop_bit 6 (JoyData0 s AND ATARIJOY_BITMASK_FIRE)
                 OR drop_bit 7 (JoyData1 s AND ATARIJOY_BITMASK_FIRE);
         Byte2 = push_bit 4 (JoyData0 s AND 0x0f) OR (JoyData1 s AND 0x0f)
     in acia_ikbd_rx_seq [ucast Byte1, ucast Byte2] s)"

text \<open>\<^verbatim>\<open>IKBD_Cmd_ReadAbsMousePos\<close> (command 0x0D), also called from the mouse action report.\<close>

definition IKBD_Cmd_ReadAbsMousePos :: "ikbd \<Rightarrow> ikbd" where
  "IKBD_Cmd_ReadAbsMousePos s =
    (let Buttons = (0 :: byte);
         Buttons = (if bRButtonDown s \<noteq> 0 then Buttons OR 0x01 else Buttons OR 0x02);
         Buttons = (if bLButtonDown s \<noteq> 0 then Buttons OR 0x04 else Buttons OR 0x08);
         PrevButtons = Abs_PrevReadAbsMouseButtons s;
         s1 = s\<lparr>Abs_PrevReadAbsMouseButtons := Buttons\<rparr>;
         Buttons = Buttons AND NOT PrevButtons
     in acia_ikbd_rx_seq
          [0xf7, ucast Buttons,
           drop_bit 8 (word_of_int (Abs_X s1)), word_of_int (Abs_X s1) AND 0xff,
           drop_bit 8 (word_of_int (Abs_Y s1)), word_of_int (Abs_Y s1) AND 0xff] s1)"

text \<open>The key codes for the button edges; the source has this block twice.\<close>

definition send_button_keycodes :: "ikbd \<Rightarrow> ikbd" where
  "send_button_keycodes s =
    (let s1 = (if IKBD_ButtonBool (bLButtonDown s) \<and> \<not> IKBD_ButtonBool (bOldLButtonDown s)
               then acia_ikbd_rx 0x74 s
               else if IKBD_ButtonBool (bOldLButtonDown s) \<and> \<not> IKBD_ButtonBool (bLButtonDown s)
               then acia_ikbd_rx 0xF4 s
               else s)
     in if IKBD_ButtonBool (bRButtonDown s1) \<and> \<not> IKBD_ButtonBool (bOldRButtonDown s1)
        then acia_ikbd_rx 0x75 s1
        else if IKBD_ButtonBool (bOldRButtonDown s1) \<and> \<not> IKBD_ButtonBool (bRButtonDown s1)
        then acia_ikbd_rx 0xF5 s1
        else s1)"

definition IKBD_SendOnMouseAction :: "ikbd \<Rightarrow> ikbd" where
  "IKBD_SendOnMouseAction s =
    (if Mouse_Action s AND 0x4 \<noteq> 0 then send_button_keycodes s
     else if Mouse_Action s AND 0x3 \<noteq> 0 then
       (let pressL = (IKBD_ButtonBool (bLButtonDown s) \<and> \<not> IKBD_ButtonBool (bOldLButtonDown s));
            pressR = (IKBD_ButtonBool (bRButtonDown s) \<and> \<not> IKBD_ButtonBool (bOldRButtonDown s));
            releaseL = (IKBD_ButtonBool (bOldLButtonDown s) \<and> \<not> IKBD_ButtonBool (bLButtonDown s));
            releaseR = (IKBD_ButtonBool (bOldRButtonDown s) \<and> \<not> IKBD_ButtonBool (bRButtonDown s));
            onPress = (Mouse_Action s AND 0x1 \<noteq> 0);
            onRelease = (Mouse_Action s AND 0x2 \<noteq> 0);
            p0 = Abs_PrevReadAbsMouseButtons s;
            p1 = (if onPress \<and> pressL then (p0 AND NOT 0x04) OR 0x02 else p0);
            p2 = (if onPress \<and> pressR then (p1 AND NOT 0x01) OR 0x08 else p1);
            p3 = (if onRelease \<and> releaseL then (p2 AND NOT 0x08) OR 0x01 else p2);
            p4 = (if onRelease \<and> releaseR then (p3 AND NOT 0x02) OR 0x04 else p3);
            bReportPosition = ((onPress \<and> (pressL \<or> pressR)) \<or> (onRelease \<and> (releaseL \<or> releaseR)));
            s1 = s\<lparr>Abs_PrevReadAbsMouseButtons := p4\<rparr>
        in if bReportPosition \<and> MouseMode s1 = AUTOMODE_MOUSEABS
           then IKBD_Cmd_ReadAbsMousePos s1 else s1)
     else s)"

text \<open>\<^verbatim>\<open>IKBD_SendCursorMousePacket\<close>: the loop, with its counter \<open>i\<close>, and one pass of its body.\<close>

definition CursorMousePacket_pass :: "ikbd \<Rightarrow> ikbd" where
  "CursorMousePacket_pass s =
    (let kx = uint (Mouse_KeyCodeDeltaX s); ky = uint (Mouse_KeyCodeDeltaY s);
         s1 = (if Mouse_DeltaX s \<noteq> 0 then
                 (let t1 = (if Mouse_DeltaX s \<le> - kx
                            then (acia_ikbd_rx_seq [75, 0xCB] s)\<lparr>Mouse_DeltaX := Mouse_DeltaX s + kx\<rparr>
                            else s)
                  in if Mouse_DeltaX t1 \<ge> kx
                     then (acia_ikbd_rx_seq [77, 0xCD] t1)\<lparr>Mouse_DeltaX := Mouse_DeltaX t1 - kx\<rparr>
                     else t1)
               else s);
         s2 = (if Mouse_DeltaY s1 \<noteq> 0 then
                 (let t1 = (if Mouse_DeltaY s1 \<le> - ky
                            then (acia_ikbd_rx_seq [72, 0xC8] s1)\<lparr>Mouse_DeltaY := Mouse_DeltaY s1 + ky\<rparr>
                            else s1)
                  in if Mouse_DeltaY t1 \<ge> ky
                     then (acia_ikbd_rx_seq [80, 0xD0] t1)\<lparr>Mouse_DeltaY := Mouse_DeltaY t1 - ky\<rparr>
                     else t1)
               else s1);
         s3 = send_button_keycodes s2
     in s3\<lparr>bOldLButtonDown := bLButtonDown s3, bOldRButtonDown := bRButtonDown s3\<rparr>)"

function CursorMousePacket_loop :: "nat \<Rightarrow> ikbd \<Rightarrow> ikbd" where
  "CursorMousePacket_loop i s =
    (if i < 10 \<and> (Mouse_DeltaX s \<noteq> 0 \<or> Mouse_DeltaY s \<noteq> 0
                  \<or> \<not> IKBD_ButtonsEqual (bOldLButtonDown s) (bLButtonDown s)
                  \<or> \<not> IKBD_ButtonsEqual (bOldRButtonDown s) (bRButtonDown s))
     then CursorMousePacket_loop (i + 1) (CursorMousePacket_pass s)
     else s)"
  by pat_completeness auto
termination
  by (relation "measure (\<lambda>(i, s). 10 - i)") auto

declare CursorMousePacket_loop.simps [simp del]

definition IKBD_SendCursorMousePacket :: "ikbd \<Rightarrow> ikbd" where
  "IKBD_SendCursorMousePacket s = CursorMousePacket_loop 0 s"

section \<open>Custom program read handlers and key events\<close>

text \<open>\<^verbatim>\<open>IKBD_CheckPressedKey\<close>: the index of the first pressed key from index \<open>i\<close> on, or -1.\<close>

fun CheckPressedKey_from :: "int \<Rightarrow> byte list \<Rightarrow> int" where
  "CheckPressedKey_from i [] = - 1"
| "CheckPressedKey_from i (k # ks) = (if k \<noteq> 0 then i else CheckPressedKey_from (i + 1) ks)"

definition IKBD_CheckPressedKey :: "ikbd \<Rightarrow> int" where
  "IKBD_CheckPressedKey s = CheckPressedKey_from 0 (ScanCodeState s)"

definition IKBD_CustomCodeHandler_FroggiesMenu_Read :: "ikbd \<Rightarrow> ikbd" where
  "IKBD_CustomCodeHandler_FroggiesMenu_Read s = s"

definition IKBD_CustomCodeHandler_Transbeauce2Menu_Read :: "ikbd \<Rightarrow> ikbd" where
  "IKBD_CustomCodeHandler_Transbeauce2Menu_Read s =
    (let res = (0 :: byte);
         res = (if ScanCodeState s ! 0x48 \<noteq> 0 then res OR 0x01 else res);
         res = (if ScanCodeState s ! 0x50 \<noteq> 0 then res OR 0x02 else res);
         res = (if ScanCodeState s ! 0x4b \<noteq> 0 then res OR 0x04 else res);
         res = (if ScanCodeState s ! 0x4d \<noteq> 0 then res OR 0x08 else res);
         res = (if ScanCodeState s ! 0x62 \<noteq> 0 then res OR 0x40 else res);
         res = (if ScanCodeState s ! 0x39 \<noteq> 0 then res OR 0x80 else res);
         res = res OR (JoyData1 s AND 0x8f)
     in acia_ikbd_rx (ucast res) s)"

definition IKBD_CustomCodeHandler_DragonnelsMenu_Read :: "ikbd \<Rightarrow> ikbd" where
  "IKBD_CustomCodeHandler_DragonnelsMenu_Read s = s"

definition IKBD_CustomCodeHandler_ChaosAD_Read :: "ikbd \<Rightarrow> ikbd" where
  "IKBD_CustomCodeHandler_ChaosAD_Read s =
    (let s1 = (if ChaosAD_FirstCall s then acia_ikbd_rx 0xfe s else s)
     in s1\<lparr>ChaosAD_FirstCall := False\<rparr>)"

definition IKBD_CustomCodeHandler_AudioSculpture_Read :: "bool \<Rightarrow> ikbd \<Rightarrow> ikbd" where
  "IKBD_CustomCodeHandler_AudioSculpture_Read ColorMode s =
    (if ASmagic s then
       (let s1 = s\<lparr>AudioSculpture_ReadCount := AudioSculpture_ReadCount s + 1\<rparr>
        in if AudioSculpture_ReadCount s1 = 2
           then (IKBD_Boot_ROM False s1)\<lparr>ASmagic := False, AudioSculpture_ReadCount := 0\<rparr>
           else s1)
     else if (\<not> ColorMode \<and> IKBD_CheckPressedKey s \<ge> 0) \<or> ScanCodeState s ! 0x39 \<noteq> 0
       then acia_ikbd_rx 0x39 s
     else s)"

definition IKBD_CustomCodeHandler_AudioSculpture_Color_Read :: "ikbd \<Rightarrow> ikbd" where
  "IKBD_CustomCodeHandler_AudioSculpture_Color_Read s =
     IKBD_CustomCodeHandler_AudioSculpture_Read True s"

definition IKBD_CustomCodeHandler_AudioSculpture_Mono_Read :: "ikbd \<Rightarrow> ikbd" where
  "IKBD_CustomCodeHandler_AudioSculpture_Mono_Read s =
     IKBD_CustomCodeHandler_AudioSculpture_Read False s"

text \<open>The call through \<^verbatim>\<open>pIKBD_CustomCodeHandler_Read\<close>.\<close>

fun call_read_handler :: "read_handler \<Rightarrow> ikbd \<Rightarrow> ikbd" where
  "call_read_handler FroggiesMenu_Read = IKBD_CustomCodeHandler_FroggiesMenu_Read"
| "call_read_handler Transbeauce2Menu_Read = IKBD_CustomCodeHandler_Transbeauce2Menu_Read"
| "call_read_handler DragonnelsMenu_Read = IKBD_CustomCodeHandler_DragonnelsMenu_Read"
| "call_read_handler ChaosAD_Read = IKBD_CustomCodeHandler_ChaosAD_Read"
| "call_read_handler AudioSculpture_Color_Read = IKBD_CustomCodeHandler_AudioSculpture_Color_Read"
| "call_read_handler AudioSculpture_Mono_Read = IKBD_CustomCodeHandler_AudioSculpture_Mono_Read"

text \<open>
  The statement \<^verbatim>\<open>if ( IKBD_ExeMode && pIKBD_CustomCodeHandler_Read ) (*pIKBD_CustomCodeHandler_Read) ();\<close>
  that ends both \<^verbatim>\<open>IKBD_PressSTKey\<close> and \<^verbatim>\<open>IKBD_SendAutoKeyboardCommands\<close>.
\<close>

definition run_custom_read :: "ikbd \<Rightarrow> ikbd" where
  "run_custom_read s =
    (if IKBD_ExeMode s then
       (case pIKBD_CustomCodeHandler_Read s of None \<Rightarrow> s | Some h \<Rightarrow> call_read_handler h s)
     else s)"

definition IKBD_PressSTKey :: "32 word \<Rightarrow> ikbd \<Rightarrow> ikbd" where
  "IKBD_PressSTKey ScanCode s =
    (if JoystickMode s = AUTOMODE_JOYSTICK_MONITORING then s
     else
       (let s1 = s\<lparr>ScanCodeState :=
                     (ScanCodeState s)[unat (ScanCode AND 0x7f) :=
                                         (if ScanCode AND 0x80 \<noteq> 0 then 0 else 1)]\<rparr>;
            s2 = acia_ikbd_rx ScanCode s1
        in run_custom_read s2))"

text \<open>A run of consecutive calls of \<^verbatim>\<open>IKBD_PressSTKey\<close>.\<close>

definition IKBD_PressSTKey_seq :: "32 word list \<Rightarrow> ikbd \<Rightarrow> ikbd" where
  "IKBD_PressSTKey_seq cs s = foldl (\<lambda>t c. IKBD_PressSTKey c t) s cs"

text \<open>
  The two wheel loops of \<^verbatim>\<open>IKBD_SendAutoKeyboardCommands\<close>, \<^verbatim>\<open>while(v4sa_mousew > 0)\<close> and
  \<^verbatim>\<open>while(v4sa_mousew < 0)\<close>, with the branch the preprocessor keeps.
\<close>

function wheel_loop_pos :: "ikbd \<Rightarrow> ikbd" where
  "wheel_loop_pos s =
    (if 0 <s v4sa_mousew s then
       (let t = IKBD_PressSTKey_seq [0xf6, 0x05, 0x00, 0x00, 0x00, 0x00, 0x00, 0x59] s
        in wheel_loop_pos (t\<lparr>v4sa_mousew := v4sa_mousew t - 1\<rparr>))
     else s)"
  by pat_completeness auto
termination
proof (relation "measure (\<lambda>s. unat (v4sa_mousew s))")
  show "wf (measure (\<lambda>s. unat (v4sa_mousew s)))" by simp
next
  fix s t :: ikbd
  assume pos: "0 <s v4sa_mousew s"
    and t: "t = IKBD_PressSTKey_seq [0xf6, 0x05, 0x00, 0x00, 0x00, 0x00, 0x00, 0x59] s"
  have rd: "\<And>h u. v4sa_mousew (call_read_handler h u) = v4sa_mousew u"
    subgoal for h u
      by (cases h)
        (simp_all add: IKBD_CustomCodeHandler_FroggiesMenu_Read_def
          IKBD_CustomCodeHandler_Transbeauce2Menu_Read_def
          IKBD_CustomCodeHandler_DragonnelsMenu_Read_def
          IKBD_CustomCodeHandler_ChaosAD_Read_def
          IKBD_CustomCodeHandler_AudioSculpture_Color_Read_def
          IKBD_CustomCodeHandler_AudioSculpture_Mono_Read_def
          IKBD_CustomCodeHandler_AudioSculpture_Read_def
          IKBD_Boot_ROM_def acia_ikbd_rx_def Let_def)
    done
  have key: "\<And>c u. v4sa_mousew (IKBD_PressSTKey c u) = v4sa_mousew u"
    by (simp add: IKBD_PressSTKey_def run_custom_read_def rd acia_ikbd_rx_def Let_def
        split: option.split)
  have "v4sa_mousew t = v4sa_mousew s"
    by (simp add: t IKBD_PressSTKey_seq_def key)
  moreover have "v4sa_mousew s \<noteq> 0"
    using pos by (auto simp add: word_sless_alt)
  ultimately show "(t\<lparr>v4sa_mousew := v4sa_mousew t - 1\<rparr>, s) \<in> measure (\<lambda>s. unat (v4sa_mousew s))"
    by (simp add: unat_minus_one unat_gt_0)
qed

declare wheel_loop_pos.simps [simp del]

function wheel_loop_neg :: "ikbd \<Rightarrow> ikbd" where
  "wheel_loop_neg s =
    (if v4sa_mousew s <s 0 then
       (let t = IKBD_PressSTKey_seq [0xf6, 0x05, 0x00, 0x00, 0x00, 0x00, 0x00, 0x5a] s
        in wheel_loop_neg (t\<lparr>v4sa_mousew := v4sa_mousew t + 1\<rparr>))
     else s)"
  by pat_completeness auto
termination
proof (relation "measure (\<lambda>s. unat (- v4sa_mousew s))")
  show "wf (measure (\<lambda>s. unat (- v4sa_mousew s)))" by simp
next
  fix s t :: ikbd
  assume neg: "v4sa_mousew s <s 0"
    and t: "t = IKBD_PressSTKey_seq [0xf6, 0x05, 0x00, 0x00, 0x00, 0x00, 0x00, 0x5a] s"
  have rd: "\<And>h u. v4sa_mousew (call_read_handler h u) = v4sa_mousew u"
    subgoal for h u
      by (cases h)
        (simp_all add: IKBD_CustomCodeHandler_FroggiesMenu_Read_def
          IKBD_CustomCodeHandler_Transbeauce2Menu_Read_def
          IKBD_CustomCodeHandler_DragonnelsMenu_Read_def
          IKBD_CustomCodeHandler_ChaosAD_Read_def
          IKBD_CustomCodeHandler_AudioSculpture_Color_Read_def
          IKBD_CustomCodeHandler_AudioSculpture_Mono_Read_def
          IKBD_CustomCodeHandler_AudioSculpture_Read_def
          IKBD_Boot_ROM_def acia_ikbd_rx_def Let_def)
    done
  have key: "\<And>c u. v4sa_mousew (IKBD_PressSTKey c u) = v4sa_mousew u"
    by (simp add: IKBD_PressSTKey_def run_custom_read_def rd acia_ikbd_rx_def Let_def
        split: option.split)
  have same: "v4sa_mousew t = v4sa_mousew s"
    by (simp add: t IKBD_PressSTKey_seq_def key)
  have "- v4sa_mousew s \<noteq> 0"
    using neg by (auto simp add: word_sless_alt)
  then have "unat (- v4sa_mousew s - 1) < unat (- v4sa_mousew s)"
    by (simp add: unat_minus_one unat_gt_0)
  moreover have "- (v4sa_mousew s + 1) = - v4sa_mousew s - 1" by simp
  ultimately show "(t\<lparr>v4sa_mousew := v4sa_mousew t + 1\<rparr>, s) \<in> measure (\<lambda>s. unat (- v4sa_mousew s))"
    by (simp add: same)
qed

declare wheel_loop_neg.simps [simp del]

text \<open>
  \<^verbatim>\<open>IKBD_SendAutoKeyboardCommands\<close>, the tick. Its body is given in consecutive parts, each
  a run of statements of the source in their order: \<open>AutoKeyboard_sample\<close> from the reading
  of the mouse buttons to the update of the internal position, \<open>AutoKeyboard_packets\<close> the
  automatic joystick and mouse packets and the storing of the old buttons,
  \<open>AutoKeyboard_buttons\<close> the key codes for the extra mouse buttons; the wheel loops stand
  between the last two. The first branch of the function is the reset countdown, which
  returns before anything else is done; monitoring mode returns after the first part.
\<close>

definition AutoKeyboard_sample :: "ikbd \<Rightarrow> ikbd" where
  "AutoKeyboard_sample s =
    (let s1 = s\<lparr>bLButtonDown := (if v4sa_mouseb s AND 2 \<noteq> 0 then BUTTON_MOUSE else 0),
                bRButtonDown := (if v4sa_mouseb s AND 1 \<noteq> 0 then BUTTON_MOUSE else 0)\<rparr>;
         s2 = IKBD_GetJoystickData s1;
         s3 = IKBD_DuplicateMouseFireButtons s2;
         s4 = IKBD_SendOnMouseAction s3
     in IKBD_UpdateInternalMousePosition s4)"

definition AutoKeyboard_packets :: "ikbd \<Rightarrow> ikbd" where
  "AutoKeyboard_packets s =
    (let s1 = (if JoystickMode s = AUTOMODE_JOYSTICK then IKBD_SendAutoJoysticks s else s);
         s2 = (if MouseMode s1 = AUTOMODE_MOUSEREL then IKBD_SendRelMousePacket s1
               else if MouseMode s1 = AUTOMODE_MOUSECURSOR then IKBD_SendCursorMousePacket s1
               else s1)
     in s2\<lparr>bOldLButtonDown := bLButtonDown s2, bOldRButtonDown := bRButtonDown s2\<rparr>)"

definition AutoKeyboard_buttons :: "ikbd \<Rightarrow> ikbd" where
  "AutoKeyboard_buttons s =
    (let diff_mouseb = v4sa_mouseb s XOR mouseb_old s;
         s1 = (if diff_mouseb AND 0x04 \<noteq> 0
               then IKBD_PressSTKey (0x37 OR (if v4sa_mouseb s AND 0x04 \<noteq> 0 then 0x00 else 0x80)) s
               else s);
         s2 = (if diff_mouseb AND 0x08 \<noteq> 0
               then IKBD_PressSTKey (0x5e OR (if v4sa_mouseb s1 AND 0x08 \<noteq> 0 then 0x00 else 0x80)) s1
               else s1);
         s3 = (if diff_mouseb AND 0x10 \<noteq> 0
               then IKBD_PressSTKey (0x5f OR (if v4sa_mouseb s2 AND 0x10 \<noteq> 0 then 0x00 else 0x80)) s2
               else s2)
     in s3\<lparr>mouseb_old := v4sa_mouseb s3\<rparr>)"

definition IKBD_SendAutoKeyboardCommands :: "ikbd \<Rightarrow> ikbd" where
  "IKBD_SendAutoKeyboardCommands s =
    (if ikbd_reset_counter s \<noteq> 0 then
       (let s1 = s\<lparr>ikbd_reset_counter := ikbd_reset_counter s - 1\<rparr>
        in if ikbd_reset_counter s1 = 0
           then acia_ikbd_rx IKBD_ROM_VERSION
                  (s1\<lparr>bDuringResetCriticalTime := False, bMouseEnabledDuringReset := False\<rparr>)
           else s1)
     else
       (let s5 = AutoKeyboard_sample s
        in if JoystickMode s5 = AUTOMODE_JOYSTICK_MONITORING
           then IKBD_SendAutoJoysticksMonitoring s5
           else run_custom_read
                  (AutoKeyboard_buttons (wheel_loop_neg (wheel_loop_pos (AutoKeyboard_packets s5))))))"

section \<open>The memory map\<close>

text \<open>
  \<^verbatim>\<open>mem_map\<close> and \<^verbatim>\<open>resolve_address\<close>. A resolved address is a table and an offset into it.
  The test \<^verbatim>\<open>addr > mem_map[i].end\<close> lets the end address itself through, so the offset can
  equal the size of the table: for a key-code map that is the first byte of the joystick map
  of the same joypad; for a joystick map it is the first byte of the pointer
  \<^verbatim>\<open>input.source\<close> of that joypad, so that a store there redirects the sampling of the
  joypad (\<open>read_source\<close>) and a load there returns a byte of an address; for
  \<^verbatim>\<open>v4sa_scancodes\<close> it is the first byte of whatever object the linker places after the
  table. That byte is kept as the cell \<open>after_scancodes\<close>, on the assumption that the object
  is not one of the variables of this file.
\<close>

datatype mem_table = Tab_scancode nat | Tab_joystick nat | Tab_v4sa_scancodes

definition mem_map :: "(int \<times> int \<times> mem_table) list" where
  "mem_map =
    [(0xb000, 0xb010, Tab_scancode 0),
     (0xb010, 0xb020, Tab_joystick 0),
     (0xb100, 0xb110, Tab_scancode 1),
     (0xb110, 0xb120, Tab_joystick 1),
     (0xb200, 0xb210, Tab_scancode 2),
     (0xb210, 0xb220, Tab_joystick 2),
     (0xb300, 0xb310, Tab_scancode 3),
     (0xb310, 0xb320, Tab_joystick 3),
     (0xa000, 0xa080, Tab_v4sa_scancodes)]"

fun resolve_in :: "(int \<times> int \<times> mem_table) list \<Rightarrow> int \<Rightarrow> (mem_table \<times> nat) option" where
  "resolve_in [] addr = None"
| "resolve_in ((start, end', mapaddr) # rest) addr =
     (if addr < start then resolve_in rest addr
      else if addr > end' then resolve_in rest addr
      else Some (mapaddr, nat (addr - start)))"

definition resolve_address :: "int \<Rightarrow> (mem_table \<times> nat) option" where
  "resolve_address addr = resolve_in mem_map addr"

text \<open>Reading and writing the byte a resolved address points to.\<close>

fun mem_load :: "mem_table \<times> nat \<Rightarrow> ikbd \<Rightarrow> byte" where
  "mem_load (Tab_scancode p, off) s =
     (if off < 16 then map_scancode (joypad s ! p) ! off else map_joystick (joypad s ! p) ! (off - 16))"
| "mem_load (Tab_joystick p, off) s =
     (if off < 16 then map_joystick (joypad s ! p) ! off
      else (case input_source_byte0 (joypad s ! p) of
              None \<Rightarrow> source_byte0 s (input_source (joypad s ! p))
            | Some v \<Rightarrow> v))"
| "mem_load (Tab_v4sa_scancodes, off) s =
     (if off < 128 then v4sa_scancodes s ! off else after_scancodes s)"

fun mem_store :: "mem_table \<times> nat \<Rightarrow> byte \<Rightarrow> ikbd \<Rightarrow> ikbd" where
  "mem_store (Tab_scancode p, off) v s =
     (let jp = joypad s ! p
      in if off < 16
         then s\<lparr>joypad := (joypad s)[p := jp\<lparr>map_scancode := (map_scancode jp)[off := v]\<rparr>]\<rparr>
         else s\<lparr>joypad := (joypad s)[p := jp\<lparr>map_joystick := (map_joystick jp)[off - 16 := v]\<rparr>]\<rparr>)"
| "mem_store (Tab_joystick p, off) v s =
     (let jp = joypad s ! p
      in if off < 16
         then s\<lparr>joypad := (joypad s)[p := jp\<lparr>map_joystick := (map_joystick jp)[off := v]\<rparr>]\<rparr>
         else s\<lparr>joypad := (joypad s)[p := jp\<lparr>input_source_byte0 := Some v\<rparr>]\<rparr>)"
| "mem_store (Tab_v4sa_scancodes, off) v s =
     (if off < 128 then s\<lparr>v4sa_scancodes := (v4sa_scancodes s)[off := v]\<rparr>
      else s\<lparr>after_scancodes := v\<rparr>)"

section \<open>Command handlers\<close>

text \<open>The 16-bit value \<^verbatim>\<open>(hi << 8) | lo\<close> of two parameter bytes.\<close>

definition msb_lsb :: "byte \<Rightarrow> byte \<Rightarrow> int" where
  "msb_lsb hi lo = push_bit 8 (uint hi) OR uint lo"

definition IKBD_Cmd_Reset :: "ikbd \<Rightarrow> ikbd" where
  "IKBD_Cmd_Reset s = (if InputBuffer s ! 1 = 0x01 then IKBD_Boot_ROM False s else s)"

definition IKBD_Cmd_MouseAction :: "ikbd \<Rightarrow> ikbd" where
  "IKBD_Cmd_MouseAction s =
     s\<lparr>Mouse_Action := InputBuffer s ! 1, Abs_PrevReadAbsMouseButtons := ABS_PREVBUTTONS\<rparr>"

definition IKBD_Cmd_RelMouseMode :: "ikbd \<Rightarrow> ikbd" where
  "IKBD_Cmd_RelMouseMode s =
    (let s1 = s\<lparr>MouseMode := AUTOMODE_MOUSEREL\<rparr>
     in if bDuringResetCriticalTime s1 then s1\<lparr>bMouseEnabledDuringReset := True\<rparr> else s1)"

definition IKBD_Cmd_AbsMouseMode :: "ikbd \<Rightarrow> ikbd" where
  "IKBD_Cmd_AbsMouseMode s =
     s\<lparr>MouseMode := AUTOMODE_MOUSEABS,
       Abs_MaxX := msb_lsb (InputBuffer s ! 1) (InputBuffer s ! 2),
       Abs_MaxY := msb_lsb (InputBuffer s ! 3) (InputBuffer s ! 4)\<rparr>"

definition IKBD_Cmd_MouseCursorKeycodes :: "ikbd \<Rightarrow> ikbd" where
  "IKBD_Cmd_MouseCursorKeycodes s =
     s\<lparr>MouseMode := AUTOMODE_MOUSECURSOR,
       Mouse_KeyCodeDeltaX := InputBuffer s ! 1,
       Mouse_KeyCodeDeltaY := InputBuffer s ! 2\<rparr>"

definition IKBD_Cmd_SetMouseThreshold :: "ikbd \<Rightarrow> ikbd" where
  "IKBD_Cmd_SetMouseThreshold s =
     s\<lparr>Mouse_XThreshold := uint (InputBuffer s ! 1), Mouse_YThreshold := uint (InputBuffer s ! 2)\<rparr>"

definition IKBD_Cmd_SetMouseScale :: "ikbd \<Rightarrow> ikbd" where
  "IKBD_Cmd_SetMouseScale s =
     s\<lparr>Mouse_XScale := uint (InputBuffer s ! 1), Mouse_YScale := uint (InputBuffer s ! 2)\<rparr>"

definition IKBD_Cmd_SetInternalMousePos :: "ikbd \<Rightarrow> ikbd" where
  "IKBD_Cmd_SetInternalMousePos s =
     s\<lparr>Abs_X := msb_lsb (InputBuffer s ! 2) (InputBuffer s ! 3),
       Abs_Y := msb_lsb (InputBuffer s ! 4) (InputBuffer s ! 5)\<rparr>"

definition IKBD_Cmd_SetYAxisDown :: "ikbd \<Rightarrow> ikbd" where
  "IKBD_Cmd_SetYAxisDown s = s\<lparr>Mouse_YAxis := - 1\<rparr>"

definition IKBD_Cmd_SetYAxisUp :: "ikbd \<Rightarrow> ikbd" where
  "IKBD_Cmd_SetYAxisUp s = s\<lparr>Mouse_YAxis := 1\<rparr>"

definition IKBD_Cmd_StartKeyboardTransfer :: "ikbd \<Rightarrow> ikbd" where
  "IKBD_Cmd_StartKeyboardTransfer s = s\<lparr>PauseOutput := False\<rparr>"

definition IKBD_CheckResetDisableBug :: "ikbd \<Rightarrow> ikbd" where
  "IKBD_CheckResetDisableBug s =
    (if bMouseDisabled s \<and> bJoystickDisabled s then
       (if bDuringResetCriticalTime s
        then s\<lparr>MouseMode := AUTOMODE_MOUSEREL, JoystickMode := AUTOMODE_JOYSTICK,
               bBothMouseAndJoy := True\<rparr>
        else s)
     else s)"

definition IKBD_Cmd_TurnMouseOff :: "ikbd \<Rightarrow> ikbd" where
  "IKBD_Cmd_TurnMouseOff s =
     IKBD_CheckResetDisableBug (s\<lparr>MouseMode := AUTOMODE_OFF, bMouseDisabled := True\<rparr>)"

definition IKBD_Cmd_StopKeyboardTransfer :: "ikbd \<Rightarrow> ikbd" where
  "IKBD_Cmd_StopKeyboardTransfer s =
     (if bDuringResetCriticalTime s then s else s\<lparr>PauseOutput := True\<rparr>)"

definition IKBD_Cmd_ReturnJoystickAuto :: "ikbd \<Rightarrow> ikbd" where
  "IKBD_Cmd_ReturnJoystickAuto s =
    (let s1 = s\<lparr>JoystickMode := AUTOMODE_JOYSTICK, MouseMode := AUTOMODE_OFF\<rparr>;
         s2 = (if bDuringResetCriticalTime s1 \<and> bMouseEnabledDuringReset s1
               then s1\<lparr>MouseMode := AUTOMODE_MOUSEREL, bBothMouseAndJoy := True\<rparr>
               else if bDuringResetCriticalTime s1 \<and> bMouseDisabled s1
               then s1\<lparr>MouseMode := AUTOMODE_MOUSEREL, bBothMouseAndJoy := True\<rparr>
               else s1);
         s3 = s2\<lparr>PrevJoyData0 := 0, PrevJoyData1 := 0\<rparr>
     in IKBD_SendAutoJoysticks (IKBD_GetJoystickData s3))"

definition IKBD_Cmd_StopJoystick :: "ikbd \<Rightarrow> ikbd" where
  "IKBD_Cmd_StopJoystick s = s\<lparr>JoystickMode := AUTOMODE_OFF\<rparr>"

definition IKBD_Cmd_ReturnJoystick :: "ikbd \<Rightarrow> ikbd" where
  "IKBD_Cmd_ReturnJoystick s = acia_ikbd_rx_seq [0xFD, ucast (JoyData0 s), ucast (JoyData1 s)] s"

text \<open>The division is C's, on a non-negative dividend.\<close>

definition IKBD_Cmd_SetJoystickMonitoring :: "ikbd \<Rightarrow> ikbd" where
  "IKBD_Cmd_SetJoystickMonitoring s =
    (let Rate = uint (InputBuffer s ! 1);
         s1 = s\<lparr>JoystickMode := AUTOMODE_JOYSTICK_MONITORING, MouseMode := AUTOMODE_OFF\<rparr>;
         Rate = (if Rate = 0 then 1 else Rate);
         Cycles = 8021247 * Rate div 100
     in s1\<lparr>AutoSendCycles := Cycles\<rparr>)"

definition IKBD_Cmd_SetJoystickFireDuration :: "ikbd \<Rightarrow> ikbd" where
  "IKBD_Cmd_SetJoystickFireDuration s = s"

definition IKBD_Cmd_SetCursorForJoystick :: "ikbd \<Rightarrow> ikbd" where
  "IKBD_Cmd_SetCursorForJoystick s = s"

definition IKBD_Cmd_DisableJoysticks :: "ikbd \<Rightarrow> ikbd" where
  "IKBD_Cmd_DisableJoysticks s =
     IKBD_CheckResetDisableBug (s\<lparr>JoystickMode := AUTOMODE_OFF, bJoystickDisabled := True\<rparr>)"

text \<open>\<^verbatim>\<open>IKBD_Cmd_SetClock\<close>: the loop over the six parameter bytes, \<open>i\<close> from 1 to 6.\<close>

definition SetClock_byte :: "ikbd \<Rightarrow> nat \<Rightarrow> ikbd" where
  "SetClock_byte s i =
    (let val = InputBuffer s ! i
     in if IKBD_BCD_Check val then s\<lparr>Clock := (Clock s)[i - 1 := val]\<rparr> else s)"

definition IKBD_Cmd_SetClock :: "ikbd \<Rightarrow> ikbd" where
  "IKBD_Cmd_SetClock s = foldl SetClock_byte s [1, 2, 3, 4, 5, 6]"

definition IKBD_Cmd_ReadClock :: "ikbd \<Rightarrow> ikbd" where
  "IKBD_Cmd_ReadClock s =
     acia_ikbd_rx_seq (0xFC # map (\<lambda>i. ucast (Clock s ! i)) [0, 1, 2, 3, 4, 5]) s"

definition IKBD_Cmd_LoadMemory :: "ikbd \<Rightarrow> ikbd" where
  "IKBD_Cmd_LoadMemory s =
    (let s1 = s\<lparr>MemoryLoadNbBytesAddr := msb_lsb (InputBuffer s ! 1) (InputBuffer s ! 2)\<rparr>;
         s2 = s1\<lparr>MemoryLoadNbBytesTotal := uint (InputBuffer s1 ! 3)\<rparr>;
         s3 = s2\<lparr>MemoryLoadNbBytesLeft := MemoryLoadNbBytesTotal s2\<rparr>
     in s3\<lparr>MemoryLoadCrc := crc32_reset\<rparr>)"

definition ReadMemory_byte :: "ikbd \<Rightarrow> int \<Rightarrow> 32 word" where
  "ReadMemory_byte s addr =
    (case resolve_address addr of None \<Rightarrow> 0x00 | Some src \<Rightarrow> ucast (mem_load src s))"

definition IKBD_Cmd_ReadMemory :: "ikbd \<Rightarrow> ikbd" where
  "IKBD_Cmd_ReadMemory s =
    (let addr = msb_lsb (InputBuffer s ! 1) (InputBuffer s ! 2)
     in acia_ikbd_rx_seq
          (0xF6 # 0x20 # map (\<lambda>i. ReadMemory_byte s (addr + i)) [0, 1, 2, 3, 4, 5]) s)"

definition IKBD_Cmd_Execute :: "ikbd \<Rightarrow> ikbd" where
  "IKBD_Cmd_Execute s =
    (case pIKBD_CustomCodeHandler_Write s of
       Some h \<Rightarrow> s\<lparr>IKBD_ExeMode := True\<rparr>
     | None \<Rightarrow> s)"

definition IKBD_Cmd_ReportMouseAction :: "ikbd \<Rightarrow> ikbd" where
  "IKBD_Cmd_ReportMouseAction s =
     acia_ikbd_rx_seq [0xF6, 7, ucast (Mouse_Action s), 0, 0, 0, 0, 0] s"

definition IKBD_Cmd_ReportMouseMode :: "ikbd \<Rightarrow> ikbd" where
  "IKBD_Cmd_ReportMouseMode s =
    (let s1 = acia_ikbd_rx 0xF6 s
     in if MouseMode s1 = AUTOMODE_MOUSEREL
          then acia_ikbd_rx_seq [8, 0, 0, 0, 0, 0, 0] s1
        else if MouseMode s1 = AUTOMODE_MOUSEABS
          then acia_ikbd_rx_seq
                 [9, word_of_int (drop_bit 8 (Abs_MaxX s1)), word_of_int (Abs_MaxX s1),
                  word_of_int (drop_bit 8 (Abs_MaxY s1)), word_of_int (Abs_MaxY s1), 0, 0] s1
        else if MouseMode s1 = AUTOMODE_MOUSECURSOR
          then acia_ikbd_rx_seq
                 [10, ucast (Mouse_KeyCodeDeltaX s1), ucast (Mouse_KeyCodeDeltaY s1), 0, 0, 0, 0] s1
        else s1)"

definition IKBD_Cmd_ReportMouseThreshold :: "ikbd \<Rightarrow> ikbd" where
  "IKBD_Cmd_ReportMouseThreshold s =
     acia_ikbd_rx_seq
       [0xF6, 0x0B, word_of_int (Mouse_XThreshold s), word_of_int (Mouse_YThreshold s), 0, 0, 0, 0] s"

definition IKBD_Cmd_ReportMouseScale :: "ikbd \<Rightarrow> ikbd" where
  "IKBD_Cmd_ReportMouseScale s =
     acia_ikbd_rx_seq
       [0xF6, 0x0C, word_of_int (Mouse_XScale s), word_of_int (Mouse_YScale s), 0, 0, 0, 0] s"

definition IKBD_Cmd_ReportMouseVertical :: "ikbd \<Rightarrow> ikbd" where
  "IKBD_Cmd_ReportMouseVertical s =
     acia_ikbd_rx_seq
       [0xF6, (if Mouse_YAxis s = - 1 then 0x0F else 0x10), 0, 0, 0, 0, 0, 0] s"

definition IKBD_Cmd_ReportMouseAvailability :: "ikbd \<Rightarrow> ikbd" where
  "IKBD_Cmd_ReportMouseAvailability s =
     acia_ikbd_rx_seq
       [0xF6, (if MouseMode s = AUTOMODE_OFF then 0x12 else 0x00), 0, 0, 0, 0, 0, 0] s"

definition IKBD_Cmd_ReportJoystickMode :: "ikbd \<Rightarrow> ikbd" where
  "IKBD_Cmd_ReportJoystickMode s =
     acia_ikbd_rx_seq
       [0xF6, (if JoystickMode s = AUTOMODE_JOYSTICK then 0x14 else 0x15), 0, 0, 0, 0, 0, 0] s"

definition IKBD_Cmd_ReportJoystickAvailability :: "ikbd \<Rightarrow> ikbd" where
  "IKBD_Cmd_ReportJoystickAvailability s =
     acia_ikbd_rx_seq
       [0xF6, (if JoystickMode s = AUTOMODE_OFF then 0x1A else 0x00), 0, 0, 0, 0, 0, 0] s"

section \<open>Command framing and dispatch\<close>

text \<open>The functions \<^verbatim>\<open>pCallFunction\<close> can point to, and the call through it.\<close>

datatype command =
    Cmd_Reset | Cmd_MouseAction | Cmd_RelMouseMode | Cmd_AbsMouseMode
  | Cmd_MouseCursorKeycodes | Cmd_SetMouseThreshold | Cmd_SetMouseScale
  | Cmd_ReadAbsMousePos | Cmd_SetInternalMousePos | Cmd_SetYAxisDown | Cmd_SetYAxisUp
  | Cmd_StartKeyboardTransfer | Cmd_TurnMouseOff | Cmd_StopKeyboardTransfer
  | Cmd_ReturnJoystickAuto | Cmd_StopJoystick | Cmd_ReturnJoystick
  | Cmd_SetJoystickMonitoring | Cmd_SetJoystickFireDuration | Cmd_SetCursorForJoystick
  | Cmd_DisableJoysticks | Cmd_SetClock | Cmd_ReadClock | Cmd_LoadMemory | Cmd_ReadMemory
  | Cmd_Execute | Cmd_ReportMouseAction | Cmd_ReportMouseMode | Cmd_ReportMouseThreshold
  | Cmd_ReportMouseScale | Cmd_ReportMouseVertical | Cmd_ReportMouseAvailability
  | Cmd_ReportJoystickMode | Cmd_ReportJoystickAvailability

fun pCallFunction :: "command \<Rightarrow> ikbd \<Rightarrow> ikbd" where
  "pCallFunction Cmd_Reset = IKBD_Cmd_Reset"
| "pCallFunction Cmd_MouseAction = IKBD_Cmd_MouseAction"
| "pCallFunction Cmd_RelMouseMode = IKBD_Cmd_RelMouseMode"
| "pCallFunction Cmd_AbsMouseMode = IKBD_Cmd_AbsMouseMode"
| "pCallFunction Cmd_MouseCursorKeycodes = IKBD_Cmd_MouseCursorKeycodes"
| "pCallFunction Cmd_SetMouseThreshold = IKBD_Cmd_SetMouseThreshold"
| "pCallFunction Cmd_SetMouseScale = IKBD_Cmd_SetMouseScale"
| "pCallFunction Cmd_ReadAbsMousePos = IKBD_Cmd_ReadAbsMousePos"
| "pCallFunction Cmd_SetInternalMousePos = IKBD_Cmd_SetInternalMousePos"
| "pCallFunction Cmd_SetYAxisDown = IKBD_Cmd_SetYAxisDown"
| "pCallFunction Cmd_SetYAxisUp = IKBD_Cmd_SetYAxisUp"
| "pCallFunction Cmd_StartKeyboardTransfer = IKBD_Cmd_StartKeyboardTransfer"
| "pCallFunction Cmd_TurnMouseOff = IKBD_Cmd_TurnMouseOff"
| "pCallFunction Cmd_StopKeyboardTransfer = IKBD_Cmd_StopKeyboardTransfer"
| "pCallFunction Cmd_ReturnJoystickAuto = IKBD_Cmd_ReturnJoystickAuto"
| "pCallFunction Cmd_StopJoystick = IKBD_Cmd_StopJoystick"
| "pCallFunction Cmd_ReturnJoystick = IKBD_Cmd_ReturnJoystick"
| "pCallFunction Cmd_SetJoystickMonitoring = IKBD_Cmd_SetJoystickMonitoring"
| "pCallFunction Cmd_SetJoystickFireDuration = IKBD_Cmd_SetJoystickFireDuration"
| "pCallFunction Cmd_SetCursorForJoystick = IKBD_Cmd_SetCursorForJoystick"
| "pCallFunction Cmd_DisableJoysticks = IKBD_Cmd_DisableJoysticks"
| "pCallFunction Cmd_SetClock = IKBD_Cmd_SetClock"
| "pCallFunction Cmd_ReadClock = IKBD_Cmd_ReadClock"
| "pCallFunction Cmd_LoadMemory = IKBD_Cmd_LoadMemory"
| "pCallFunction Cmd_ReadMemory = IKBD_Cmd_ReadMemory"
| "pCallFunction Cmd_Execute = IKBD_Cmd_Execute"
| "pCallFunction Cmd_ReportMouseAction = IKBD_Cmd_ReportMouseAction"
| "pCallFunction Cmd_ReportMouseMode = IKBD_Cmd_ReportMouseMode"
| "pCallFunction Cmd_ReportMouseThreshold = IKBD_Cmd_ReportMouseThreshold"
| "pCallFunction Cmd_ReportMouseScale = IKBD_Cmd_ReportMouseScale"
| "pCallFunction Cmd_ReportMouseVertical = IKBD_Cmd_ReportMouseVertical"
| "pCallFunction Cmd_ReportMouseAvailability = IKBD_Cmd_ReportMouseAvailability"
| "pCallFunction Cmd_ReportJoystickMode = IKBD_Cmd_ReportJoystickMode"
| "pCallFunction Cmd_ReportJoystickAvailability = IKBD_Cmd_ReportJoystickAvailability"

text \<open>
  \<^verbatim>\<open>KeyboardCommands\<close>: command byte, length with the command byte, handler. The terminating
  entry \<^verbatim>\<open>{ 0xFF, 0, NULL }\<close> of the source is the end of the list.
\<close>

definition KeyboardCommands :: "(byte \<times> nat \<times> command) list" where
  "KeyboardCommands =
    [(0x80, 2, Cmd_Reset),
     (0x07, 2, Cmd_MouseAction),
     (0x08, 1, Cmd_RelMouseMode),
     (0x09, 5, Cmd_AbsMouseMode),
     (0x0A, 3, Cmd_MouseCursorKeycodes),
     (0x0B, 3, Cmd_SetMouseThreshold),
     (0x0C, 3, Cmd_SetMouseScale),
     (0x0D, 1, Cmd_ReadAbsMousePos),
     (0x0E, 6, Cmd_SetInternalMousePos),
     (0x0F, 1, Cmd_SetYAxisDown),
     (0x10, 1, Cmd_SetYAxisUp),
     (0x11, 1, Cmd_StartKeyboardTransfer),
     (0x12, 1, Cmd_TurnMouseOff),
     (0x13, 1, Cmd_StopKeyboardTransfer),
     (0x14, 1, Cmd_ReturnJoystickAuto),
     (0x15, 1, Cmd_StopJoystick),
     (0x16, 1, Cmd_ReturnJoystick),
     (0x17, 2, Cmd_SetJoystickMonitoring),
     (0x18, 1, Cmd_SetJoystickFireDuration),
     (0x19, 7, Cmd_SetCursorForJoystick),
     (0x1A, 1, Cmd_DisableJoysticks),
     (0x1B, 7, Cmd_SetClock),
     (0x1C, 1, Cmd_ReadClock),
     (0x20, 4, Cmd_LoadMemory),
     (0x21, 3, Cmd_ReadMemory),
     (0x22, 3, Cmd_Execute),
     (0x87, 1, Cmd_ReportMouseAction),
     (0x88, 1, Cmd_ReportMouseMode),
     (0x89, 1, Cmd_ReportMouseMode),
     (0x8A, 1, Cmd_ReportMouseMode),
     (0x8B, 1, Cmd_ReportMouseThreshold),
     (0x8C, 1, Cmd_ReportMouseScale),
     (0x8F, 1, Cmd_ReportMouseVertical),
     (0x90, 1, Cmd_ReportMouseVertical),
     (0x92, 1, Cmd_ReportMouseAvailability),
     (0x94, 1, Cmd_ReportJoystickMode),
     (0x95, 1, Cmd_ReportJoystickMode),
     (0x99, 1, Cmd_ReportJoystickMode),
     (0x9A, 1, Cmd_ReportJoystickAvailability)]"

text \<open>
  \<^verbatim>\<open>IKBD_RunKeyboardCommand\<close>: the byte is stored if the buffer is not full, then the table
  is searched for the first byte of the buffer.
\<close>

fun RunKeyboardCommand_search :: "(byte \<times> nat \<times> command) list \<Rightarrow> ikbd \<Rightarrow> ikbd" where
  "RunKeyboardCommand_search [] s = s\<lparr>nBytesInInputBuffer := 0\<rparr>"
| "RunKeyboardCommand_search ((Command, NumParameters, f) # rest) s =
     (if Command = InputBuffer s ! 0 then
        (if NumParameters = nBytesInInputBuffer s
         then (pCallFunction f (s\<lparr>PauseOutput := False\<rparr>))\<lparr>nBytesInInputBuffer := 0\<rparr>
         else s)
      else RunKeyboardCommand_search rest s)"

definition IKBD_RunKeyboardCommand :: "byte \<Rightarrow> ikbd \<Rightarrow> ikbd" where
  "IKBD_RunKeyboardCommand aciabyte s =
    (let s1 = (if nBytesInInputBuffer s < SIZE_KEYBOARDINPUT_BUFFER
               then s\<lparr>InputBuffer := (InputBuffer s)[nBytesInInputBuffer s := aciabyte],
                      nBytesInInputBuffer := nBytesInInputBuffer s + 1\<rparr>
               else s)
     in RunKeyboardCommand_search KeyboardCommands s1)"

section \<open>Custom program emulation\<close>

record custom_code =
  LoadMemCrc :: "32 word"
  ExeBootHandler :: write_handler
  MainProgNbBytes :: int
  MainProgCrc :: "32 word"
  ExeMainHandler_Read :: read_handler
  ExeMainHandler_Write :: write_handler
  Name :: string

definition CustomCodeDefinitions :: "custom_code list" where
  "CustomCodeDefinitions =
    [\<lparr>LoadMemCrc = 0x2efb11b1, ExeBootHandler = CommonBoot,
      MainProgNbBytes = 167, MainProgCrc = 0xe7110b6d,
      ExeMainHandler_Read = FroggiesMenu_Read, ExeMainHandler_Write = FroggiesMenu_Write,
      Name = ''Froggies Over The Fence Main Menu''\<rparr>,
     \<lparr>LoadMemCrc = 0xadb6b503, ExeBootHandler = CommonBoot,
      MainProgNbBytes = 165, MainProgCrc = 0x5617c33c,
      ExeMainHandler_Read = Transbeauce2Menu_Read, ExeMainHandler_Write = Transbeauce2Menu_Write,
      Name = ''Transbeauce 2 Main Menu''\<rparr>,
     \<lparr>LoadMemCrc = 0x33c23cdf, ExeBootHandler = CommonBoot,
      MainProgNbBytes = 83, MainProgCrc = 0xdf3e5a88,
      ExeMainHandler_Read = DragonnelsMenu_Read, ExeMainHandler_Write = DragonnelsMenu_Write,
      Name = ''Dragonnels Main Menu''\<rparr>,
     \<lparr>LoadMemCrc = 0x9ad7fcdf, ExeBootHandler = CommonBoot,
      MainProgNbBytes = 109, MainProgCrc = 0xa11d8be5,
      ExeMainHandler_Read = ChaosAD_Read, ExeMainHandler_Write = ChaosAD_Write,
      Name = ''Chaos A.D.''\<rparr>,
     \<lparr>LoadMemCrc = 0xbc0c206d, ExeBootHandler = CommonBoot,
      MainProgNbBytes = 91, MainProgCrc = 0x119b26ed,
      ExeMainHandler_Read = AudioSculpture_Color_Read, ExeMainHandler_Write = AudioSculpture_Write,
      Name = ''Audio Sculpture Color''\<rparr>,
     \<lparr>LoadMemCrc = 0xbc0c206d, ExeBootHandler = CommonBoot,
      MainProgNbBytes = 91, MainProgCrc = 0x63b5f4df,
      ExeMainHandler_Read = AudioSculpture_Mono_Read, ExeMainHandler_Write = AudioSculpture_Write,
      Name = ''Audio Sculpture Mono''\<rparr>]"

text \<open>The two search loops: the first entry that matches, if any.\<close>

fun find_LoadMemCrc :: "custom_code list \<Rightarrow> 32 word \<Rightarrow> custom_code option" where
  "find_LoadMemCrc [] crc = None"
| "find_LoadMemCrc (d # ds) crc = (if LoadMemCrc d = crc then Some d else find_LoadMemCrc ds crc)"

fun find_MainProg :: "custom_code list \<Rightarrow> int \<Rightarrow> 32 word \<Rightarrow> custom_code option" where
  "find_MainProg [] n crc = None"
| "find_MainProg (d # ds) n crc =
     (if MainProgNbBytes d = n then
        (if MainProgCrc d = crc then Some d else find_MainProg ds n crc)
      else find_MainProg ds n crc)"

definition IKBD_LoadMemoryByte :: "byte \<Rightarrow> ikbd \<Rightarrow> ikbd" where
  "IKBD_LoadMemoryByte aciabyte s =
    (let s1 = s\<lparr>MemoryLoadCrc := crc32_add_byte (MemoryLoadCrc s) aciabyte\<rparr>;
         src = resolve_address (MemoryLoadNbBytesAddr s1);
         s2 = s1\<lparr>MemoryLoadNbBytesAddr := MemoryLoadNbBytesAddr s1 + 1\<rparr>;
         s3 = (case src of None \<Rightarrow> s2 | Some p \<Rightarrow> mem_store p aciabyte s2);
         s4 = s3\<lparr>MemoryLoadNbBytesLeft := MemoryLoadNbBytesLeft s3 - 1\<rparr>
     in if MemoryLoadNbBytesLeft s4 = 0 then
          (case find_LoadMemCrc CustomCodeDefinitions (MemoryLoadCrc s4) of
             Some d \<Rightarrow> s4\<lparr>MemoryLoadCrc := crc32_reset,
                          MemoryExeNbBytes := 0,
                          pIKBD_CustomCodeHandler_Read := None,
                          pIKBD_CustomCodeHandler_Write := Some (ExeBootHandler d)\<rparr>
           | None \<Rightarrow> s4\<lparr>pIKBD_CustomCodeHandler_Read := None,
                        pIKBD_CustomCodeHandler_Write := None\<rparr>)
        else s4)"

definition IKBD_CustomCodeHandler_CommonBoot :: "byte \<Rightarrow> ikbd \<Rightarrow> ikbd" where
  "IKBD_CustomCodeHandler_CommonBoot aciabyte s =
    (let s1 = s\<lparr>MemoryLoadCrc := crc32_add_byte (MemoryLoadCrc s) aciabyte\<rparr>;
         s2 = s1\<lparr>MemoryExeNbBytes := MemoryExeNbBytes s1 + 1\<rparr>
     in case find_MainProg CustomCodeDefinitions (MemoryExeNbBytes s2) (MemoryLoadCrc s2) of
          Some d \<Rightarrow> s2\<lparr>pIKBD_CustomCodeHandler_Read := Some (ExeMainHandler_Read d),
                       pIKBD_CustomCodeHandler_Write := Some (ExeMainHandler_Write d)\<rparr>
        | None \<Rightarrow> s2)"

definition IKBD_CustomCodeHandler_FroggiesMenu_Write :: "byte \<Rightarrow> ikbd \<Rightarrow> ikbd" where
  "IKBD_CustomCodeHandler_FroggiesMenu_Write aciabyte s =
    (if aciabyte AND 0x80 \<noteq> 0 then IKBD_Boot_ROM False s
     else
       (let res80 = (0 :: byte); res81 = (0 :: byte); res82 = (0 :: byte); res83 = (0xfc :: byte);
            res80 = (if Mouse_DeltaY s < 0 then 0x7a else res80);
            res80 = (if Mouse_DeltaY s > 0 then 0x06 else res80);
            res81 = (if Mouse_DeltaX s < 0 then 0x7a else res81);
            res81 = (if Mouse_DeltaX s > 0 then 0x06 else res81);
            res82 = (if bLButtonDown s AND BUTTON_MOUSE \<noteq> 0 then res82 OR 0x80 else res82);
            res80 = (if ScanCodeState s ! 0x48 \<noteq> 0 then res80 OR 0x7a else res80);
            res80 = (if ScanCodeState s ! 0x50 \<noteq> 0 then res80 OR 0x06 else res80);
            res81 = (if ScanCodeState s ! 0x4b \<noteq> 0 then res81 OR 0x7a else res81);
            res81 = (if ScanCodeState s ! 0x4d \<noteq> 0 then res81 OR 0x06 else res81);
            res82 = (if ScanCodeState s ! 0x70 \<noteq> 0 then res82 OR 0x80 else res82);
            res80 = res80 OR res82;
            res81 = res81 OR res82
        in if aciabyte = 1 then acia_ikbd_rx (ucast res80) s
           else if aciabyte = 4
             then acia_ikbd_rx_seq [ucast res83, ucast res82, ucast res81, ucast res80] s
           else s))"

definition IKBD_CustomCodeHandler_Transbeauce2Menu_Write :: "byte \<Rightarrow> ikbd \<Rightarrow> ikbd" where
  "IKBD_CustomCodeHandler_Transbeauce2Menu_Write aciabyte s = s"

definition IKBD_CustomCodeHandler_DragonnelsMenu_Write :: "byte \<Rightarrow> ikbd \<Rightarrow> ikbd" where
  "IKBD_CustomCodeHandler_DragonnelsMenu_Write aciabyte s =
    (let res = (0 :: byte);
         res = (if Mouse_DeltaY s < 0 then 0xfc else res);
         res = (if Mouse_DeltaY s > 0 then 0x04 else res);
         res = (if bLButtonDown s AND BUTTON_MOUSE \<noteq> 0 then 0x80 else res)
     in acia_ikbd_rx (ucast res) s)"

definition ChaosAD_KeyBuffer :: "byte list" where
  "ChaosAD_KeyBuffer = [0xca, 0x0a, 0xbc, 0x00, 0xde, 0xde, 0xfe, 0xca]"

definition IKBD_CustomCodeHandler_ChaosAD_Write :: "byte \<Rightarrow> ikbd \<Rightarrow> ikbd" where
  "IKBD_CustomCodeHandler_ChaosAD_Write aciabyte s =
    (if ChaosAD_IgnoreNb s > 0 then s\<lparr>ChaosAD_IgnoreNb := ChaosAD_IgnoreNb s - 1\<rparr>
     else if ChaosAD_Count s \<le> 6080 then
       (let s1 = s\<lparr>ChaosAD_Count := ChaosAD_Count s + 1\<rparr>;
            decoded = aciabyte XOR ChaosAD_KeyBuffer ! nat (ChaosAD_Index s1);
            s2 = s1\<lparr>ChaosAD_Index := ChaosAD_Index s1 + 1\<rparr>;
            s3 = s2\<lparr>ChaosAD_Index := ChaosAD_Index s2 AND 0x07\<rparr>
        in acia_ikbd_rx (ucast decoded) s3)
     else if aciabyte = 0x08 then IKBD_Boot_ROM False s
     else s)"

definition IKBD_CustomCodeHandler_AudioSculpture_Write :: "byte \<Rightarrow> ikbd \<Rightarrow> ikbd" where
  "IKBD_CustomCodeHandler_AudioSculpture_Write aciabyte s =
    (let Magic = (0x42 :: byte); Key = [0x4b, 0x13 :: byte]
     in if aciabyte = Magic
        then acia_ikbd_rx (ucast (Key ! 1)) (acia_ikbd_rx (ucast (Key ! 0)) (s\<lparr>ASmagic := True\<rparr>))
        else s)"

text \<open>The call through \<^verbatim>\<open>pIKBD_CustomCodeHandler_Write\<close>.\<close>

fun call_write_handler :: "write_handler \<Rightarrow> byte \<Rightarrow> ikbd \<Rightarrow> ikbd" where
  "call_write_handler CommonBoot = IKBD_CustomCodeHandler_CommonBoot"
| "call_write_handler FroggiesMenu_Write = IKBD_CustomCodeHandler_FroggiesMenu_Write"
| "call_write_handler Transbeauce2Menu_Write = IKBD_CustomCodeHandler_Transbeauce2Menu_Write"
| "call_write_handler DragonnelsMenu_Write = IKBD_CustomCodeHandler_DragonnelsMenu_Write"
| "call_write_handler ChaosAD_Write = IKBD_CustomCodeHandler_ChaosAD_Write"
| "call_write_handler AudioSculpture_Write = IKBD_CustomCodeHandler_AudioSculpture_Write"

section \<open>The byte entry point\<close>

definition IKBD_Process_RDR :: "byte \<Rightarrow> ikbd \<Rightarrow> ikbd" where
  "IKBD_Process_RDR RDR s =
    (case (if IKBD_ExeMode s then pIKBD_CustomCodeHandler_Write s else None) of
       Some h \<Rightarrow> call_write_handler h RDR s
     | None \<Rightarrow>
         (if MemoryLoadNbBytesLeft s = 0 then IKBD_RunKeyboardCommand RDR s
          else IKBD_LoadMemoryByte RDR s))"

text \<open>A sequence of bytes received one after the other.\<close>

definition IKBD_Process_RDR_seq :: "byte list \<Rightarrow> ikbd \<Rightarrow> ikbd" where
  "IKBD_Process_RDR_seq bs s = foldl (\<lambda>t b. IKBD_Process_RDR b t) s bs"

section \<open>Power-on state\<close>

text \<open>
  The static storage as the initialisers of the source leave it, and the state after
  \<^verbatim>\<open>v4sa_machine_init\<close> has called \<^verbatim>\<open>IKBD_Init\<close> and \<^verbatim>\<open>IKBD_Reset(true)\<close>. The joypad table
  is filled by \<^verbatim>\<open>IKBD_Init\<close> before any use; its zero-filled state, whose \<^verbatim>\<open>input.source\<close>
  is a null pointer, is not represented and the table starts empty. The live input
  registers start at rest. The three values that depend on the link (\<open>after_scancodes\<close>,
  \<open>source_byte0\<close>, \<open>stray_source\<close>) are parameters of the model that no function of the
  engine writes, apart from a store to \<open>after_scancodes\<close>; this example state takes zero
  for them, and no statement below that is made for every state depends on that choice.
\<close>

definition static_storage :: ikbd where
  "static_storage =
    \<lparr> Abs_X = 0, Abs_Y = 0, Abs_MaxX = 0, Abs_MaxY = 0, Abs_PrevReadAbsMouseButtons = 0,
      Mouse_DeltaX = 0, Mouse_DeltaY = 0, Mouse_XScale = 0, Mouse_YScale = 0,
      Mouse_XThreshold = 0, Mouse_YThreshold = 0,
      Mouse_KeyCodeDeltaX = 0, Mouse_KeyCodeDeltaY = 0, Mouse_YAxis = 0, Mouse_Action = 0,
      JoyData0 = 0, JoyData1 = 0, PrevJoyData0 = 0, PrevJoyData1 = 0,
      MouseMode = AUTOMODE_OFF, JoystickMode = AUTOMODE_OFF,
      PauseOutput = False, InputBuffer = replicate 8 0, nBytesInInputBuffer = 0,
      bLButtonDown = 0, bRButtonDown = 0, bOldLButtonDown = 0, bOldRButtonDown = 0,
      AutoSendCycles = 0,
      bMouseDisabled = False, bJoystickDisabled = False, bDuringResetCriticalTime = False,
      bBothMouseAndJoy = False, bMouseEnabledDuringReset = False, ikbd_reset_counter = 0,
      Clock = replicate 6 0, Clock_micro = 0,
      MemoryLoadNbBytesAddr = 0, MemoryLoadNbBytesTotal = 0, MemoryLoadNbBytesLeft = 0,
      MemoryLoadCrc = 0xffffffff, MemoryExeNbBytes = 0,
      pIKBD_CustomCodeHandler_Read = None, pIKBD_CustomCodeHandler_Write = None,
      IKBD_ExeMode = False, ScanCodeState = replicate 128 0,
      mouseb_old = 0, ChaosAD_FirstCall = True, ChaosAD_IgnoreNb = 8, ChaosAD_Index = 0,
      ChaosAD_Count = 0, ASmagic = False, AudioSculpture_ReadCount = 0,
      joypad = [], v4sa_scancodes = replicate 128 0, after_scancodes = 0,
      source_byte0 = (\<lambda>p. 0), stray_source = (\<lambda>p v. 0),
      v4sa_mousex = 0, v4sa_mousey = 0, v4sa_mouseb = 0, v4sa_mousew = 0,
      v4sa_joyb0 = 0, v4sa_joyb1 = 0,
      acia = [] \<rparr>"

definition power_on :: ikbd where
  "power_on = IKBD_Reset True (IKBD_Init static_storage)"

text \<open>A number of ticks in a row, with the input registers left as the ticks leave them.\<close>

fun ticks :: "nat \<Rightarrow> ikbd \<Rightarrow> ikbd" where
  "ticks 0 s = s"
| "ticks (Suc n) s = ticks n (IKBD_SendAutoKeyboardCommands s)"

section \<open>Phases and framing\<close>

text \<open>
  In the standard phase a received byte goes to \<^verbatim>\<open>IKBD_RunKeyboardCommand\<close>: no custom write
  handler is executing and no memory load is pending. At a command boundary the input buffer
  is empty as well, so the next byte is read as a command byte.
\<close>

definition Standard_phase :: "ikbd \<Rightarrow> bool" where
  "Standard_phase s \<longleftrightarrow>
     \<not> (IKBD_ExeMode s \<and> pIKBD_CustomCodeHandler_Write s \<noteq> None)
     \<and> MemoryLoadNbBytesLeft s = 0"

definition command_boundary :: "ikbd \<Rightarrow> bool" where
  "command_boundary s \<longleftrightarrow>
     Standard_phase s \<and> nBytesInInputBuffer s = 0 \<and> length (InputBuffer s) = 8"

text \<open>The command bytes of the table.\<close>

definition is_command :: "byte \<Rightarrow> bool" where
  "is_command b \<longleftrightarrow> b \<in> set (map fst KeyboardCommands)"

text \<open>The first table entry for a command byte, as the search loop finds it.\<close>

definition lookup_command :: "byte \<Rightarrow> (byte \<times> nat \<times> command) option" where
  "lookup_command b = find (\<lambda>e. fst e = b) KeyboardCommands"

text \<open>
  The state in which the bytes \<open>bs\<close> of a command, not longer than the buffer, have been
  stored from the start of the input buffer.
\<close>

definition framed :: "byte list \<Rightarrow> ikbd \<Rightarrow> ikbd" where
  "framed bs s =
     s\<lparr>InputBuffer := bs @ drop (length bs) (InputBuffer s), nBytesInInputBuffer := length bs\<rparr>"

text \<open>
  What the framing keeps true of the input buffer between two received bytes: it holds at
  most \<^verbatim>\<open>SIZE_KEYBOARDINPUT_BUFFER\<close> bytes, and if it holds any, the first is a command byte
  of the table (any other first byte empties the buffer at once).
\<close>

definition buffer_ok :: "ikbd \<Rightarrow> bool" where
  "buffer_ok s \<longleftrightarrow>
     nBytesInInputBuffer s \<le> SIZE_KEYBOARDINPUT_BUFFER
     \<and> (nBytesInInputBuffer s = 0 \<or> is_command (InputBuffer s ! 0))"

text \<open>A state whose input buffer is full: eight bytes, the first one the command 0x1B.\<close>

definition full_buffer_state :: ikbd where
  "full_buffer_state =
     power_on\<lparr>InputBuffer := [0x1B, 0x01, 0x02, 0x03, 0x04, 0x05, 0x06, 0x07],
              nBytesInInputBuffer := 8\<rparr>"




definition Abs_of :: "ikbd \<Rightarrow> int \<times> int \<times> int \<times> int" where
  "Abs_of s = (Abs_X s, Abs_Y s, Abs_MaxX s, Abs_MaxY s)"

text \<open>From \<open>s\<close> to \<open>t\<close> the four values are kept, or have been reset by \<^verbatim>\<open>IKBD_Boot_ROM\<close>.\<close>

definition Abs_kept :: "ikbd \<Rightarrow> ikbd \<Rightarrow> bool" where
  "Abs_kept s t \<longleftrightarrow> Abs_of t = Abs_of s \<or> Abs_of t = (0, 0, 320, 200)"

text \<open>
  The state forty ticks after power-on: the reset countdown has expired, the boot-complete
  byte has been sent.
\<close>

definition running_state :: ikbd where
  "running_state = ticks 40 power_on"


text \<open>
  Inputs at rest for a tick: both mouse buttons (bits 1 and 0 of the button register) are
  up and were up at the last report, the wheel register is zero, the extra mouse buttons
  (bits 2 to 4 of the button register) are as the last tick saw them, and sampling the
  joysticks sends no key code and yields for both joysticks the bitmasks last sent, the
  one of joystick 1 without fire (which would count as the right mouse button). The
  bitmasks last sent are what the reports are compared with: a joystick whose register
  has not changed is reported again after a reset, which clears them.
\<close>

definition inputs_at_rest :: "ikbd \<Rightarrow> bool" where
  "inputs_at_rest s \<longleftrightarrow>
     v4sa_mouseb s AND 2 = 0 \<and> v4sa_mouseb s AND 1 = 0
     \<and> bOldLButtonDown s = 0 \<and> bOldRButtonDown s = 0
     \<and> v4sa_mousew s = 0
     \<and> (v4sa_mouseb s XOR mouseb_old s) AND 0x04 = 0
     \<and> (v4sa_mouseb s XOR mouseb_old s) AND 0x08 = 0
     \<and> (v4sa_mouseb s XOR mouseb_old s) AND 0x10 = 0
     \<and> acia (IKBD_GetJoystickData s) = acia s
     \<and> JoyData0 (IKBD_GetJoystickData s) = PrevJoyData0 s
     \<and> JoyData1 (IKBD_GetJoystickData s) = PrevJoyData1 s
     \<and> JoyData1 (IKBD_GetJoystickData s) AND ATARIJOY_BITMASK_FIRE = 0"

text \<open>
  The running state with the mouse moved by five units to the right, and the state reached
  from the running state by the commands set joystick monitoring (0x17, rate 1) and set
  relative mouse mode (0x08), with the same mouse movement.
\<close>

definition mouse_moved_state :: ikbd where
  "mouse_moved_state = running_state\<lparr>v4sa_mousex := 5\<rparr>"

definition monitoring_relative_state :: ikbd where
  "monitoring_relative_state =
     (IKBD_Process_RDR_seq [0x17, 0x01, 0x08] running_state)\<lparr>v4sa_mousex := 5\<rparr>"

text \<open>
  The state reached from the running state by the command pause output (0x13), with the
  mouse then moved by five units to the right.
\<close>

definition paused_state :: ikbd where
  "paused_state = (IKBD_Process_RDR_seq [0x13] running_state)\<lparr>v4sa_mousex := 5\<rparr>"

text \<open>
  The state one tick after joystick 1 has been pushed up in the running state (bit 1 of
  its register, which the default map turns into the bitmask 0x01): the tick has reported
  the joystick.
\<close>

definition stick_up_state :: ikbd where
  "stick_up_state = IKBD_SendAutoKeyboardCommands (running_state\<lparr>v4sa_joyb1 := 2\<rparr>)"




text \<open>
  The bytes that the call of an executing custom read handler sends in a state (none when
  no handler is executing).
\<close>

definition custom_read_output :: "ikbd \<Rightarrow> 32 word list" where
  "custom_read_output s = drop (length (acia s)) (acia (run_custom_read s))"

text \<open>
  Two more states with the mouse moved by five units to the right. In the first, the third
  mouse button (bit 2 of the button register) has been pressed as well. The second is
  reached from \<open>stick_up_state\<close>, with joystick 1 still held up, by the reset command 0x80 0x01
  and forty ticks: the joystick register has not changed since it was last sampled, but the
  bitmasks last sent have been cleared by the reset.
\<close>

definition middle_button_state :: ikbd where
  "middle_button_state = running_state\<lparr>v4sa_mousex := 5, v4sa_mouseb := 4\<rparr>"

definition stick_held_reset_state :: ikbd where
  "stick_held_reset_state =
     (ticks 40 (IKBD_Process_RDR_seq [0x80, 0x01] stick_up_state))\<lparr>v4sa_mousex := 5\<rparr>"

section \<open>Basic facts\<close>

lemma acia_ikbd_rx_seq_eq: "acia_ikbd_rx_seq ds s = s\<lparr>acia := acia s @ ds\<rparr>"
  by (induction ds arbitrary: s rule: rev_induct)
     (simp_all add: acia_ikbd_rx_seq_def acia_ikbd_rx_def)

text \<open>The bit loop of one joypad touches the joypad table and the output only.\<close>

lemma GetJoystickData_bits_frame:
  "GetJoystickData_bits i j changed state s =
     s\<lparr>joypad := joypad (GetJoystickData_bits i j changed state s),
       acia := acia (GetJoystickData_bits i j changed state s)\<rparr>"
proof (induction i j changed state s rule: GetJoystickData_bits.induct)
  case (1 i j changed state s)
  show ?case
  proof (cases "changed \<noteq> 0 \<or> state \<noteq> 0")
    case False
    then show ?thesis by (simp add: GetJoystickData_bits.simps)
  next
    case True
    show ?thesis
      apply (subst (1 2 3) GetJoystickData_bits.simps)
      apply (simp only: True if_True Let_def)
      apply (subst "1.IH"[OF True refl refl refl refl])
      apply (simp add: acia_ikbd_rx_def)
      done
  qed
qed

lemma Process_RDR_standard:
  "Standard_phase s \<Longrightarrow> IKBD_Process_RDR b s = IKBD_RunKeyboardCommand b s"
  by (auto simp add: Standard_phase_def IKBD_Process_RDR_def)

lemma power_on_boundary: "command_boundary power_on"
  by (simp add: command_boundary_def Standard_phase_def power_on_def IKBD_Reset_def
      IKBD_Boot_ROM_def IKBD_Init_def static_storage_def)

section \<open>The reset-window quirk\<close>

lemma RunKeyboardCommand_0x12:
  "command_boundary s \<Longrightarrow>
   IKBD_RunKeyboardCommand 0x12 s =
     (IKBD_Cmd_TurnMouseOff (s\<lparr>InputBuffer := (InputBuffer s)[0 := 0x12],
        nBytesInInputBuffer := 1, PauseOutput := False\<rparr>))\<lparr>nBytesInInputBuffer := 0\<rparr>"
  by (simp add: command_boundary_def IKBD_RunKeyboardCommand_def KeyboardCommands_def)

lemma RunKeyboardCommand_0x1A:
  "command_boundary s \<Longrightarrow>
   IKBD_RunKeyboardCommand 0x1A s =
     (IKBD_Cmd_DisableJoysticks (s\<lparr>InputBuffer := (InputBuffer s)[0 := 0x1A],
        nBytesInInputBuffer := 1, PauseOutput := False\<rparr>))\<lparr>nBytesInInputBuffer := 0\<rparr>"
  by (simp add: command_boundary_def IKBD_RunKeyboardCommand_def KeyboardCommands_def)

text \<open>
  Claim C6. While the critical window after a reset is open, the two commands disable mouse
  (0x12) and disable joysticks (0x1A), received at a command boundary in either order, leave
  the mouse in relative mode, the joysticks in auto mode and the flag \<^verbatim>\<open>bBothMouseAndJoy\<close>
  set, not both off.
\<close>

theorem C6_reset_window_disable_bug:
  assumes "command_boundary s" and "bDuringResetCriticalTime s"
  shows "MouseMode (IKBD_Process_RDR_seq [0x12, 0x1A] s) = AUTOMODE_MOUSEREL
       \<and> JoystickMode (IKBD_Process_RDR_seq [0x12, 0x1A] s) = AUTOMODE_JOYSTICK
       \<and> bBothMouseAndJoy (IKBD_Process_RDR_seq [0x12, 0x1A] s)
       \<and> MouseMode (IKBD_Process_RDR_seq [0x1A, 0x12] s) = AUTOMODE_MOUSEREL
       \<and> JoystickMode (IKBD_Process_RDR_seq [0x1A, 0x12] s) = AUTOMODE_JOYSTICK
       \<and> bBothMouseAndJoy (IKBD_Process_RDR_seq [0x1A, 0x12] s)"
proof -
  let ?m = "(IKBD_Cmd_TurnMouseOff (s\<lparr>InputBuffer := (InputBuffer s)[0 := 0x12],
        nBytesInInputBuffer := 1, PauseOutput := False\<rparr>))\<lparr>nBytesInInputBuffer := 0\<rparr>"
  let ?j = "(IKBD_Cmd_DisableJoysticks (s\<lparr>InputBuffer := (InputBuffer s)[0 := 0x1A],
        nBytesInInputBuffer := 1, PauseOutput := False\<rparr>))\<lparr>nBytesInInputBuffer := 0\<rparr>"
  have std: "Standard_phase s" using assms(1) by (simp add: command_boundary_def)
  have m: "IKBD_Process_RDR 0x12 s = ?m"
    by (simp add: Process_RDR_standard std RunKeyboardCommand_0x12 assms(1))
  have j: "IKBD_Process_RDR 0x1A s = ?j"
    by (simp add: Process_RDR_standard std RunKeyboardCommand_0x1A assms(1))
  have bm: "command_boundary ?m" "bDuringResetCriticalTime ?m" "bMouseDisabled ?m"
    using assms
    by (simp_all add: command_boundary_def Standard_phase_def IKBD_Cmd_TurnMouseOff_def
        IKBD_CheckResetDisableBug_def)
  have bj: "command_boundary ?j" "bDuringResetCriticalTime ?j" "bJoystickDisabled ?j"
    using assms
    by (simp_all add: command_boundary_def Standard_phase_def IKBD_Cmd_DisableJoysticks_def
        IKBD_CheckResetDisableBug_def)
  have mj: "IKBD_Process_RDR_seq [0x12, 0x1A] s = IKBD_Process_RDR 0x1A ?m"
    by (simp add: IKBD_Process_RDR_seq_def m)
  have jm: "IKBD_Process_RDR_seq [0x1A, 0x12] s = IKBD_Process_RDR 0x12 ?j"
    by (simp add: IKBD_Process_RDR_seq_def j)
  have "MouseMode (IKBD_Process_RDR 0x1A ?m) = AUTOMODE_MOUSEREL
      \<and> JoystickMode (IKBD_Process_RDR 0x1A ?m) = AUTOMODE_JOYSTICK
      \<and> bBothMouseAndJoy (IKBD_Process_RDR 0x1A ?m)"
    using bm
    by (simp add: Process_RDR_standard command_boundary_def RunKeyboardCommand_0x1A
        IKBD_Cmd_DisableJoysticks_def IKBD_CheckResetDisableBug_def)
  moreover have "MouseMode (IKBD_Process_RDR 0x12 ?j) = AUTOMODE_MOUSEREL
      \<and> JoystickMode (IKBD_Process_RDR 0x12 ?j) = AUTOMODE_JOYSTICK
      \<and> bBothMouseAndJoy (IKBD_Process_RDR 0x12 ?j)"
    using bj
    by (simp add: Process_RDR_standard command_boundary_def RunKeyboardCommand_0x12
        IKBD_Cmd_TurnMouseOff_def IKBD_CheckResetDisableBug_def)
  ultimately show ?thesis by (simp only: mj jm)
qed

theorem C6_reset_window_disable_bug_witness:
  "command_boundary power_on \<and> bDuringResetCriticalTime power_on
   \<and> MouseMode (IKBD_Process_RDR_seq [0x12, 0x1A] power_on) = AUTOMODE_MOUSEREL
   \<and> JoystickMode (IKBD_Process_RDR_seq [0x12, 0x1A] power_on) = AUTOMODE_JOYSTICK
   \<and> bBothMouseAndJoy (IKBD_Process_RDR_seq [0x12, 0x1A] power_on)
   \<and> MouseMode (IKBD_Process_RDR_seq [0x1A, 0x12] power_on) = AUTOMODE_MOUSEREL
   \<and> JoystickMode (IKBD_Process_RDR_seq [0x1A, 0x12] power_on) = AUTOMODE_JOYSTICK
   \<and> bBothMouseAndJoy (IKBD_Process_RDR_seq [0x1A, 0x12] power_on)"
proof -
  have h: "command_boundary power_on" "bDuringResetCriticalTime power_on"
    by (simp_all add: power_on_boundary)
       (simp add: power_on_def IKBD_Reset_def IKBD_Boot_ROM_def IKBD_Init_def static_storage_def)
  show ?thesis using h C6_reset_window_disable_bug [OF h] by simp
qed

section \<open>Joystick sampling: what it leaves alone\<close>

lemma GetJoystickData_bits_frame_ex:
  "\<exists>jp out. GetJoystickData_bits i j changed state s = s\<lparr>joypad := jp, acia := out\<rparr>"
  by (rule exI, rule exI, rule GetJoystickData_bits_frame)

lemma GetJoystickData_pad_frame_ex:
  "\<exists>jp out. GetJoystickData_pad i s = s\<lparr>joypad := jp, acia := out\<rparr>"
proof -
  define s1 where "s1 = s\<lparr>joypad := (joypad s)[i := (joypad s ! i)\<lparr>input_state := read_source (joypad s ! i) s, joystick := 0\<rparr>]\<rparr>"
  define G where "G = GetJoystickData_bits i 0 (input_state (joypad s ! i) XOR read_source (joypad s ! i) s)
       (read_source (joypad s ! i) s) s1"
  have g: "G = s1\<lparr>joypad := joypad G, acia := acia G\<rparr>"
    unfolding G_def by (rule GetJoystickData_bits_frame)
  have p: "GetJoystickData_pad i s = G"
    by (simp add: GetJoystickData_pad_def Let_def G_def s1_def)
  have "G = s\<lparr>joypad := joypad G, acia := acia G\<rparr>"
    by (subst g) (simp add: s1_def)
  then show ?thesis unfolding p by (intro exI)
qed


lemma GetJoystickData_frame_ex:
  "\<exists>jp out j0 j1. IKBD_GetJoystickData s = s\<lparr>joypad := jp, acia := out, JoyData1 := j1, JoyData0 := j0\<rparr>"
proof -
  obtain jpa outa where a: "GetJoystickData_pad 0 s = s\<lparr>joypad := jpa, acia := outa\<rparr>"
    using GetJoystickData_pad_frame_ex [of 0 s] by (elim exE)
  define sa where "sa = s\<lparr>joypad := jpa, acia := outa\<rparr>"
  obtain jpb outb where b: "GetJoystickData_pad 1 sa = sa\<lparr>joypad := jpb, acia := outb\<rparr>"
    using GetJoystickData_pad_frame_ex [of 1 sa] by (elim exE)
  define sb where "sb = s\<lparr>joypad := jpb, acia := outb\<rparr>"
  have ab: "GetJoystickData_pad 1 (GetJoystickData_pad 0 s) = sb"
    unfolding a sa_def [symmetric] b by (simp add: sa_def sb_def)
  have "IKBD_GetJoystickData s =
      s\<lparr>joypad := jpb, acia := outb, JoyData1 := JoyData1 (IKBD_GetJoystickData s),
        JoyData0 := JoyData0 (IKBD_GetJoystickData s)\<rparr>"
    unfolding IKBD_GetJoystickData_def Let_def ab by (simp add: sb_def)
  then show ?thesis by (intro exI)
qed

lemma SendAutoJoysticks_frame_ex:
  "\<exists>out p0 p1. IKBD_SendAutoJoysticks s = s\<lparr>acia := out, PrevJoyData0 := p0, PrevJoyData1 := p1\<rparr>"
proof -
  have "IKBD_SendAutoJoysticks s =
      s\<lparr>acia := acia (IKBD_SendAutoJoysticks s),
        PrevJoyData0 := PrevJoyData0 (IKBD_SendAutoJoysticks s),
        PrevJoyData1 := PrevJoyData1 (IKBD_SendAutoJoysticks s)\<rparr>"
    by (simp add: IKBD_SendAutoJoysticks_def Let_def acia_ikbd_rx_seq_eq)
  then show ?thesis by (intro exI)
qed

section \<open>The joystick auto-report command\<close>


lemma ReturnJoystickAuto_MouseMode:
  "MouseMode (IKBD_Cmd_ReturnJoystickAuto s) =
     (if bDuringResetCriticalTime s \<and> (bMouseEnabledDuringReset s \<or> bMouseDisabled s)
      then AUTOMODE_MOUSEREL else AUTOMODE_OFF)"
proof -
  define s3 where "s3 =
    (let s1 = s\<lparr>JoystickMode := AUTOMODE_JOYSTICK, MouseMode := AUTOMODE_OFF\<rparr>;
         s2 = (if bDuringResetCriticalTime s1 \<and> bMouseEnabledDuringReset s1
               then s1\<lparr>MouseMode := AUTOMODE_MOUSEREL, bBothMouseAndJoy := True\<rparr>
               else if bDuringResetCriticalTime s1 \<and> bMouseDisabled s1
               then s1\<lparr>MouseMode := AUTOMODE_MOUSEREL, bBothMouseAndJoy := True\<rparr>
               else s1)
     in s2\<lparr>PrevJoyData0 := 0, PrevJoyData1 := 0\<rparr>)"
  have r: "IKBD_Cmd_ReturnJoystickAuto s = IKBD_SendAutoJoysticks (IKBD_GetJoystickData s3)"
    by (simp add: IKBD_Cmd_ReturnJoystickAuto_def s3_def Let_def)
  obtain jp out j0 j1 where g: "IKBD_GetJoystickData s3 = s3\<lparr>joypad := jp, acia := out, JoyData1 := j1, JoyData0 := j0\<rparr>"
    using GetJoystickData_frame_ex [of s3] by (elim exE)
  define t where "t = IKBD_GetJoystickData s3"
  obtain out' p0 p1 where a: "IKBD_SendAutoJoysticks t = t\<lparr>acia := out', PrevJoyData0 := p0, PrevJoyData1 := p1\<rparr>"
    using SendAutoJoysticks_frame_ex [of t] by (elim exE)
  have "MouseMode (IKBD_Cmd_ReturnJoystickAuto s) = MouseMode s3"
    unfolding r t_def [symmetric] a by (simp add: t_def g)
  then show ?thesis by (auto simp add: s3_def Let_def)
qed












section \<open>Framing of a whole command\<close>

lemma search_find:
  "RunKeyboardCommand_search tbl s =
     (case find (\<lambda>e. fst e = InputBuffer s ! 0) tbl of
        None \<Rightarrow> s\<lparr>nBytesInInputBuffer := 0\<rparr>
      | Some e \<Rightarrow>
          if fst (snd e) = nBytesInInputBuffer s
          then (pCallFunction (snd (snd e)) (s\<lparr>PauseOutput := False\<rparr>))\<lparr>nBytesInInputBuffer := 0\<rparr>
          else s)"
  by (induction tbl) auto

lemma RunKeyboardCommand_lookup:
  assumes "nBytesInInputBuffer s < 8"
  shows "IKBD_RunKeyboardCommand b s =
     (let s1 = s\<lparr>InputBuffer := (InputBuffer s)[nBytesInInputBuffer s := b],
                nBytesInInputBuffer := Suc (nBytesInInputBuffer s)\<rparr>
      in case lookup_command (InputBuffer s1 ! 0) of
           None \<Rightarrow> s1\<lparr>nBytesInInputBuffer := 0\<rparr>
         | Some e \<Rightarrow>
             if fst (snd e) = nBytesInInputBuffer s1
             then (pCallFunction (snd (snd e)) (s1\<lparr>PauseOutput := False\<rparr>))\<lparr>nBytesInInputBuffer := 0\<rparr>
             else s1)"
  using assms
  by (simp add: IKBD_RunKeyboardCommand_def search_find [of KeyboardCommands] lookup_command_def Let_def)

lemma command_await:
  assumes "Standard_phase s" and "nBytesInInputBuffer s = k" and "k < 8"
    and "(InputBuffer s)[k := b] ! 0 = c"
    and "lookup_command c = Some (c, n, f)" and "Suc k \<noteq> n"
  shows "IKBD_Process_RDR b s =
           s\<lparr>InputBuffer := (InputBuffer s)[k := b], nBytesInInputBuffer := Suc k\<rparr>"
  using assms
  by (simp add: Process_RDR_standard RunKeyboardCommand_lookup Let_def)

lemma command_complete:
  assumes "Standard_phase s" and "nBytesInInputBuffer s = k" and "k < 8"
    and "(InputBuffer s)[k := b] ! 0 = c"
    and "lookup_command c = Some (c, n, f)" and "Suc k = n"
  shows "IKBD_Process_RDR b s =
           (pCallFunction f (s\<lparr>InputBuffer := (InputBuffer s)[k := b], nBytesInInputBuffer := Suc k,
                               PauseOutput := False\<rparr>))\<lparr>nBytesInInputBuffer := 0\<rparr>"
  using assms
  by (auto simp add: Process_RDR_standard RunKeyboardCommand_lookup Let_def)

lemma lookup_0x1B: "lookup_command 0x1B = Some (0x1B, 7, Cmd_SetClock)"
  by (simp add: lookup_command_def KeyboardCommands_def)

lemma lookup_0x1C: "lookup_command 0x1C = Some (0x1C, 1, Cmd_ReadClock)"
  by (simp add: lookup_command_def KeyboardCommands_def)



lemma list_update_as_append:
  "k < length ib \<Longrightarrow> length xs = k \<Longrightarrow>
   (xs @ drop k ib)[k := a] = (xs @ [a]) @ drop (Suc k) ib"
  by (simp add: list_update_append upd_conv_take_nth_drop Cons_nth_drop_Suc)

lemma command_partial:
  assumes std: "Standard_phase s" and n0: "nBytesInInputBuffer s = 0"
    and len: "length (InputBuffer s) = 8"
    and lk: "lookup_command c = Some (c, n, f)" and n8: "n \<le> 8"
  shows "Suc (length as) < n \<Longrightarrow> IKBD_Process_RDR_seq (c # as) s = framed (c # as) s"
proof (induction as rule: rev_induct)
  case Nil
  have "IKBD_Process_RDR c s =
      s\<lparr>InputBuffer := (InputBuffer s)[0 := c], nBytesInInputBuffer := Suc 0\<rparr>"
  proof (rule command_await [OF std n0 _ _ lk])
    show "(InputBuffer s)[0 := c] ! 0 = c" by (simp add: len)
    show "Suc 0 \<noteq> n" using Nil by simp
  qed simp
  moreover have "(InputBuffer s)[0 := c] = [c] @ drop (Suc 0) (InputBuffer s)"
    using list_update_as_append [of 0 "InputBuffer s" "[]" c] len by simp
  ultimately show ?case by (simp add: IKBD_Process_RDR_seq_def framed_def)
next
  case (snoc a as)
  define t where "t = framed (c # as) s"
  have ih: "IKBD_Process_RDR_seq (c # as) s = t"
    unfolding t_def using snoc by simp
  have tstd: "Standard_phase t"
    using std by (simp add: t_def framed_def Standard_phase_def)
  have k8: "Suc (length as) < 8" using snoc(2) n8 by simp
  have step: "IKBD_Process_RDR a t =
      t\<lparr>InputBuffer := (InputBuffer t)[Suc (length as) := a],
        nBytesInInputBuffer := Suc (Suc (length as))\<rparr>"
  proof (rule command_await [OF tstd _ _ _ lk])
    show "nBytesInInputBuffer t = Suc (length as)" by (simp add: t_def framed_def)
    show "Suc (length as) < 8" by (rule k8)
    show "(InputBuffer t)[Suc (length as) := a] ! 0 = c" by (simp add: t_def framed_def)
    show "Suc (Suc (length as)) \<noteq> n" using snoc(2) by simp
  qed
  have upd: "(InputBuffer t)[Suc (length as) := a] = (c # as @ [a]) @ drop (Suc (Suc (length as))) (InputBuffer s)"
    using list_update_as_append [of "Suc (length as)" "InputBuffer s" "c # as" a] k8 len
    by (simp add: t_def framed_def)
  have "IKBD_Process_RDR_seq (c # as @ [a]) s = IKBD_Process_RDR a t"
    using ih by (simp add: IKBD_Process_RDR_seq_def)
  also have "\<dots> = framed (c # as @ [a]) s"
    unfolding step upd by (simp add: t_def framed_def)
  finally show ?case .
qed

lemma command_whole:
  assumes cb: "command_boundary s"
    and lk: "lookup_command c = Some (c, n, f)" and n8: "n \<le> 8" and la: "Suc (length as) = n"
  shows "IKBD_Process_RDR_seq (c # as) s =
           (pCallFunction f ((framed (c # as) s)\<lparr>PauseOutput := False\<rparr>))\<lparr>nBytesInInputBuffer := 0\<rparr>"
proof -
  have std: "Standard_phase s" and n0: "nBytesInInputBuffer s = 0" and len: "length (InputBuffer s) = 8"
    using cb by (simp_all add: command_boundary_def)
  show ?thesis
  proof (cases as rule: rev_cases)
    case Nil
    have "IKBD_Process_RDR c s =
      (pCallFunction f (s\<lparr>InputBuffer := (InputBuffer s)[0 := c], nBytesInInputBuffer := Suc 0,
                               PauseOutput := False\<rparr>))\<lparr>nBytesInInputBuffer := 0\<rparr>"
    proof (rule command_complete [OF std n0 _ _ lk])
      show "(InputBuffer s)[0 := c] ! 0 = c" by (simp add: len)
      show "Suc 0 = n" using Nil la by simp
    qed simp
    moreover have "(InputBuffer s)[0 := c] = [c] @ drop (Suc 0) (InputBuffer s)"
      using list_update_as_append [of 0 "InputBuffer s" "[]" c] len by simp
    ultimately show ?thesis using Nil by (simp add: IKBD_Process_RDR_seq_def framed_def)
  next
    case (snoc bs a)
    define t where "t = framed (c # bs) s"
    have "Suc (length bs) < n" using snoc la by simp
    then have ih: "IKBD_Process_RDR_seq (c # bs) s = t"
      unfolding t_def by (rule command_partial [OF std n0 len lk n8])
    have tstd: "Standard_phase t"
      using std by (simp add: t_def framed_def Standard_phase_def)
    have k8: "Suc (length bs) < 8" using snoc la n8 by simp
    have step: "IKBD_Process_RDR a t =
      (pCallFunction f (t\<lparr>InputBuffer := (InputBuffer t)[Suc (length bs) := a],
          nBytesInInputBuffer := Suc (Suc (length bs)), PauseOutput := False\<rparr>))\<lparr>nBytesInInputBuffer := 0\<rparr>"
    proof (rule command_complete [OF tstd _ _ _ lk])
      show "nBytesInInputBuffer t = Suc (length bs)" by (simp add: t_def framed_def)
      show "Suc (length bs) < 8" by (rule k8)
      show "(InputBuffer t)[Suc (length bs) := a] ! 0 = c" by (simp add: t_def framed_def)
      show "Suc (Suc (length bs)) = n" using snoc la by simp
    qed
    have upd: "(InputBuffer t)[Suc (length bs) := a] = (c # bs @ [a]) @ drop (Suc (Suc (length bs))) (InputBuffer s)"
      using list_update_as_append [of "Suc (length bs)" "InputBuffer s" "c # bs" a] k8 len
      by (simp add: t_def framed_def)
    have "IKBD_Process_RDR_seq (c # as) s = IKBD_Process_RDR a t"
      using ih snoc by (simp add: IKBD_Process_RDR_seq_def)
    also have "\<dots> = (pCallFunction f ((framed (c # as) s)\<lparr>PauseOutput := False\<rparr>))\<lparr>nBytesInInputBuffer := 0\<rparr>"
      unfolding step upd by (simp add: t_def framed_def snoc)
    finally show ?thesis .
  qed
qed

section \<open>The clock commands\<close>

lemma Process_RDR_seq_append:
  "IKBD_Process_RDR_seq (xs @ ys) s = IKBD_Process_RDR_seq ys (IKBD_Process_RDR_seq xs s)"
  by (simp add: IKBD_Process_RDR_seq_def)

lemma Process_RDR_seq_single: "IKBD_Process_RDR_seq [b] s = IKBD_Process_RDR b s"
  by (simp add: IKBD_Process_RDR_seq_def)

lemma list6: "length ps = 6 \<Longrightarrow> \<exists>p1 p2 p3 p4 p5 p6. ps = [p1, p2, p3, p4, p5, p6]"
  by (auto simp add: length_Suc_conv eval_nat_numeral)

lemma SetClock_all_BCD:
  assumes "length (Clock s) = 6" and "InputBuffer s = c # ps @ rest" and "length ps = 6"
    and "list_all IKBD_BCD_Check ps"
  shows "IKBD_Cmd_SetClock s = s\<lparr>Clock := ps\<rparr>"
proof -
  obtain p1 p2 p3 p4 p5 p6 where ps: "ps = [p1, p2, p3, p4, p5, p6]"
    using list6 [OF assms(3)] by (elim exE)
  obtain c1 c2 c3 c4 c5 c6 where cs: "Clock s = [c1, c2, c3, c4, c5, c6]"
    using list6 [OF assms(1)] by (elim exE)
  have bcd: "IKBD_BCD_Check p1" "IKBD_BCD_Check p2" "IKBD_BCD_Check p3"
       "IKBD_BCD_Check p4" "IKBD_BCD_Check p5" "IKBD_BCD_Check p6"
    using assms(4) by (simp_all add: ps)
  show ?thesis
    by (simp add: IKBD_Cmd_SetClock_def SetClock_byte_def Let_def assms(2) ps bcd cs)
qed

lemma ReadClock_acia:
  assumes "length (Clock s) = 6"
  shows "acia (IKBD_Cmd_ReadClock s) = acia s @ 0xFC # map ucast (Clock s)"
proof -
  obtain c1 c2 c3 c4 c5 c6 where cs: "Clock s = [c1, c2, c3, c4, c5, c6]"
    using list6 [OF assms] by (elim exE)
  show ?thesis by (simp add: IKBD_Cmd_ReadClock_def acia_ikbd_rx_seq_eq cs)
qed

text \<open>
  Claim C5. Round trip of the clock: at a command boundary, the command set clock (0x1B) with
  six parameter bytes that all pass the packed-BCD check, followed at once by the command
  read clock (0x1C), sends the header 0xFC and then the six parameter bytes, in the order
  they were written, and nothing else.
\<close>

theorem C5_clock_round_trip:
  assumes cb: "command_boundary s" and clk: "length (Clock s) = 6"
    and len: "length ps = 6" and bcd: "list_all IKBD_BCD_Check ps"
  shows "acia (IKBD_Process_RDR_seq (0x1B # ps @ [0x1C]) s) = acia s @ 0xFC # map ucast ps"
proof -
  define fr where "fr = (framed (0x1B # ps) s)\<lparr>PauseOutput := False\<rparr>"
  define u where "u = (IKBD_Cmd_SetClock fr)\<lparr>nBytesInInputBuffer := 0\<rparr>"
  have set: "IKBD_Process_RDR_seq (0x1B # ps) s = u"
    unfolding u_def fr_def
    using command_whole [OF cb lookup_0x1B, of ps] len by simp
  have frc: "length (Clock fr) = 6" using clk by (simp add: fr_def framed_def)
  have frb: "InputBuffer fr = 0x1B # ps @ drop 7 (InputBuffer s)"
    using len by (simp add: fr_def framed_def)
  have sc: "IKBD_Cmd_SetClock fr = fr\<lparr>Clock := ps\<rparr>"
    by (rule SetClock_all_BCD [OF frc frb len bcd])
  have u: "u = s\<lparr>InputBuffer := 0x1B # ps @ drop 7 (InputBuffer s), nBytesInInputBuffer := 0,
                  PauseOutput := False, Clock := ps\<rparr>"
    unfolding u_def sc using len by (simp add: fr_def framed_def)
  have ucb: "command_boundary u"
    using cb len by (simp add: u command_boundary_def Standard_phase_def)
  define r where "r = (u\<lparr>InputBuffer := [0x1C] @ drop (length [0x1C :: byte]) (InputBuffer u),
      nBytesInInputBuffer := length [0x1C :: byte], PauseOutput := False\<rparr>)"
  have rd: "IKBD_Process_RDR_seq [0x1C] u = (IKBD_Cmd_ReadClock r)\<lparr>nBytesInInputBuffer := 0\<rparr>"
    using command_whole [OF ucb lookup_0x1C, of "[]"] by (simp add: framed_def r_def)
  have rc: "length (Clock r) = 6" "Clock r = ps" "acia r = acia s"
    using len by (simp_all add: r_def u)
  have "acia (IKBD_Process_RDR_seq (0x1B # ps @ [0x1C]) s) = acia (IKBD_Cmd_ReadClock r)"
    using Process_RDR_seq_append [of "0x1B # ps" "[0x1C]" s] by (simp add: set rd)
  also have "\<dots> = acia s @ 0xFC # map ucast ps"
    using ReadClock_acia [OF rc(1)] by (simp add: rc)
  finally show ?thesis .
qed

theorem C5_clock_round_trip_witness:
  "command_boundary power_on \<and> length (Clock power_on) = 6
   \<and> length [0x99, 0x12, 0x31, 0x23, 0x59, 0x57 :: byte] = 6
   \<and> list_all IKBD_BCD_Check [0x99, 0x12, 0x31, 0x23, 0x59, 0x57]
   \<and> acia (IKBD_Process_RDR_seq [0x1B, 0x99, 0x12, 0x31, 0x23, 0x59, 0x57, 0x1C] power_on)
       = [0xFC, 0x99, 0x12, 0x31, 0x23, 0x59, 0x57]"
proof -
  have clk: "length (Clock power_on) = 6" and out: "acia power_on = []"
    by (simp_all add: power_on_def IKBD_Reset_def IKBD_Boot_ROM_def IKBD_Init_def
        static_storage_def)
  have len: "length [0x99, 0x12, 0x31, 0x23, 0x59, 0x57 :: byte] = 6" by simp
  have bcd: "list_all IKBD_BCD_Check [0x99, 0x12, 0x31, 0x23, 0x59, 0x57]"
    by (simp add: IKBD_BCD_Check_def)
  show ?thesis
    using power_on_boundary clk len bcd
      C5_clock_round_trip [OF power_on_boundary clk len bcd]
    by (simp add: out)
qed

section \<open>The input buffer\<close>

lemma Boot_ROM_buffer:
  "InputBuffer (IKBD_Boot_ROM c s) = InputBuffer s \<and> nBytesInInputBuffer (IKBD_Boot_ROM c s) = 0"
  by (simp add: IKBD_Boot_ROM_def Let_def)

lemma mem_store_buffer:
  "InputBuffer (mem_store p v s) = InputBuffer s
   \<and> nBytesInInputBuffer (mem_store p v s) = nBytesInInputBuffer s"
proof (cases p)
  case (Pair tab off)
  then show ?thesis by (cases tab) (simp_all add: Let_def)
qed

lemma LoadMemoryByte_buffer:
  "InputBuffer (IKBD_LoadMemoryByte b s) = InputBuffer s
   \<and> nBytesInInputBuffer (IKBD_LoadMemoryByte b s) = nBytesInInputBuffer s"
  by (simp add: IKBD_LoadMemoryByte_def Let_def mem_store_buffer split: option.split)

lemma write_handler_buffer:
  "InputBuffer (call_write_handler h b s) = InputBuffer s
   \<and> (nBytesInInputBuffer (call_write_handler h b s) = nBytesInInputBuffer s
      \<or> nBytesInInputBuffer (call_write_handler h b s) = 0)"
proof (cases h)
  case CommonBoot
  then show ?thesis
    by (simp add: IKBD_CustomCodeHandler_CommonBoot_def Let_def split: option.split)
next
  case FroggiesMenu_Write
  then show ?thesis
    by (simp add: IKBD_CustomCodeHandler_FroggiesMenu_Write_def Let_def Boot_ROM_buffer
        acia_ikbd_rx_seq_eq acia_ikbd_rx_def)
next
  case Transbeauce2Menu_Write
  then show ?thesis by (simp add: IKBD_CustomCodeHandler_Transbeauce2Menu_Write_def)
next
  case DragonnelsMenu_Write
  then show ?thesis
    by (simp add: IKBD_CustomCodeHandler_DragonnelsMenu_Write_def Let_def acia_ikbd_rx_def)
next
  case ChaosAD_Write
  then show ?thesis
    by (simp add: IKBD_CustomCodeHandler_ChaosAD_Write_def Let_def Boot_ROM_buffer acia_ikbd_rx_def)
next
  case AudioSculpture_Write
  then show ?thesis
    by (simp add: IKBD_CustomCodeHandler_AudioSculpture_Write_def Let_def acia_ikbd_rx_def)
qed

lemma find_is_command:
  "is_command b \<Longrightarrow> \<exists>n f. lookup_command b = Some (b, n, f) \<and> n \<noteq> 8"
  by (simp add: is_command_def lookup_command_def KeyboardCommands_def) (elim disjE; simp)

lemma find_not_command:
  "\<not> is_command b \<Longrightarrow> lookup_command b = None"
  by (simp add: is_command_def lookup_command_def KeyboardCommands_def)


lemma RunKeyboardCommand_search_cases:
  "RunKeyboardCommand_search KeyboardCommands s = s \<and> is_command (InputBuffer s ! 0)
   \<or> nBytesInInputBuffer (RunKeyboardCommand_search KeyboardCommands s) = 0"
proof (cases "find (\<lambda>e. fst e = InputBuffer s ! 0) KeyboardCommands")
  case None
  then show ?thesis by (simp add: search_find [of KeyboardCommands])
next
  case (Some e)
  then have "e \<in> set KeyboardCommands" and "fst e = InputBuffer s ! 0"
    by (auto simp add: find_Some_iff)
  then have "is_command (InputBuffer s ! 0)"
    unfolding is_command_def by (metis image_eqI set_map)
  then show ?thesis using Some by (simp add: search_find [of KeyboardCommands])
qed

lemma RunKeyboardCommand_buffer_ok:
  assumes "nBytesInInputBuffer s \<le> 8"
  shows "buffer_ok (IKBD_RunKeyboardCommand b s)"
proof -
  define s1 where "s1 = (if nBytesInInputBuffer s < 8
               then s\<lparr>InputBuffer := (InputBuffer s)[nBytesInInputBuffer s := b],
                      nBytesInInputBuffer := nBytesInInputBuffer s + 1\<rparr>
               else s)"
  have r: "IKBD_RunKeyboardCommand b s = RunKeyboardCommand_search KeyboardCommands s1"
    by (simp add: IKBD_RunKeyboardCommand_def s1_def Let_def)
  have n: "nBytesInInputBuffer s1 \<le> 8" using assms by (simp add: s1_def)
  show ?thesis
    using RunKeyboardCommand_search_cases [of s1] n unfolding r
    by (auto simp add: buffer_ok_def)
qed

lemma Process_RDR_buffer_ok:
  assumes "buffer_ok s"
  shows "buffer_ok (IKBD_Process_RDR b s)"
proof (cases "if IKBD_ExeMode s then pIKBD_CustomCodeHandler_Write s else None")
  case (Some h)
  then have "IKBD_Process_RDR b s = call_write_handler h b s"
    by (simp add: IKBD_Process_RDR_def)
  then show ?thesis
    using write_handler_buffer [of h b s] assms by (auto simp add: buffer_ok_def)
next
  case None
  show ?thesis
  proof (cases "MemoryLoadNbBytesLeft s = 0")
    case True
    then have "IKBD_Process_RDR b s = IKBD_RunKeyboardCommand b s"
      using None by (simp add: IKBD_Process_RDR_def)
    then show ?thesis
      using RunKeyboardCommand_buffer_ok [of s b] assms by (simp add: buffer_ok_def)
  next
    case False
    then have "IKBD_Process_RDR b s = IKBD_LoadMemoryByte b s"
      using None by (simp add: IKBD_Process_RDR_def)
    then show ?thesis
      using LoadMemoryByte_buffer [of b s] assms by (simp add: buffer_ok_def)
  qed
qed

lemma Process_RDR_seq_buffer_ok:
  "buffer_ok s \<Longrightarrow> buffer_ok (IKBD_Process_RDR_seq bs s)"
proof (induction bs arbitrary: s)
  case Nil
  then show ?case by (simp add: IKBD_Process_RDR_seq_def)
next
  case (Cons b bs)
  have "IKBD_Process_RDR_seq (b # bs) s = IKBD_Process_RDR_seq bs (IKBD_Process_RDR b s)"
    by (simp add: IKBD_Process_RDR_seq_def)
  then show ?case
    using Cons.IH [OF Process_RDR_buffer_ok [OF Cons.prems]] by simp
qed

lemma RunKeyboardCommand_full:
  assumes "nBytesInInputBuffer s = 8" and "is_command (InputBuffer s ! 0)"
  shows "IKBD_RunKeyboardCommand b s = s"
proof -
  obtain n f where lk: "lookup_command (InputBuffer s ! 0) = Some (InputBuffer s ! 0, n, f)"
    and n: "n \<noteq> 8"
    using find_is_command [OF assms(2)] by (elim exE conjE)
  have "IKBD_RunKeyboardCommand b s = RunKeyboardCommand_search KeyboardCommands s"
    using assms(1) by (simp add: IKBD_RunKeyboardCommand_def)
  also have "\<dots> = s"
    using lk n assms(1)
    by (simp add: search_find [of KeyboardCommands] lookup_command_def [symmetric])
  finally show ?thesis .
qed

text \<open>
  Claim C1. However many bytes are received, the input buffer never holds more than eight:
  the framing condition \<open>buffer_ok\<close>, true after every reset, is kept by every received byte
  in every phase. When the buffer already holds eight bytes, a received byte is dropped
  without a trace: \<^verbatim>\<open>IKBD_RunKeyboardCommand\<close>, and so \<^verbatim>\<open>IKBD_Process_RDR\<close> in the standard
  phase, returns the state as it was.
\<close>

theorem C1_input_buffer_bound:
  assumes "buffer_ok s"
  shows "nBytesInInputBuffer (IKBD_Process_RDR_seq bs s) \<le> 8
       \<and> buffer_ok (IKBD_Process_RDR_seq bs s)
       \<and> (nBytesInInputBuffer s = 8 \<longrightarrow> IKBD_RunKeyboardCommand b s = s)
       \<and> (nBytesInInputBuffer s = 8 \<and> Standard_phase s \<longrightarrow> IKBD_Process_RDR b s = s)"
proof -
  have 1: "buffer_ok (IKBD_Process_RDR_seq bs s)"
    by (rule Process_RDR_seq_buffer_ok [OF assms])
  have 2: "nBytesInInputBuffer s = 8 \<longrightarrow> IKBD_RunKeyboardCommand b s = s"
    using assms RunKeyboardCommand_full [of s b] by (auto simp add: buffer_ok_def)
  have 3: "nBytesInInputBuffer s = 8 \<and> Standard_phase s \<longrightarrow> IKBD_Process_RDR b s = s"
    using 2 by (simp add: Process_RDR_standard)
  from 1 have 0: "nBytesInInputBuffer (IKBD_Process_RDR_seq bs s) \<le> 8"
    by (simp add: buffer_ok_def)
  from 0 1 2 3 show ?thesis by (intro conjI)
qed

lemma full_buffer_state_facts:
  "buffer_ok full_buffer_state" "nBytesInInputBuffer full_buffer_state = 8"
  "Standard_phase full_buffer_state"
  "InputBuffer full_buffer_state = [0x1B, 0x01, 0x02, 0x03, 0x04, 0x05, 0x06, 0x07]"
  using power_on_boundary
  by (simp_all add: full_buffer_state_def buffer_ok_def is_command_def KeyboardCommands_def
      command_boundary_def Standard_phase_def)

theorem C1_input_buffer_bound_witness:
  "buffer_ok full_buffer_state \<and> nBytesInInputBuffer full_buffer_state = 8
   \<and> Standard_phase full_buffer_state
   \<and> nBytesInInputBuffer (IKBD_Process_RDR_seq [0x55, 0x1C] full_buffer_state) \<le> 8
   \<and> IKBD_RunKeyboardCommand 0x55 full_buffer_state = full_buffer_state
   \<and> IKBD_Process_RDR 0x55 full_buffer_state = full_buffer_state
   \<and> InputBuffer (IKBD_Process_RDR 0x55 full_buffer_state)
       = [0x1B, 0x01, 0x02, 0x03, 0x04, 0x05, 0x06, 0x07]"
  using full_buffer_state_facts
    C1_input_buffer_bound [OF full_buffer_state_facts(1), of "[0x55, 0x1C]" "0x55"]
  by simp

section \<open>Key events\<close>

lemma lookup_0x17: "lookup_command 0x17 = Some (0x17, 2, Cmd_SetJoystickMonitoring)"
  by (simp add: lookup_command_def KeyboardCommands_def)


lemma power_on_fields:
  "acia power_on = []" "ScanCodeState power_on = replicate 128 0"
  "JoystickMode power_on = AUTOMODE_JOYSTICK" "MouseMode power_on = AUTOMODE_MOUSEREL"
  by (simp_all add: power_on_def IKBD_Reset_def IKBD_Boot_ROM_def IKBD_Init_def static_storage_def)



lemma read_handler_effect:
  "(\<exists>rest. acia (call_read_handler h s) = acia s @ rest)
   \<and> (ScanCodeState (call_read_handler h s) = ScanCodeState s
      \<or> ScanCodeState (call_read_handler h s) = replicate 128 0)"
proof (cases h)
  case FroggiesMenu_Read
  then show ?thesis by (simp add: IKBD_CustomCodeHandler_FroggiesMenu_Read_def)
next
  case Transbeauce2Menu_Read
  then show ?thesis
    by (simp add: IKBD_CustomCodeHandler_Transbeauce2Menu_Read_def Let_def acia_ikbd_rx_def)
next
  case DragonnelsMenu_Read
  then show ?thesis by (simp add: IKBD_CustomCodeHandler_DragonnelsMenu_Read_def)
next
  case ChaosAD_Read
  then show ?thesis
    by (simp add: IKBD_CustomCodeHandler_ChaosAD_Read_def Let_def acia_ikbd_rx_def)
next
  case AudioSculpture_Color_Read
  then show ?thesis
    by (simp add: IKBD_CustomCodeHandler_AudioSculpture_Color_Read_def
        IKBD_CustomCodeHandler_AudioSculpture_Read_def Let_def acia_ikbd_rx_def IKBD_Boot_ROM_def)
next
  case AudioSculpture_Mono_Read
  then show ?thesis
    by (simp add: IKBD_CustomCodeHandler_AudioSculpture_Mono_Read_def
        IKBD_CustomCodeHandler_AudioSculpture_Read_def Let_def acia_ikbd_rx_def IKBD_Boot_ROM_def)
qed

lemma run_custom_read_effect:
  "(\<exists>rest. acia (run_custom_read s) = acia s @ rest)
   \<and> (ScanCodeState (run_custom_read s) = ScanCodeState s
      \<or> ScanCodeState (run_custom_read s) = replicate 128 0)"
  using read_handler_effect [of _ s]
  by (simp add: run_custom_read_def split: option.split)

lemma run_custom_read_idle:
  "\<not> (IKBD_ExeMode s \<and> pIKBD_CustomCodeHandler_Read s \<noteq> None) \<Longrightarrow> run_custom_read s = s"
  by (auto simp add: run_custom_read_def split: option.split)




section \<open>The absolute mouse position\<close>



lemma Abs_kept_eq: "Abs_of t = Abs_of s \<Longrightarrow> Abs_kept s t"
  by (simp add: Abs_kept_def)







































lemma ticks_countdown:
  "ikbd_reset_counter s = of_nat (Suc n) \<Longrightarrow> Suc n < 2 ^ 16 \<Longrightarrow>
   ticks (Suc n) s =
     s\<lparr>ikbd_reset_counter := 0, bDuringResetCriticalTime := False,
       bMouseEnabledDuringReset := False, acia := acia s @ [0xF1]\<rparr>"
proof (induction n arbitrary: s)
  case 0
  then show ?case
    by (simp add: IKBD_SendAutoKeyboardCommands_def Let_def acia_ikbd_rx_def)
next
  case (Suc n)
  define s1 where "s1 = s\<lparr>ikbd_reset_counter := of_nat (Suc n)\<rparr>"
  have nz: "(of_nat (Suc n) :: 16 word) \<noteq> 0"
    using Suc.prems(2) by (intro of_nat_neq_0) simp_all
  have nz2: "(of_nat (Suc (Suc n)) :: 16 word) \<noteq> 0"
    using Suc.prems(2) by (intro of_nat_neq_0) simp_all
  have m: "(of_nat (Suc (Suc n)) :: 16 word) - 1 = of_nat (Suc n)" by simp
  have t: "IKBD_SendAutoKeyboardCommands s = s1"
    using nz nz2 Suc.prems(1)
    by (simp add: IKBD_SendAutoKeyboardCommands_def Let_def s1_def)
  have "ticks (Suc (Suc n)) s = ticks (Suc n) s1"
    by (simp add: t)
  also have "\<dots> = s1\<lparr>ikbd_reset_counter := 0, bDuringResetCriticalTime := False,
       bMouseEnabledDuringReset := False, acia := acia s1 @ [0xF1]\<rparr>"
    using Suc.prems(2) by (intro Suc.IH) (simp_all add: s1_def)
  finally show ?case by (simp add: s1_def)
qed

lemma power_on_counter: "ikbd_reset_counter power_on = of_nat (Suc 39)"
  by (simp add: power_on_def IKBD_Reset_def IKBD_Boot_ROM_def IKBD_Init_def static_storage_def)

lemma running_state_eq:
  "running_state =
     power_on\<lparr>ikbd_reset_counter := 0, bDuringResetCriticalTime := False,
       bMouseEnabledDuringReset := False, acia := [0xF1]\<rparr>"
proof -
  have "ticks (Suc 39) power_on =
     power_on\<lparr>ikbd_reset_counter := 0, bDuringResetCriticalTime := False,
       bMouseEnabledDuringReset := False, acia := acia power_on @ [0xF1]\<rparr>"
    by (rule ticks_countdown [OF power_on_counter]) simp
  then show ?thesis by (simp add: running_state_def power_on_fields)
qed

lemma running_state_boundary: "command_boundary running_state"
  using power_on_boundary
  by (simp add: running_state_eq command_boundary_def Standard_phase_def)




















section \<open>The relative mouse packet\<close>

text \<open>Sampling the joysticks does not read the mouse button flags.\<close>

lemma GetJoystickData_bits_buttons:
  "GetJoystickData_bits i j changed state (s\<lparr>bLButtonDown := x, bRButtonDown := y\<rparr>)
   = (GetJoystickData_bits i j changed state s)\<lparr>bLButtonDown := x, bRButtonDown := y\<rparr>"
proof (induction i j changed state s rule: GetJoystickData_bits.induct)
  case (1 i j changed state s)
  show ?case
  proof (cases "changed \<noteq> 0 \<or> state \<noteq> 0")
    case False
    then show ?thesis by (simp add: GetJoystickData_bits.simps)
  next
    case True
    define jp where "jp = joypad s ! i"
    define s1 where "s1 = (if state AND 1 \<noteq> 0
                   then s\<lparr>joypad := (joypad s)[i := jp\<lparr>joystick := joystick jp OR map_joystick jp ! j\<rparr>]\<rparr>
                   else s)"
    define scan where "scan = map_scancode jp ! j"
    define s2 where "s2 = (if changed AND 1 = 0 then s1
                   else if scan = 0 then s1
                   else acia_ikbd_rx (ucast (if state AND 1 = 0 then scan OR 0x80 else scan)) s1)"
    have l: "GetJoystickData_bits i j changed state s
        = GetJoystickData_bits i (j + 1) (drop_bit 1 changed) (drop_bit 1 state) s2"
      apply (subst GetJoystickData_bits.simps)
      apply (simp only: True if_True Let_def s2_def s1_def scan_def jp_def)
      done
    define jq where "jq = joypad (s\<lparr>bLButtonDown := x, bRButtonDown := y\<rparr>) ! i"
    define t1 where "t1 = (if state AND 1 \<noteq> 0
                   then (s\<lparr>bLButtonDown := x, bRButtonDown := y\<rparr>)\<lparr>joypad := (joypad (s\<lparr>bLButtonDown := x, bRButtonDown := y\<rparr>))[i := jq\<lparr>joystick := joystick jq OR map_joystick jq ! j\<rparr>]\<rparr>
                   else s\<lparr>bLButtonDown := x, bRButtonDown := y\<rparr>)"
    define t2 where "t2 = (if changed AND 1 = 0 then t1
                   else if map_scancode jq ! j = 0 then t1
                   else acia_ikbd_rx (ucast (if state AND 1 = 0 then map_scancode jq ! j OR 0x80 else map_scancode jq ! j)) t1)"
    have r0: "GetJoystickData_bits i j changed state (s\<lparr>bLButtonDown := x, bRButtonDown := y\<rparr>)
        = GetJoystickData_bits i (j + 1) (drop_bit 1 changed) (drop_bit 1 state) t2"
      apply (subst GetJoystickData_bits.simps)
      apply (simp only: True if_True Let_def t2_def t1_def jq_def)
      done
    have jqp: "jq = jp" by (simp add: jq_def jp_def)
    have t1s: "t1 = s1\<lparr>bLButtonDown := x, bRButtonDown := y\<rparr>"
      by (simp add: t1_def s1_def jqp jp_def)
    have t2s: "t2 = s2\<lparr>bLButtonDown := x, bRButtonDown := y\<rparr>"
      by (simp add: t2_def s2_def t1s jqp scan_def acia_ikbd_rx_def)
    have r: "GetJoystickData_bits i j changed state (s\<lparr>bLButtonDown := x, bRButtonDown := y\<rparr>)
        = GetJoystickData_bits i (j + 1) (drop_bit 1 changed) (drop_bit 1 state)
            (s2\<lparr>bLButtonDown := x, bRButtonDown := y\<rparr>)"
      unfolding r0 t2s by (rule refl)
    have ih: "GetJoystickData_bits i (j + 1) (drop_bit 1 changed) (drop_bit 1 state)
            (s2\<lparr>bLButtonDown := x, bRButtonDown := y\<rparr>)
        = (GetJoystickData_bits i (j + 1) (drop_bit 1 changed) (drop_bit 1 state) s2)
            \<lparr>bLButtonDown := x, bRButtonDown := y\<rparr>"
      unfolding s2_def s1_def scan_def jp_def
      by (rule "1.IH" [OF True refl refl refl refl])
    show ?thesis unfolding l r ih by (rule refl)
  qed
qed

lemma GetJoystickData_pad_buttons:
  "GetJoystickData_pad i (s\<lparr>bLButtonDown := x, bRButtonDown := y\<rparr>)
   = (GetJoystickData_pad i s)\<lparr>bLButtonDown := x, bRButtonDown := y\<rparr>"
proof -
  define jp where "jp = joypad s ! i"
  define st where "st = read_source jp s"
  define s1 where "s1 = s\<lparr>joypad := (joypad s)[i := jp\<lparr>input_state := st, joystick := 0\<rparr>]\<rparr>"
  have rs: "\<And>p. read_source p (s\<lparr>bLButtonDown := x, bRButtonDown := y\<rparr>) = read_source p s"
    by (simp add: read_source_def Let_def split: joy_source.split option.split)
  have a: "GetJoystickData_pad i s = GetJoystickData_bits i 0 (input_state jp XOR st) st s1"
    by (simp add: GetJoystickData_pad_def Let_def jp_def st_def s1_def)
  define t1 where "t1 = (s\<lparr>bLButtonDown := x, bRButtonDown := y\<rparr>)\<lparr>joypad :=
      (joypad (s\<lparr>bLButtonDown := x, bRButtonDown := y\<rparr>))[i := jp\<lparr>input_state := st, joystick := 0\<rparr>]\<rparr>"
  have b0: "GetJoystickData_pad i (s\<lparr>bLButtonDown := x, bRButtonDown := y\<rparr>)
      = GetJoystickData_bits i 0 (input_state jp XOR st) st t1"
    unfolding GetJoystickData_pad_def Let_def rs t1_def st_def jp_def by simp
  have t1s: "t1 = s1\<lparr>bLButtonDown := x, bRButtonDown := y\<rparr>"
    by (simp add: t1_def s1_def)
  have b: "GetJoystickData_pad i (s\<lparr>bLButtonDown := x, bRButtonDown := y\<rparr>)
      = GetJoystickData_bits i 0 (input_state jp XOR st) st (s1\<lparr>bLButtonDown := x, bRButtonDown := y\<rparr>)"
    unfolding b0 t1s by (rule refl)
  show ?thesis unfolding a b by (rule GetJoystickData_bits_buttons)
qed

lemma GetJoystickData_buttons:
  "IKBD_GetJoystickData (s\<lparr>bLButtonDown := x, bRButtonDown := y\<rparr>)
   = (IKBD_GetJoystickData s)\<lparr>bLButtonDown := x, bRButtonDown := y\<rparr>"
proof -
  define g where "g = GetJoystickData_pad 1 (GetJoystickData_pad 0 s)"
  have e: "GetJoystickData_pad 1 (GetJoystickData_pad 0 (s\<lparr>bLButtonDown := x, bRButtonDown := y\<rparr>))
      = g\<lparr>bLButtonDown := x, bRButtonDown := y\<rparr>"
    by (simp add: GetJoystickData_pad_buttons g_def)
  show ?thesis
    unfolding IKBD_GetJoystickData_def Let_def e g_def [symmetric]
    by simp
qed


lemma UpdateInternalMousePosition_frame:
  "\<exists>ax ay. IKBD_UpdateInternalMousePosition s =
     s\<lparr>Mouse_DeltaX := sint (v4sa_mousex s), Mouse_DeltaY := sint (v4sa_mousey s),
       v4sa_mousex := 0, v4sa_mousey := 0, Abs_X := ax, Abs_Y := ay\<rparr>"
proof -
  define s1 where "s1 = s\<lparr>Mouse_DeltaX := sint (v4sa_mousex s), Mouse_DeltaY := sint (v4sa_mousey s),
                v4sa_mousex := 0, v4sa_mousey := 0\<rparr>"
  define s2 where "s2 = (if Mouse_XScale s1 > 1
               then s1\<lparr>Abs_X := Abs_X s1 + Mouse_DeltaX s1 * Mouse_XScale s1\<rparr>
               else s1\<lparr>Abs_X := Abs_X s1 + Mouse_DeltaX s1\<rparr>)"
  define s3 where "s3 = (if Abs_X s2 < 0 then s2\<lparr>Abs_X := 0\<rparr> else s2)"
  define s4 where "s4 = (if Abs_X s3 > Abs_MaxX s3 then s3\<lparr>Abs_X := Abs_MaxX s3\<rparr> else s3)"
  define s5 where "s5 = (if Mouse_YScale s4 > 1
               then s4\<lparr>Abs_Y := Abs_Y s4 + Mouse_DeltaY s4 * Mouse_YAxis s4 * Mouse_YScale s4\<rparr>
               else s4\<lparr>Abs_Y := Abs_Y s4 + Mouse_DeltaY s4 * Mouse_YAxis s4\<rparr>)"
  define s6 where "s6 = (if Abs_Y s5 < 0 then s5\<lparr>Abs_Y := 0\<rparr> else s5)"
  define s7 where "s7 = (if Abs_Y s6 > Abs_MaxY s6 then s6\<lparr>Abs_Y := Abs_MaxY s6\<rparr> else s6)"
  have e: "IKBD_UpdateInternalMousePosition s = s7"
    unfolding IKBD_UpdateInternalMousePosition_def Let_def
    unfolding s1_def [symmetric]
    unfolding s2_def [symmetric]
    unfolding s3_def [symmetric]
    unfolding s4_def [symmetric]
    unfolding s5_def [symmetric]
    unfolding s6_def [symmetric]
    unfolding s7_def [symmetric]
    by (rule refl)
  have p2: "s2 = s1\<lparr>Abs_X := Abs_X s2\<rparr>" by (simp add: s2_def)
  have p3: "s3 = s2\<lparr>Abs_X := Abs_X s3\<rparr>" by (simp add: s3_def)
  have p4: "s4 = s3\<lparr>Abs_X := Abs_X s4\<rparr>" by (simp add: s4_def)
  have p5: "s5 = s4\<lparr>Abs_Y := Abs_Y s5\<rparr>" by (simp add: s5_def)
  have p6: "s6 = s5\<lparr>Abs_Y := Abs_Y s6\<rparr>" by (simp add: s6_def)
  have p7: "s7 = s6\<lparr>Abs_Y := Abs_Y s7\<rparr>" by (simp add: s7_def)
  have q4: "s4 = s1\<lparr>Abs_X := Abs_X s4\<rparr>"
    by (subst p4, subst p3, subst p2) simp
  have q7: "s7 = s4\<lparr>Abs_Y := Abs_Y s7\<rparr>"
    by (subst p7, subst p6, subst p5) simp
  have "s7 = s1\<lparr>Abs_X := Abs_X s4, Abs_Y := Abs_Y s7\<rparr>"
    by (subst q7, subst q4) simp
  then have "IKBD_UpdateInternalMousePosition s =
     s\<lparr>Mouse_DeltaX := sint (v4sa_mousex s), Mouse_DeltaY := sint (v4sa_mousey s),
       v4sa_mousex := 0, v4sa_mousey := 0, Abs_X := Abs_X s4, Abs_Y := Abs_Y s7\<rparr>"
    unfolding e by (simp add: s1_def)
  then show ?thesis by (intro exI)
qed

lemma fire_clear: "w AND m = 0 \<Longrightarrow> w AND NOT m = (w :: byte)"
proof -
  assume z: "w AND m = 0"
  have "w AND NOT m = (w AND NOT m) OR (w AND m)" by (simp add: z)
  also have "\<dots> = w AND (NOT m OR m)" by (simp only: bit.conj_disj_distrib)
  also have "\<dots> = w" by simp
  finally show ?thesis .
qed

lemma SendOnMouseAction_idle:
  "bLButtonDown s = 0 \<Longrightarrow> bRButtonDown s = 0 \<Longrightarrow> bOldLButtonDown s = 0
   \<Longrightarrow> bOldRButtonDown s = 0 \<Longrightarrow> IKBD_SendOnMouseAction s = s"
  by (simp add: IKBD_SendOnMouseAction_def send_button_keycodes_def IKBD_ButtonBool_def Let_def)

lemma AutoKeyboard_sample_at_rest:
  assumes rel: "MouseMode s = AUTOMODE_MOUSEREL" and rest: "inputs_at_rest s"
  shows "\<exists>jp ax ay. AutoKeyboard_sample s =
     s\<lparr>bLButtonDown := 0, bRButtonDown := 0, joypad := jp,
       JoyData1 := PrevJoyData1 s, JoyData0 := PrevJoyData0 s,
       Mouse_DeltaX := sint (v4sa_mousex s), Mouse_DeltaY := sint (v4sa_mousey s),
       v4sa_mousex := 0, v4sa_mousey := 0, Abs_X := ax, Abs_Y := ay\<rparr>"
proof -
  define G where "G = IKBD_GetJoystickData s"
  obtain jp out j0 j1 where g: "G = s\<lparr>joypad := jp, acia := out, JoyData1 := j1, JoyData0 := j0\<rparr>"
    unfolding G_def using GetJoystickData_frame_ex [of s] by (elim exE)
  have o: "acia G = out" "JoyData0 G = j0" "JoyData1 G = j1" by (simp_all add: g)
  have r0: "acia G = acia s" "JoyData0 G = PrevJoyData0 s" "JoyData1 G = PrevJoyData1 s"
      "JoyData1 G AND 0x80 = 0"
    using rest by (auto simp add: inputs_at_rest_def G_def)
  have r: "out = acia s" "j0 = PrevJoyData0 s" "j1 = PrevJoyData1 s" "j1 AND 0x80 = 0"
    using r0 unfolding o by simp_all
  define s1 where "s1 = s\<lparr>bLButtonDown := 0, bRButtonDown := 0\<rparr>"
  define s2 where "s2 = s\<lparr>bLButtonDown := 0, bRButtonDown := 0, joypad := jp,
       JoyData1 := PrevJoyData1 s, JoyData0 := PrevJoyData0 s\<rparr>"
  have e2: "IKBD_GetJoystickData s1 = s2"
    unfolding s1_def GetJoystickData_buttons G_def [symmetric]
    by (simp add: g r s2_def)
  have old: "bOldLButtonDown s = 0" "bOldRButtonDown s = 0"
    using rest by (simp_all add: inputs_at_rest_def)
  have e3: "IKBD_DuplicateMouseFireButtons s2 = s2"
    using rel r(4) fire_clear [OF r(4)]
    by (simp add: IKBD_DuplicateMouseFireButtons_def s2_def r(3) [symmetric])
  have e4: "IKBD_SendOnMouseAction s2 = s2"
    by (rule SendOnMouseAction_idle) (simp_all add: s2_def old)
  have b: "v4sa_mouseb s AND 2 = 0" "v4sa_mouseb s AND 1 = 0"
    using rest by (simp_all add: inputs_at_rest_def)
  have e: "AutoKeyboard_sample s = IKBD_UpdateInternalMousePosition s2"
    unfolding AutoKeyboard_sample_def Let_def
    by (simp add: b s1_def [symmetric] e2 e3 e4)
  obtain ax ay where u: "IKBD_UpdateInternalMousePosition s2 =
     s2\<lparr>Mouse_DeltaX := sint (v4sa_mousex s2), Mouse_DeltaY := sint (v4sa_mousey s2),
       v4sa_mousex := 0, v4sa_mousey := 0, Abs_X := ax, Abs_Y := ay\<rparr>"
    using UpdateInternalMousePosition_frame [of s2] by (elim exE)
  have "AutoKeyboard_sample s =
     s\<lparr>bLButtonDown := 0, bRButtonDown := 0, joypad := jp,
       JoyData1 := PrevJoyData1 s, JoyData0 := PrevJoyData0 s,
       Mouse_DeltaX := sint (v4sa_mousex s), Mouse_DeltaY := sint (v4sa_mousey s),
       v4sa_mousex := 0, v4sa_mousey := 0, Abs_X := ax, Abs_Y := ay\<rparr>"
    unfolding e u by (simp add: s2_def)
  then show ?thesis by (intro exI)
qed

lemma SendRelMousePacket_once:
  assumes due: "RelMousePacket_due s"
  shows "IKBD_SendRelMousePacket s = RelMousePacket_send s"
proof -
  have z: "\<And>d. int8_of (d - int8_of d) = 0" by (simp add: int8_of_def)
  have n: "\<not> RelMousePacket_due (RelMousePacket_send s)"
    by (simp add: RelMousePacket_due_def RelMousePacket_send_def Let_def z
        acia_ikbd_rx_seq_def acia_ikbd_rx_def IKBD_ButtonsEqual_def)
  have "IKBD_SendRelMousePacket s = IKBD_SendRelMousePacket (RelMousePacket_send s)"
    by (subst IKBD_SendRelMousePacket.simps) (simp only: due if_True)
  also have "\<dots> = RelMousePacket_send s"
    by (subst IKBD_SendRelMousePacket.simps) (simp only: n if_False)
  finally show ?thesis .
qed

lemma wheel_loops_idle: "v4sa_mousew s = 0 \<Longrightarrow> wheel_loop_neg (wheel_loop_pos s) = s"
proof -
  assume z: "v4sa_mousew s = 0"
  have p: "wheel_loop_pos s = s" by (subst wheel_loop_pos.simps) (simp add: z)
  have n: "wheel_loop_neg s = s" by (subst wheel_loop_neg.simps) (simp add: z)
  show ?thesis by (simp only: p n)
qed

lemma run_custom_read_acia:
  "acia (run_custom_read t) = acia t @ custom_read_output t"
proof -
  obtain rest where r: "acia (run_custom_read t) = acia t @ rest"
    using run_custom_read_effect [of t] by (elim conjE exE)
  show ?thesis unfolding custom_read_output_def r by simp
qed

lemma custom_read_output_idle:
  "\<not> (IKBD_ExeMode s \<and> pIKBD_CustomCodeHandler_Read s \<noteq> None) \<Longrightarrow> custom_read_output s = []"
  by (simp add: custom_read_output_def run_custom_read_idle)

lemma custom_read_output_silent:
  "pIKBD_CustomCodeHandler_Read s = Some FroggiesMenu_Read
   \<or> pIKBD_CustomCodeHandler_Read s = Some DragonnelsMenu_Read \<Longrightarrow> custom_read_output s = []"
  by (auto simp add: custom_read_output_def run_custom_read_def
      IKBD_CustomCodeHandler_FroggiesMenu_Read_def IKBD_CustomCodeHandler_DragonnelsMenu_Read_def)

lemma custom_read_output_Transbeauce2:
  "IKBD_ExeMode s \<Longrightarrow> pIKBD_CustomCodeHandler_Read s = Some Transbeauce2Menu_Read \<Longrightarrow>
   length (custom_read_output s) = 1"
  by (simp add: custom_read_output_def run_custom_read_def
      IKBD_CustomCodeHandler_Transbeauce2Menu_Read_def Let_def acia_ikbd_rx_def)

text \<open>What a custom read handler sends depends on these fields only.\<close>

lemma custom_read_output_cong:
  assumes "IKBD_ExeMode t = IKBD_ExeMode s"
    and "pIKBD_CustomCodeHandler_Read t = pIKBD_CustomCodeHandler_Read s"
    and "ScanCodeState t = ScanCodeState s" and "JoyData1 t = JoyData1 s"
    and "ChaosAD_FirstCall t = ChaosAD_FirstCall s" and "ASmagic t = ASmagic s"
    and "AudioSculpture_ReadCount t = AudioSculpture_ReadCount s"
  shows "custom_read_output t = custom_read_output s"
proof (cases "IKBD_ExeMode s")
  case False
  then show ?thesis using assms(1)
    by (simp add: custom_read_output_def run_custom_read_def)
next
  case True
  show ?thesis
  proof (cases "pIKBD_CustomCodeHandler_Read s")
    case None
    then show ?thesis using assms(1,2)
      by (simp add: custom_read_output_def run_custom_read_def)
  next
    case (Some h)
    have e: "\<And>u. IKBD_ExeMode u \<Longrightarrow> pIKBD_CustomCodeHandler_Read u = Some h \<Longrightarrow>
        custom_read_output u = drop (length (acia u)) (acia (call_read_handler h u))"
      by (simp add: custom_read_output_def run_custom_read_def)
    have et: "custom_read_output t = drop (length (acia t)) (acia (call_read_handler h t))"
      using e [of t] True Some assms(1,2) by simp
    have es: "custom_read_output s = drop (length (acia s)) (acia (call_read_handler h s))"
      using e [of s] True Some by simp
    show ?thesis
      unfolding et es
    proof (cases h)
      case FroggiesMenu_Read
      then show "drop (length (acia t)) (acia (call_read_handler h t))
          = drop (length (acia s)) (acia (call_read_handler h s))"
        by (simp add: IKBD_CustomCodeHandler_FroggiesMenu_Read_def)
    next
      case Transbeauce2Menu_Read
      then show "drop (length (acia t)) (acia (call_read_handler h t))
          = drop (length (acia s)) (acia (call_read_handler h s))"
        using assms(3,4)
        by (simp add: IKBD_CustomCodeHandler_Transbeauce2Menu_Read_def Let_def acia_ikbd_rx_def)
    next
      case DragonnelsMenu_Read
      then show "drop (length (acia t)) (acia (call_read_handler h t))
          = drop (length (acia s)) (acia (call_read_handler h s))"
        by (simp add: IKBD_CustomCodeHandler_DragonnelsMenu_Read_def)
    next
      case ChaosAD_Read
      then show "drop (length (acia t)) (acia (call_read_handler h t))
          = drop (length (acia s)) (acia (call_read_handler h s))"
        using assms(5)
        by (simp add: IKBD_CustomCodeHandler_ChaosAD_Read_def Let_def acia_ikbd_rx_def)
    next
      case AudioSculpture_Color_Read
      then show "drop (length (acia t)) (acia (call_read_handler h t))
          = drop (length (acia s)) (acia (call_read_handler h s))"
        using assms(3,6,7)
        by (simp add: IKBD_CustomCodeHandler_AudioSculpture_Color_Read_def
            IKBD_CustomCodeHandler_AudioSculpture_Read_def Let_def acia_ikbd_rx_def
            IKBD_Boot_ROM_def IKBD_CheckPressedKey_def)
    next
      case AudioSculpture_Mono_Read
      then show "drop (length (acia t)) (acia (call_read_handler h t))
          = drop (length (acia s)) (acia (call_read_handler h s))"
        using assms(3,6,7)
        by (simp add: IKBD_CustomCodeHandler_AudioSculpture_Mono_Read_def
            IKBD_CustomCodeHandler_AudioSculpture_Read_def Let_def acia_ikbd_rx_def
            IKBD_Boot_ROM_def IKBD_CheckPressedKey_def)
    qed
  qed
qed

text \<open>
  The tick of the claim: the relative mouse packet, then the call of the custom read handler.
\<close>

lemma tick_relative_state:
  assumes cnt: "ikbd_reset_counter s = 0"
    and rel: "MouseMode s = AUTOMODE_MOUSEREL"
    and mon: "JoystickMode s \<noteq> AUTOMODE_JOYSTICK_MONITORING"
    and thr: "Mouse_XThreshold s = 1" "Mouse_YThreshold s = 1"
    and yax: "Mouse_YAxis s = 1"
    and rest: "inputs_at_rest s"
    and dx: "v4sa_mousex s = 5" and dy: "v4sa_mousey s = 0"
  shows "acia (IKBD_SendAutoKeyboardCommands s)
           = acia s @ [0xF8, 5, 0] @ custom_read_output (s\<lparr>JoyData1 := PrevJoyData1 s\<rparr>)"
proof -
  define s5 where "s5 = AutoKeyboard_sample s"
  obtain jp ax ay where sm: "s5 =
     s\<lparr>bLButtonDown := 0, bRButtonDown := 0, joypad := jp,
       JoyData1 := PrevJoyData1 s, JoyData0 := PrevJoyData0 s,
       Mouse_DeltaX := sint (v4sa_mousex s), Mouse_DeltaY := sint (v4sa_mousey s),
       v4sa_mousex := 0, v4sa_mousey := 0, Abs_X := ax, Abs_Y := ay\<rparr>"
    unfolding s5_def using AutoKeyboard_sample_at_rest [OF rel rest] by (elim exE)
  have r: "bOldLButtonDown s = 0" "bOldRButtonDown s = 0" "v4sa_mousew s = 0"
      "(v4sa_mouseb s XOR mouseb_old s) AND 0x04 = 0"
      "(v4sa_mouseb s XOR mouseb_old s) AND 0x08 = 0"
      "(v4sa_mouseb s XOR mouseb_old s) AND 0x10 = 0"
    using rest by (simp_all add: inputs_at_rest_def)
  have f5: "acia s5 = acia s" "Mouse_DeltaX s5 = 5" "Mouse_DeltaY s5 = 0"
      "bLButtonDown s5 = 0" "bRButtonDown s5 = 0" "bOldLButtonDown s5 = 0" "bOldRButtonDown s5 = 0"
      "MouseMode s5 = AUTOMODE_MOUSEREL" "JoystickMode s5 = JoystickMode s"
      "JoyData0 s5 = PrevJoyData0 s5" "JoyData1 s5 = PrevJoyData1 s5"
      "Mouse_XThreshold s5 = 1" "Mouse_YThreshold s5 = 1" "Mouse_YAxis s5 = 1"
      "v4sa_mousew s5 = 0" "v4sa_mouseb s5 = v4sa_mouseb s" "mouseb_old s5 = mouseb_old s"
      "IKBD_ExeMode s5 = IKBD_ExeMode s"
      "pIKBD_CustomCodeHandler_Read s5 = pIKBD_CustomCodeHandler_Read s"
      "ScanCodeState s5 = ScanCodeState s" "JoyData1 s5 = PrevJoyData1 s"
      "ChaosAD_FirstCall s5 = ChaosAD_FirstCall s" "ASmagic s5 = ASmagic s"
      "AudioSculpture_ReadCount s5 = AudioSculpture_ReadCount s"
      "PrevJoyData1 s5 = PrevJoyData1 s"
    by (simp_all add: sm rel thr yax dx dy r)
  have j: "(if JoystickMode s5 = AUTOMODE_JOYSTICK then IKBD_SendAutoJoysticks s5 else s5) = s5"
    by (simp add: IKBD_SendAutoJoysticks_def Let_def f5(10,11))
  have due: "RelMousePacket_due s5"
    by (simp add: RelMousePacket_due_def Let_def int8_of_def f5)
  define s7 where "s7 = RelMousePacket_send s5"
  have f7: "acia s7 = acia s @ [0xF8, 5, 0]" "v4sa_mousew s7 = 0"
      "v4sa_mouseb s7 = v4sa_mouseb s" "mouseb_old s7 = mouseb_old s"
      "IKBD_ExeMode s7 = IKBD_ExeMode s"
      "pIKBD_CustomCodeHandler_Read s7 = pIKBD_CustomCodeHandler_Read s"
      "ScanCodeState s7 = ScanCodeState s" "JoyData1 s7 = PrevJoyData1 s"
      "ChaosAD_FirstCall s7 = ChaosAD_FirstCall s" "ASmagic s7 = ASmagic s"
      "AudioSculpture_ReadCount s7 = AudioSculpture_ReadCount s"
    by (simp_all add: s7_def RelMousePacket_send_def Let_def int8_of_def acia_ikbd_rx_seq_eq f5)
  define s8 where "s8 = s7\<lparr>bOldLButtonDown := bLButtonDown s7, bOldRButtonDown := bRButtonDown s7\<rparr>"
  have p: "AutoKeyboard_packets s5 = s8"
    unfolding AutoKeyboard_packets_def Let_def j
    by (simp add: f5(8) SendRelMousePacket_once [OF due] s8_def s7_def)
  have f8: "acia s8 = acia s @ [0xF8, 5, 0]" "v4sa_mousew s8 = 0"
      "v4sa_mouseb s8 = v4sa_mouseb s" "mouseb_old s8 = mouseb_old s"
      "IKBD_ExeMode s8 = IKBD_ExeMode s"
      "pIKBD_CustomCodeHandler_Read s8 = pIKBD_CustomCodeHandler_Read s"
      "ScanCodeState s8 = ScanCodeState s" "JoyData1 s8 = PrevJoyData1 s"
      "ChaosAD_FirstCall s8 = ChaosAD_FirstCall s" "ASmagic s8 = ASmagic s"
      "AudioSculpture_ReadCount s8 = AudioSculpture_ReadCount s"
    by (simp_all add: s8_def f7)
  have w: "wheel_loop_neg (wheel_loop_pos s8) = s8"
    by (rule wheel_loops_idle [OF f8(2)])
  have b: "AutoKeyboard_buttons s8 = s8\<lparr>mouseb_old := v4sa_mouseb s8\<rparr>"
    by (simp add: AutoKeyboard_buttons_def Let_def f8 r)
  define s9 where "s9 = s8\<lparr>mouseb_old := v4sa_mouseb s8\<rparr>"
  have f9: "acia s9 = acia s @ [0xF8, 5, 0]"
    by (simp add: s9_def f8)
  have o: "custom_read_output s9 = custom_read_output (s\<lparr>JoyData1 := PrevJoyData1 s\<rparr>)"
    by (rule custom_read_output_cong) (simp_all add: s9_def f8)
  have m5: "JoystickMode s5 \<noteq> AUTOMODE_JOYSTICK_MONITORING" using mon by (simp add: f5(9))
  have "IKBD_SendAutoKeyboardCommands s = run_custom_read s9"
    unfolding IKBD_SendAutoKeyboardCommands_def Let_def s5_def [symmetric]
    by (simp add: cnt m5 p w b s9_def [symmetric])
  then show ?thesis by (simp add: run_custom_read_acia f9 o)
qed

lemma tick_relative_packet:
  assumes cnt: "ikbd_reset_counter s = 0"
    and rel: "MouseMode s = AUTOMODE_MOUSEREL"
    and mon: "JoystickMode s \<noteq> AUTOMODE_JOYSTICK_MONITORING"
    and thr: "Mouse_XThreshold s = 1" "Mouse_YThreshold s = 1"
    and yax: "Mouse_YAxis s = 1"
    and rest: "inputs_at_rest s"
    and idle: "\<not> (IKBD_ExeMode s \<and> pIKBD_CustomCodeHandler_Read s \<noteq> None)"
    and dx: "v4sa_mousex s = 5" and dy: "v4sa_mousey s = 0"
  shows "acia (IKBD_SendAutoKeyboardCommands s) = acia s @ [0xF8, 5, 0]"
proof -
  have "custom_read_output (s\<lparr>JoyData1 := PrevJoyData1 s\<rparr>) = []"
    by (rule custom_read_output_idle) (use idle in simp)
  then show ?thesis
    using tick_relative_state [OF cnt rel mon thr yax rest dx dy] by simp
qed

text \<open>The states used below, written out over the power-on state.\<close>

lemma lookup_0x13: "lookup_command 0x13 = Some (0x13, 1, Cmd_StopKeyboardTransfer)"
  by (simp add: lookup_command_def KeyboardCommands_def)

lemma lookup_0x08: "lookup_command 0x08 = Some (0x08, 1, Cmd_RelMouseMode)"
  by (simp add: lookup_command_def KeyboardCommands_def)

lemma GetJoystickData_pad_quiet:
  assumes "i < length (joypad s)"
    and "input_state (joypad s ! i) = 0" and "joystick (joypad s ! i) = 0"
    and "read_source (joypad s ! i) s = 0"
  shows "GetJoystickData_pad i s = s"
proof -
  have u: "(joypad s ! i)\<lparr>input_state := 0, joystick := 0\<rparr> = joypad s ! i"
    using assms(2,3) by simp
  show ?thesis
    unfolding GetJoystickData_pad_def Let_def assms(4)
    by (simp add: assms(2) u GetJoystickData_bits.simps)
qed

lemma GetJoystickData_quiet:
  assumes jp: "joypad s = [defaults0, defaults1, defaults0, defaults1]"
    and j0: "v4sa_joyb0 s = 0" and j1: "v4sa_joyb1 s = 0"
  shows "IKBD_GetJoystickData s = s\<lparr>JoyData1 := 0, JoyData0 := 0\<rparr>"
proof -
  have a: "GetJoystickData_pad 0 s = s"
    by (rule GetJoystickData_pad_quiet) (simp_all add: jp defaults0_def read_source_def j0)
  have b: "GetJoystickData_pad 1 s = s"
    by (rule GetJoystickData_pad_quiet) (simp_all add: jp defaults1_def read_source_def j1)
  show ?thesis
    unfolding IKBD_GetJoystickData_def Let_def a b
    by (simp add: jp defaults0_def defaults1_def)
qed

lemma inputs_at_rest_quiet:
  assumes "joypad s = [defaults0, defaults1, defaults0, defaults1]"
    and "v4sa_joyb0 s = 0" and "v4sa_joyb1 s = 0"
    and "v4sa_mouseb s = 0" and "mouseb_old s = 0" and "v4sa_mousew s = 0"
    and "bOldLButtonDown s = 0" and "bOldRButtonDown s = 0"
    and "PrevJoyData0 s = 0" and "PrevJoyData1 s = 0"
  shows "inputs_at_rest s"
  unfolding inputs_at_rest_def GetJoystickData_quiet [OF assms(1,2,3)]
  using assms(4-10) by simp

lemma power_on_rest:
  "joypad power_on = [defaults0, defaults1, defaults0, defaults1]"
  "v4sa_joyb0 power_on = 0" "v4sa_joyb1 power_on = 0"
  "v4sa_mouseb power_on = 0" "mouseb_old power_on = 0" "v4sa_mousew power_on = 0"
  "bOldLButtonDown power_on = 0" "bOldRButtonDown power_on = 0"
  "PrevJoyData0 power_on = 0" "PrevJoyData1 power_on = 0"
  "Mouse_XThreshold power_on = 1" "Mouse_YThreshold power_on = 1" "Mouse_YAxis power_on = 1"
  "IKBD_ExeMode power_on = False" "v4sa_mousey power_on = 0"
  "length (InputBuffer power_on) = 8" "PauseOutput power_on = False"
  "nBytesInInputBuffer power_on = 0"
  by (simp_all add: power_on_def IKBD_Reset_def IKBD_Boot_ROM_def IKBD_Init_def static_storage_def)

lemma mouse_moved_state_eq:
  "mouse_moved_state =
     power_on\<lparr>ikbd_reset_counter := 0, bDuringResetCriticalTime := False,
       bMouseEnabledDuringReset := False, acia := [0xF1], v4sa_mousex := 5\<rparr>"
  by (simp add: mouse_moved_state_def running_state_eq)

lemma paused_state_eq:
  "paused_state =
     power_on\<lparr>ikbd_reset_counter := 0, bDuringResetCriticalTime := False,
       bMouseEnabledDuringReset := False, acia := [0xF1],
       InputBuffer := 0x13 # drop 1 (InputBuffer power_on), PauseOutput := True,
       v4sa_mousex := 5\<rparr>"
proof -
  have "IKBD_Process_RDR_seq [0x13] running_state =
      (pCallFunction Cmd_StopKeyboardTransfer
         ((framed [0x13] running_state)\<lparr>PauseOutput := False\<rparr>))\<lparr>nBytesInInputBuffer := 0\<rparr>"
    by (rule command_whole [OF running_state_boundary lookup_0x13]) simp_all
  then show ?thesis
    by (simp add: paused_state_def IKBD_Cmd_StopKeyboardTransfer_def framed_def running_state_eq
        power_on_boundary [unfolded command_boundary_def])
qed

lemma monitoring_relative_state_eq:
  "monitoring_relative_state =
     power_on\<lparr>ikbd_reset_counter := 0, bDuringResetCriticalTime := False,
       bMouseEnabledDuringReset := False, acia := [0xF1],
       InputBuffer := 0x08 # 0x01 # drop 2 (InputBuffer power_on),
       JoystickMode := AUTOMODE_JOYSTICK_MONITORING, MouseMode := AUTOMODE_MOUSEREL,
       AutoSendCycles := 80212,
       v4sa_mousex := 5\<rparr>"
proof -
  define m where "m = IKBD_Process_RDR_seq [0x17, 0x01] running_state"
  have m1: "m = (pCallFunction Cmd_SetJoystickMonitoring
         ((framed [0x17, 0x01] running_state)\<lparr>PauseOutput := False\<rparr>))\<lparr>nBytesInInputBuffer := 0\<rparr>"
    unfolding m_def by (rule command_whole [OF running_state_boundary lookup_0x17]) simp_all
  have m2: "m = power_on\<lparr>ikbd_reset_counter := 0, bDuringResetCriticalTime := False,
       bMouseEnabledDuringReset := False, acia := [0xF1],
       InputBuffer := 0x17 # 0x01 # drop 2 (InputBuffer power_on),
       JoystickMode := AUTOMODE_JOYSTICK_MONITORING, MouseMode := AUTOMODE_OFF,
       AutoSendCycles := 80212\<rparr>"
    unfolding m1
    by (simp add: IKBD_Cmd_SetJoystickMonitoring_def Let_def framed_def running_state_eq
        power_on_rest numeral_2_eq_2)
  have mb: "command_boundary m"
    using power_on_boundary by (simp add: m2 command_boundary_def Standard_phase_def)
  have r1: "IKBD_Process_RDR_seq [0x08] m = (pCallFunction Cmd_RelMouseMode
         ((framed [0x08] m)\<lparr>PauseOutput := False\<rparr>))\<lparr>nBytesInInputBuffer := 0\<rparr>"
    by (rule command_whole [OF mb lookup_0x08]) simp_all
  have sq: "IKBD_Process_RDR_seq [0x17, 0x01, 0x08] running_state = IKBD_Process_RDR_seq [0x08] m"
    using Process_RDR_seq_append [of "[0x17, 0x01]" "[0x08]" running_state] by (simp add: m_def)
  show ?thesis
    unfolding monitoring_relative_state_def sq r1
    by (simp add: IKBD_Cmd_RelMouseMode_def Let_def framed_def m2 power_on_rest numeral_2_eq_2)
qed

lemma tick_monitoring_packet:
  assumes cnt: "ikbd_reset_counter s = 0"
    and rel: "MouseMode s = AUTOMODE_MOUSEREL"
    and mon: "JoystickMode s = AUTOMODE_JOYSTICK_MONITORING"
    and rest: "inputs_at_rest s"
  shows "acia (IKBD_SendAutoKeyboardCommands s) =
     acia s @ [ucast (drop_bit 6 (PrevJoyData0 s AND 0x80) OR drop_bit 7 (PrevJoyData1 s AND 0x80)),
               ucast (push_bit 4 (PrevJoyData0 s AND 0x0f) OR (PrevJoyData1 s AND 0x0f))]"
proof -
  define s5 where "s5 = AutoKeyboard_sample s"
  obtain jp ax ay where sm: "s5 =
     s\<lparr>bLButtonDown := 0, bRButtonDown := 0, joypad := jp,
       JoyData1 := PrevJoyData1 s, JoyData0 := PrevJoyData0 s,
       Mouse_DeltaX := sint (v4sa_mousex s), Mouse_DeltaY := sint (v4sa_mousey s),
       v4sa_mousex := 0, v4sa_mousey := 0, Abs_X := ax, Abs_Y := ay\<rparr>"
    unfolding s5_def using AutoKeyboard_sample_at_rest [OF rel rest] by (elim exE)
  have f5: "acia s5 = acia s" "JoystickMode s5 = AUTOMODE_JOYSTICK_MONITORING"
      "JoyData0 s5 = PrevJoyData0 s" "JoyData1 s5 = PrevJoyData1 s"
    by (simp_all add: sm mon)
  have "IKBD_SendAutoKeyboardCommands s = IKBD_SendAutoJoysticksMonitoring s5"
    unfolding IKBD_SendAutoKeyboardCommands_def Let_def s5_def [symmetric]
    by (simp add: cnt f5(2))
  then show ?thesis
    by (simp add: IKBD_SendAutoJoysticksMonitoring_def Let_def acia_ikbd_rx_seq_eq f5)
qed

lemma monitoring_relative_state_rest: "inputs_at_rest monitoring_relative_state"
  by (rule inputs_at_rest_quiet) (simp_all add: monitoring_relative_state_eq power_on_rest)

lemma mouse_moved_state_rest: "inputs_at_rest mouse_moved_state"
  by (rule inputs_at_rest_quiet) (simp_all add: mouse_moved_state_eq power_on_rest)

lemma paused_state_rest: "inputs_at_rest paused_state"
  by (rule inputs_at_rest_quiet) (simp_all add: paused_state_eq power_on_rest)

lemma more_states_facts:
  "ikbd_reset_counter middle_button_state = 0"
  "MouseMode middle_button_state = AUTOMODE_MOUSEREL"
  "Mouse_XThreshold middle_button_state = 1" "Mouse_YThreshold middle_button_state = 1"
  "Mouse_YAxis middle_button_state = 1"
  "v4sa_mouseb middle_button_state AND 3 = 0"
  "bOldLButtonDown middle_button_state = 0" "bOldRButtonDown middle_button_state = 0"
  "v4sa_mousew middle_button_state = 0"
  "v4sa_mousex middle_button_state = 5" "v4sa_mousey middle_button_state = 0"
  "acia (IKBD_SendAutoKeyboardCommands middle_button_state)
     = acia middle_button_state @ [0xF8, 5, 0, 0x37]"
  "ikbd_reset_counter stick_held_reset_state = 0"
  "MouseMode stick_held_reset_state = AUTOMODE_MOUSEREL"
  "Mouse_XThreshold stick_held_reset_state = 1" "Mouse_YThreshold stick_held_reset_state = 1"
  "Mouse_YAxis stick_held_reset_state = 1"
  "v4sa_mouseb stick_held_reset_state = 0"
  "v4sa_mousew stick_held_reset_state = 0"
  "input_state (joypad stick_held_reset_state ! 1) = v4sa_joyb1 stick_held_reset_state"
  "input_state (joypad stick_held_reset_state ! 0) = v4sa_joyb0 stick_held_reset_state"
  "v4sa_mousex stick_held_reset_state = 5" "v4sa_mousey stick_held_reset_state = 0"
  "acia (IKBD_SendAutoKeyboardCommands stick_held_reset_state)
     = acia stick_held_reset_state @ [0xFF, 1, 0xF8, 5, 0]"
  by code_simp+

text \<open>
  Claim C7, as stated, fails, in three ways. With the joysticks in monitoring mode the tick
  returns after the monitoring packet and sends no mouse packet: in the state reached by the
  commands 0x17 0x01 and 0x08 the mouse is in relative mode, the thresholds are 1, the Y
  axis is the default, the inputs are at rest and the countdown has expired, and the tick
  with a movement of 5 in X sends the two bytes of the joystick monitoring packet. With the
  third mouse button pressed, the left and right ones up and unchanged, the tick sends the
  key code 0x37 after the packet. With joystick 1 held up since before a reset command, its
  register unchanged since the last sample, the tick reports the joystick before the packet.
\<close>

theorem C7_relative_packet_counterexample:
  "ikbd_reset_counter monitoring_relative_state = 0
   \<and> MouseMode monitoring_relative_state = AUTOMODE_MOUSEREL
   \<and> Mouse_XThreshold monitoring_relative_state = 1
   \<and> Mouse_YThreshold monitoring_relative_state = 1
   \<and> Mouse_YAxis monitoring_relative_state = 1
   \<and> inputs_at_rest monitoring_relative_state
   \<and> v4sa_mousex monitoring_relative_state = 5 \<and> v4sa_mousey monitoring_relative_state = 0
   \<and> acia (IKBD_SendAutoKeyboardCommands monitoring_relative_state)
       = acia monitoring_relative_state @ [0, 0]
   \<and> acia (IKBD_SendAutoKeyboardCommands monitoring_relative_state)
       \<noteq> acia monitoring_relative_state @ [0xF8, 5, 0]
   \<and> ikbd_reset_counter middle_button_state = 0
   \<and> MouseMode middle_button_state = AUTOMODE_MOUSEREL
   \<and> Mouse_XThreshold middle_button_state = 1 \<and> Mouse_YThreshold middle_button_state = 1
   \<and> Mouse_YAxis middle_button_state = 1
   \<and> v4sa_mouseb middle_button_state AND 3 = 0
   \<and> bOldLButtonDown middle_button_state = 0 \<and> bOldRButtonDown middle_button_state = 0
   \<and> v4sa_mousew middle_button_state = 0
   \<and> v4sa_mousex middle_button_state = 5 \<and> v4sa_mousey middle_button_state = 0
   \<and> acia (IKBD_SendAutoKeyboardCommands middle_button_state)
       = acia middle_button_state @ [0xF8, 5, 0, 0x37]
   \<and> ikbd_reset_counter stick_held_reset_state = 0
   \<and> MouseMode stick_held_reset_state = AUTOMODE_MOUSEREL
   \<and> Mouse_XThreshold stick_held_reset_state = 1 \<and> Mouse_YThreshold stick_held_reset_state = 1
   \<and> Mouse_YAxis stick_held_reset_state = 1
   \<and> v4sa_mouseb stick_held_reset_state = 0
   \<and> v4sa_mousew stick_held_reset_state = 0
   \<and> input_state (joypad stick_held_reset_state ! 1) = v4sa_joyb1 stick_held_reset_state
   \<and> input_state (joypad stick_held_reset_state ! 0) = v4sa_joyb0 stick_held_reset_state
   \<and> v4sa_mousex stick_held_reset_state = 5 \<and> v4sa_mousey stick_held_reset_state = 0
   \<and> acia (IKBD_SendAutoKeyboardCommands stick_held_reset_state)
       = acia stick_held_reset_state @ [0xFF, 1, 0xF8, 5, 0]"
proof -
  have f: "ikbd_reset_counter monitoring_relative_state = 0"
      "MouseMode monitoring_relative_state = AUTOMODE_MOUSEREL"
      "JoystickMode monitoring_relative_state = AUTOMODE_JOYSTICK_MONITORING"
      "PrevJoyData0 monitoring_relative_state = 0" "PrevJoyData1 monitoring_relative_state = 0"
      "Mouse_XThreshold monitoring_relative_state = 1"
      "Mouse_YThreshold monitoring_relative_state = 1"
      "Mouse_YAxis monitoring_relative_state = 1"
      "v4sa_mousex monitoring_relative_state = 5" "v4sa_mousey monitoring_relative_state = 0"
    by (simp_all add: monitoring_relative_state_eq power_on_rest)
  have t: "acia (IKBD_SendAutoKeyboardCommands monitoring_relative_state)
       = acia monitoring_relative_state @ [0, 0]"
    using tick_monitoring_packet [OF f(1) f(2) f(3) monitoring_relative_state_rest]
    by (simp add: f(4,5))
  have a: "ikbd_reset_counter monitoring_relative_state = 0
   \<and> MouseMode monitoring_relative_state = AUTOMODE_MOUSEREL
   \<and> Mouse_XThreshold monitoring_relative_state = 1
   \<and> Mouse_YThreshold monitoring_relative_state = 1
   \<and> Mouse_YAxis monitoring_relative_state = 1
   \<and> inputs_at_rest monitoring_relative_state
   \<and> v4sa_mousex monitoring_relative_state = 5 \<and> v4sa_mousey monitoring_relative_state = 0
   \<and> acia (IKBD_SendAutoKeyboardCommands monitoring_relative_state)
       = acia monitoring_relative_state @ [0, 0]
   \<and> acia (IKBD_SendAutoKeyboardCommands monitoring_relative_state)
       \<noteq> acia monitoring_relative_state @ [0xF8, 5, 0]"
    unfolding t using f monitoring_relative_state_rest by simp
  show ?thesis
    by (intro conjI a [THEN conjunct1] more_states_facts
        a [THEN conjunct2, THEN conjunct1]
        a [THEN conjunct2, THEN conjunct2, THEN conjunct1]
        a [THEN conjunct2, THEN conjunct2, THEN conjunct2, THEN conjunct1]
        a [THEN conjunct2, THEN conjunct2, THEN conjunct2, THEN conjunct2, THEN conjunct1]
        a [THEN conjunct2, THEN conjunct2, THEN conjunct2, THEN conjunct2, THEN conjunct2,
           THEN conjunct1]
        a [THEN conjunct2, THEN conjunct2, THEN conjunct2, THEN conjunct2, THEN conjunct2,
           THEN conjunct2, THEN conjunct1]
        a [THEN conjunct2, THEN conjunct2, THEN conjunct2, THEN conjunct2, THEN conjunct2,
           THEN conjunct2, THEN conjunct2, THEN conjunct1]
        a [THEN conjunct2, THEN conjunct2, THEN conjunct2, THEN conjunct2, THEN conjunct2,
           THEN conjunct2, THEN conjunct2, THEN conjunct2, THEN conjunct1]
        a [THEN conjunct2, THEN conjunct2, THEN conjunct2, THEN conjunct2, THEN conjunct2,
           THEN conjunct2, THEN conjunct2, THEN conjunct2, THEN conjunct2])
qed

text \<open>
  Claim C7, amended. Let the reset countdown be expired, the mouse in relative mode, both
  thresholds 1, the Y axis the default, the inputs at rest (\<open>inputs_at_rest\<close>), and let the
  tick find the movement 5 in X and 0 in Y. If the joysticks are not in monitoring mode,
  the tick sends exactly the three bytes 0xF8, 5, 0, followed only by what the call of an
  executing custom read handler sends at the end of the tick: nothing when no custom
  program is executing or when the handler is that of Froggies or Dragonnels, one more
  byte when it is that of Transbeauce 2. If the joysticks are in monitoring mode, the tick
  sends the two bytes of the monitoring packet instead, made of the bitmasks last sent.
\<close>

theorem C7_relative_packet:
  assumes "ikbd_reset_counter s = 0"
    and "MouseMode s = AUTOMODE_MOUSEREL"
    and "Mouse_XThreshold s = 1" and "Mouse_YThreshold s = 1"
    and "Mouse_YAxis s = 1"
    and "inputs_at_rest s"
    and "v4sa_mousex s = 5" and "v4sa_mousey s = 0"
  shows "(JoystickMode s \<noteq> AUTOMODE_JOYSTICK_MONITORING \<longrightarrow>
           acia (IKBD_SendAutoKeyboardCommands s)
             = acia s @ [0xF8, 5, 0] @ custom_read_output (s\<lparr>JoyData1 := PrevJoyData1 s\<rparr>)
           \<and> (\<not> IKBD_ExeMode s \<or> pIKBD_CustomCodeHandler_Read s = None
               \<or> pIKBD_CustomCodeHandler_Read s = Some FroggiesMenu_Read
               \<or> pIKBD_CustomCodeHandler_Read s = Some DragonnelsMenu_Read \<longrightarrow>
                acia (IKBD_SendAutoKeyboardCommands s) = acia s @ [0xF8, 5, 0])
           \<and> (IKBD_ExeMode s \<and> pIKBD_CustomCodeHandler_Read s = Some Transbeauce2Menu_Read \<longrightarrow>
                length (acia (IKBD_SendAutoKeyboardCommands s)) = length (acia s) + 4))
       \<and> (JoystickMode s = AUTOMODE_JOYSTICK_MONITORING \<longrightarrow>
           acia (IKBD_SendAutoKeyboardCommands s) =
             acia s @ [ucast (drop_bit 6 (PrevJoyData0 s AND 0x80)
                              OR drop_bit 7 (PrevJoyData1 s AND 0x80)),
                       ucast (push_bit 4 (PrevJoyData0 s AND 0x0f) OR (PrevJoyData1 s AND 0x0f))])"
proof -
  define u where "u = s\<lparr>JoyData1 := PrevJoyData1 s\<rparr>"
  have uf: "IKBD_ExeMode u = IKBD_ExeMode s"
      "pIKBD_CustomCodeHandler_Read u = pIKBD_CustomCodeHandler_Read s"
    by (simp_all add: u_def)
  have A: "JoystickMode s \<noteq> AUTOMODE_JOYSTICK_MONITORING \<longrightarrow>
           acia (IKBD_SendAutoKeyboardCommands s) = acia s @ [0xF8, 5, 0] @ custom_read_output u
           \<and> (\<not> IKBD_ExeMode s \<or> pIKBD_CustomCodeHandler_Read s = None
               \<or> pIKBD_CustomCodeHandler_Read s = Some FroggiesMenu_Read
               \<or> pIKBD_CustomCodeHandler_Read s = Some DragonnelsMenu_Read \<longrightarrow>
                acia (IKBD_SendAutoKeyboardCommands s) = acia s @ [0xF8, 5, 0])
           \<and> (IKBD_ExeMode s \<and> pIKBD_CustomCodeHandler_Read s = Some Transbeauce2Menu_Read \<longrightarrow>
                length (acia (IKBD_SendAutoKeyboardCommands s)) = length (acia s) + 4)"
    (is "_ \<longrightarrow> ?Q")
  proof
    assume mon: "JoystickMode s \<noteq> AUTOMODE_JOYSTICK_MONITORING"
    have e: "acia (IKBD_SendAutoKeyboardCommands s) = acia s @ [0xF8, 5, 0] @ custom_read_output u"
      unfolding u_def
      by (rule tick_relative_state [OF assms(1) assms(2) mon assms(3) assms(4) assms(5) assms(6)
            assms(7) assms(8)])
    have q: "\<not> IKBD_ExeMode s \<or> pIKBD_CustomCodeHandler_Read s = None
               \<or> pIKBD_CustomCodeHandler_Read s = Some FroggiesMenu_Read
               \<or> pIKBD_CustomCodeHandler_Read s = Some DragonnelsMenu_Read \<longrightarrow>
                acia (IKBD_SendAutoKeyboardCommands s) = acia s @ [0xF8, 5, 0]"
    proof
      assume h: "\<not> IKBD_ExeMode s \<or> pIKBD_CustomCodeHandler_Read s = None
               \<or> pIKBD_CustomCodeHandler_Read s = Some FroggiesMenu_Read
               \<or> pIKBD_CustomCodeHandler_Read s = Some DragonnelsMenu_Read"
      have "custom_read_output u = []"
      proof (cases "pIKBD_CustomCodeHandler_Read s = Some FroggiesMenu_Read
               \<or> pIKBD_CustomCodeHandler_Read s = Some DragonnelsMenu_Read")
        case True
        then show ?thesis by (intro custom_read_output_silent) (simp add: uf)
      next
        case False
        then have "\<not> (IKBD_ExeMode u \<and> pIKBD_CustomCodeHandler_Read u \<noteq> None)"
          using h by (auto simp add: uf)
        then show ?thesis by (rule custom_read_output_idle)
      qed
      then show "acia (IKBD_SendAutoKeyboardCommands s) = acia s @ [0xF8, 5, 0]"
        unfolding e by simp
    qed
    have r: "IKBD_ExeMode s \<and> pIKBD_CustomCodeHandler_Read s = Some Transbeauce2Menu_Read \<longrightarrow>
                length (acia (IKBD_SendAutoKeyboardCommands s)) = length (acia s) + 4"
    proof
      assume h: "IKBD_ExeMode s \<and> pIKBD_CustomCodeHandler_Read s = Some Transbeauce2Menu_Read"
      have "length (custom_read_output u) = 1"
        by (rule custom_read_output_Transbeauce2) (use h in \<open>simp_all add: uf\<close>)
      then show "length (acia (IKBD_SendAutoKeyboardCommands s)) = length (acia s) + 4"
        unfolding e by simp
    qed
    from e q r show ?Q by (intro conjI)
  qed
  have B: "JoystickMode s = AUTOMODE_JOYSTICK_MONITORING \<longrightarrow>
           acia (IKBD_SendAutoKeyboardCommands s) =
             acia s @ [ucast (drop_bit 6 (PrevJoyData0 s AND 0x80)
                              OR drop_bit 7 (PrevJoyData1 s AND 0x80)),
                       ucast (push_bit 4 (PrevJoyData0 s AND 0x0f) OR (PrevJoyData1 s AND 0x0f))]"
  proof
    assume mon: "JoystickMode s = AUTOMODE_JOYSTICK_MONITORING"
    show "acia (IKBD_SendAutoKeyboardCommands s) =
             acia s @ [ucast (drop_bit 6 (PrevJoyData0 s AND 0x80)
                              OR drop_bit 7 (PrevJoyData1 s AND 0x80)),
                       ucast (push_bit 4 (PrevJoyData0 s AND 0x0f) OR (PrevJoyData1 s AND 0x0f))]"
      by (rule tick_monitoring_packet [OF assms(1) assms(2) mon assms(6)])
  qed
  from A B show ?thesis unfolding u_def by (rule conjI)
qed

theorem C7_relative_packet_witness:
  "ikbd_reset_counter mouse_moved_state = 0
   \<and> MouseMode mouse_moved_state = AUTOMODE_MOUSEREL
   \<and> JoystickMode mouse_moved_state = AUTOMODE_JOYSTICK
   \<and> Mouse_XThreshold mouse_moved_state = 1 \<and> Mouse_YThreshold mouse_moved_state = 1
   \<and> Mouse_YAxis mouse_moved_state = 1
   \<and> inputs_at_rest mouse_moved_state
   \<and> IKBD_ExeMode mouse_moved_state = False
   \<and> v4sa_mousex mouse_moved_state = 5 \<and> v4sa_mousey mouse_moved_state = 0
   \<and> acia (IKBD_SendAutoKeyboardCommands mouse_moved_state) = [0xF1, 0xF8, 5, 0]"
proof -
  have f: "ikbd_reset_counter mouse_moved_state = 0"
      "MouseMode mouse_moved_state = AUTOMODE_MOUSEREL"
      "JoystickMode mouse_moved_state = AUTOMODE_JOYSTICK"
      "Mouse_XThreshold mouse_moved_state = 1" "Mouse_YThreshold mouse_moved_state = 1"
      "Mouse_YAxis mouse_moved_state = 1"
      "IKBD_ExeMode mouse_moved_state = False"
      "v4sa_mousex mouse_moved_state = 5" "v4sa_mousey mouse_moved_state = 0"
      "acia mouse_moved_state = [0xF1]"
    by (simp_all add: mouse_moved_state_eq power_on_rest power_on_fields)
  note T = C7_relative_packet [OF f(1) f(2) f(4) f(5) f(6) mouse_moved_state_rest f(8) f(9)]
  have m: "JoystickMode mouse_moved_state \<noteq> AUTOMODE_JOYSTICK_MONITORING"
    by (simp add: f(3))
  have i: "\<not> IKBD_ExeMode mouse_moved_state
      \<or> pIKBD_CustomCodeHandler_Read mouse_moved_state = None
      \<or> pIKBD_CustomCodeHandler_Read mouse_moved_state = Some FroggiesMenu_Read
      \<or> pIKBD_CustomCodeHandler_Read mouse_moved_state = Some DragonnelsMenu_Read"
    by (simp add: f(7))
  have "acia (IKBD_SendAutoKeyboardCommands mouse_moved_state)
      = acia mouse_moved_state @ [0xF8, 5, 0]"
    by (rule T [THEN conjunct1, rule_format, OF m, THEN conjunct2, THEN conjunct1, rule_format,
          OF i])
  then show ?thesis
    using f mouse_moved_state_rest by simp
qed

text \<open>
  Claim C2, evaluated at a failing input. After power-on and forty ticks the command 0x13
  sets \<^verbatim>\<open>Keyboard.PauseOutput\<close>; the mouse then moves by 5 in X. The next tick sends the
  relative mouse packet 0xF8, 5, 0 all the same: nothing reads the flag.
\<close>

theorem C2_paused_tick_emits:
  "PauseOutput paused_state \<and> ikbd_reset_counter paused_state = 0
   \<and> acia paused_state = [0xF1]
   \<and> acia (IKBD_SendAutoKeyboardCommands paused_state) = [0xF1, 0xF8, 5, 0]"
proof -
  have f: "ikbd_reset_counter paused_state = 0"
      "MouseMode paused_state = AUTOMODE_MOUSEREL"
      "JoystickMode paused_state \<noteq> AUTOMODE_JOYSTICK_MONITORING"
      "Mouse_XThreshold paused_state = 1" "Mouse_YThreshold paused_state = 1"
      "Mouse_YAxis paused_state = 1"
      "\<not> (IKBD_ExeMode paused_state \<and> pIKBD_CustomCodeHandler_Read paused_state \<noteq> None)"
      "v4sa_mousex paused_state = 5" "v4sa_mousey paused_state = 0"
      "acia paused_state = [0xF1]" "PauseOutput paused_state"
    by (simp_all add: paused_state_eq power_on_rest power_on_fields)
  show ?thesis
    using tick_relative_packet [OF f(1) f(2) f(3) f(4) f(5) f(6) paused_state_rest f(7) f(8) f(9)]
      f(1,10,11)
    by simp
qed

end
